theory Spec2Isabelle
  imports Complex_Main "HOL-Library.Char_ord" "HOL-Library.List_Lexorder"
begin

section \<open>Python values and library functions used by the scoring core\<close>

text \<open>
  Python floats are modelled as real numbers: sums, means and variances are exact.  The
  one exception is the cursor of the window aligner, which the loop accumulates in double
  precision and tests against the largest timestamp: there the sum is rounded as the
  machine rounds it (\<open>float_add\<close> below).
  Dictionaries are association lists in insertion order (the order Python iterates a
  dict in); a key that a caller reads with \<^verbatim>\<open>d.get(key, default)\<close> is an optional
  field or an association-list lookup with that default.  Library calls that raise are
  values of \<open>py_error + 'a\<close>, with \<open>Inl\<close> for the exception.
\<close>

datatype py_error = StatisticsError | ValueError | OverflowError | IndexError | KeyError

definition py_bind :: "py_error + 'a \<Rightarrow> ('a \<Rightarrow> py_error + 'b) \<Rightarrow> py_error + 'b" where
  "py_bind m f = (case m of Inl e \<Rightarrow> Inl e | Inr v \<Rightarrow> f v)"

fun py_mapM :: "('a \<Rightarrow> py_error + 'b) \<Rightarrow> 'a list \<Rightarrow> py_error + 'b list" where
  "py_mapM f [] = Inr []"
| "py_mapM f (x # xs) = py_bind (f x) (\<lambda>y. py_bind (py_mapM f xs) (\<lambda>ys. Inr (y # ys)))"

text \<open>\<^verbatim>\<open>d.get(key, default)\<close> on a dictionary held as an association list.\<close>

definition dict_get :: "(string \<times> 'v) list \<Rightarrow> string \<Rightarrow> 'v \<Rightarrow> 'v" where
  "dict_get d k dflt = (case map_of d k of None \<Rightarrow> dflt | Some v \<Rightarrow> v)"

text \<open>\<^verbatim>\<open>d[key] = v\<close>: an existing key keeps its position, a new key goes to the end.\<close>

fun dict_set :: "(string \<times> 'v) list \<Rightarrow> string \<Rightarrow> 'v \<Rightarrow> (string \<times> 'v) list" where
  "dict_set [] k v = [(k, v)]"
| "dict_set ((k', v') # d) k v = (if k' = k then (k, v) # d else (k', v') # dict_set d k v)"

text \<open>A field read with \<^verbatim>\<open>item.get("name", default)\<close>.\<close>

definition get_or :: "'a option \<Rightarrow> 'a \<Rightarrow> 'a" where
  "get_or field dflt = (case field of None \<Rightarrow> dflt | Some v \<Rightarrow> v)"

text \<open>\<^verbatim>\<open>_clamp(value, low, high) = max(low, min(high, float(value)))\<close>, the same in
  \<^verbatim>\<open>score_calculator.py\<close>, \<^verbatim>\<open>advanced_scoring.py\<close> and \<^verbatim>\<open>fairness.py\<close>.\<close>

definition clamp :: "real \<Rightarrow> real \<Rightarrow> real \<Rightarrow> real" where
  "clamp val low high = max low (min high val)"

text \<open>\<^verbatim>\<open>round(x, ndigits)\<close>: the nearest multiple of \<open>10^-ndigits\<close>, a tie going to the
  even neighbour.  (On floats the tie is decided on the binary value; the model decides
  it on the real one.)\<close>

definition round_half_even :: "real \<Rightarrow> int" where
  "round_half_even y =
     (let f = \<lfloor>y\<rfloor>; d = y - of_int f
      in if d < 1/2 then f else if 1/2 < d then f + 1 else if even f then f else f + 1)"

definition py_round :: "real \<Rightarrow> nat \<Rightarrow> real" where
  "py_round x ndigits = of_int (round_half_even (x * 10 ^ ndigits)) / 10 ^ ndigits"

text \<open>Addition of two doubles (IEEE 754 binary64, round to nearest, ties to even): the
  exact sum is rounded to 53 significant bits.  \<open>float_exponent x\<close> is the exponent \<open>e\<close> with
  \<open>2^e \<le> |x| < 2^(e+1)\<close>, and the spacing of the doubles around \<open>x\<close> is \<open>2^(e-52)\<close>.  Overflow
  to infinity (beyond about \<open>1.8e308\<close>) and the subnormal range are not modelled.\<close>

definition pow2 :: "int \<Rightarrow> real" where
  "pow2 e = (if 0 \<le> e then 2 ^ nat e else 1 / 2 ^ nat (- e))"

function float_exponent :: "real \<Rightarrow> int" where
  "float_exponent x =
     (if x = 0 then 0
      else if 2 \<le> \<bar>x\<bar> then float_exponent (x / 2) + 1
      else if \<bar>x\<bar> < 1 then float_exponent (x * 2) - 1
      else 0)"
  by pat_completeness auto
termination
proof (relation "measure (\<lambda>x. nat \<bar>\<lfloor>log 2 \<bar>x\<bar>\<rfloor>\<bar>)", goal_cases)
  case 1
  show ?case by simp
next
  case (2 x)
  have "log 2 \<bar>x / 2\<bar> = log 2 \<bar>x\<bar> - 1"
    using 2 by (simp add: log_divide)
  then have fl: "\<lfloor>log 2 \<bar>x / 2\<bar>\<rfloor> = \<lfloor>log 2 \<bar>x\<bar>\<rfloor> - 1" by simp
  have "log 2 2 \<le> log 2 \<bar>x\<bar>" using 2 by (subst log_le_cancel_iff) simp_all
  then have "1 \<le> log 2 \<bar>x\<bar>" by simp
  then have "1 \<le> \<lfloor>log 2 \<bar>x\<bar>\<rfloor>" by linarith
  with fl have "nat \<bar>\<lfloor>log 2 \<bar>x / 2\<bar>\<rfloor>\<bar> < nat \<bar>\<lfloor>log 2 \<bar>x\<bar>\<rfloor>\<bar>" by linarith
  then show ?case by simp
next
  case (3 x)
  have "log 2 \<bar>x * 2\<bar> = log 2 \<bar>x\<bar> + 1"
    using 3 by (simp add: log_mult abs_mult)
  then have fl: "\<lfloor>log 2 \<bar>x * 2\<bar>\<rfloor> = \<lfloor>log 2 \<bar>x\<bar>\<rfloor> + 1" by simp
  have "log 2 \<bar>x\<bar> < log 2 1" using 3 by (subst log_less_cancel_iff) simp_all
  then have "log 2 \<bar>x\<bar> < 0" by simp
  then have "\<lfloor>log 2 \<bar>x\<bar>\<rfloor> < 0" by linarith
  with fl have "nat \<bar>\<lfloor>log 2 \<bar>x * 2\<bar>\<rfloor>\<bar> < nat \<bar>\<lfloor>log 2 \<bar>x\<bar>\<rfloor>\<bar>" by linarith
  then show ?case by simp
qed

declare float_exponent.simps [simp del]

definition float_round :: "real \<Rightarrow> real" where
  "float_round x =
     (let ulp = pow2 (float_exponent x - 52)
      in of_int (round_half_even (x / ulp)) * ulp)"

definition float_add :: "real \<Rightarrow> real \<Rightarrow> real" where
  "float_add a b = float_round (a + b)"

text \<open>\<^verbatim>\<open>statistics.mean\<close> and \<^verbatim>\<open>statistics.pvariance\<close> raise \<^verbatim>\<open>StatisticsError\<close> on
  an empty sequence; \<^verbatim>\<open>max\<close> and \<^verbatim>\<open>min\<close> raise \<^verbatim>\<open>ValueError\<close>.\<close>

definition mean_of :: "real list \<Rightarrow> real" where
  "mean_of xs = sum_list xs / real (length xs)"

definition statistics_mean :: "real list \<Rightarrow> py_error + real" where
  "statistics_mean xs = (if xs = [] then Inl StatisticsError else Inr (mean_of xs))"

definition pvariance_of :: "real list \<Rightarrow> real" where
  "pvariance_of xs = sum_list (map (\<lambda>x. (x - mean_of xs)\<^sup>2) xs) / real (length xs)"

definition statistics_pvariance :: "real list \<Rightarrow> py_error + real" where
  "statistics_pvariance xs = (if xs = [] then Inl StatisticsError else Inr (pvariance_of xs))"

fun py_max :: "real list \<Rightarrow> py_error + real" where
  "py_max [] = Inl ValueError"
| "py_max (x # xs) = Inr (fold max xs x)"

fun py_min :: "real list \<Rightarrow> py_error + real" where
  "py_min [] = Inl ValueError"
| "py_min (x # xs) = Inr (fold min xs x)"

text \<open>\<^verbatim>\<open>math.exp\<close> raises \<^verbatim>\<open>OverflowError\<close> when the result is beyond the largest
  double, that is when the argument is above \<open>ln (1.797... * 10^308)\<close>, which is
  \<open>709.782712893384\<close> to the last digit of a double.\<close>

definition exp_overflow_bound :: real where
  "exp_overflow_bound = 709.782712893384"

definition math_exp :: "real \<Rightarrow> py_error + real" where
  "math_exp x = (if exp_overflow_bound < x then Inl OverflowError else Inr (exp x))"

text \<open>\<^verbatim>\<open>str.lower()\<close> on ASCII text.\<close>

fun lower_char :: "char \<Rightarrow> char" where
  "lower_char (Char b0 b1 b2 b3 b4 b5 b6 b7) =
     (let n = (of_char (Char b0 b1 b2 b3 b4 b5 b6 b7) :: nat)
      in if 65 \<le> n \<and> n \<le> 90 then Char b0 b1 b2 b3 b4 True b6 b7
         else Char b0 b1 b2 b3 b4 b5 b6 b7)"

definition lower :: "string \<Rightarrow> string" where
  "lower s = map lower_char s"

section \<open>Rubric mapper (\<^verbatim>\<open>scoring/rubric.py\<close>)\<close>

record RubricLevel =
  min_score :: real
  label :: string
  descriptor :: string

record rubric_dimension =
  title :: string
  description :: string
  levels :: "RubricLevel list"

definition communication_levels :: "RubricLevel list" where
  "communication_levels =
    [\<lparr>min_score = 85, label = ''Excellent'',
       descriptor = ''Communicates ideas with clear structure, concise language, and strong audience alignment.''\<rparr>,
     \<lparr>min_score = 70, label = ''Good'',
       descriptor = ''Communicates clearly with minor pacing or structure gaps that do not block understanding.''\<rparr>,
     \<lparr>min_score = 0, label = ''Needs Improvement'',
       descriptor = ''Communication is inconsistent; pacing, clarity, or structure frequently reduce impact.''\<rparr>]"

definition technical_clarity_levels :: "RubricLevel list" where
  "technical_clarity_levels =
    [\<lparr>min_score = 85, label = ''Excellent'',
       descriptor = ''Explains technical concepts accurately with strong depth, tradeoffs, and measurable outcomes.''\<rparr>,
     \<lparr>min_score = 70, label = ''Good'',
       descriptor = ''Technical explanations are mostly correct with moderate depth and occasional missing details.''\<rparr>,
     \<lparr>min_score = 0, label = ''Needs Improvement'',
       descriptor = ''Technical explanations are shallow or ambiguous; key reasoning and validation are missing.''\<rparr>]"

definition behavioral_response_levels :: "RubricLevel list" where
  "behavioral_response_levels =
    [\<lparr>min_score = 85, label = ''Excellent'',
       descriptor = ''Behavioral examples are specific, reflective, and outcome-focused with clear ownership.''\<rparr>,
     \<lparr>min_score = 70, label = ''Good'',
       descriptor = ''Behavioral responses are relevant and understandable but can improve in specificity or impact.''\<rparr>,
     \<lparr>min_score = 0, label = ''Needs Improvement'',
       descriptor = ''Behavioral responses are generic, lack clear structure, or miss tangible outcomes.''\<rparr>]"

definition engagement_levels :: "RubricLevel list" where
  "engagement_levels =
    [\<lparr>min_score = 85, label = ''Excellent'',
       descriptor = ''Maintains strong engagement throughout with stable eye contact and controlled non-verbal cues.''\<rparr>,
     \<lparr>min_score = 70, label = ''Good'',
       descriptor = ''Shows consistent engagement with minor non-verbal variability.''\<rparr>,
     \<lparr>min_score = 0, label = ''Needs Improvement'',
       descriptor = ''Engagement fluctuates; off-screen gaze or unstable non-verbal cues reduce interviewer connection.''\<rparr>]"

definition RUBRIC_DIMENSIONS :: "(string \<times> rubric_dimension) list" where
  "RUBRIC_DIMENSIONS =
    [(''communication'',
        \<lparr>title = ''Communication'',
         description = ''Clarity of verbal delivery and structured articulation of ideas.'',
         levels = communication_levels\<rparr>),
     (''technical_clarity'',
        \<lparr>title = ''Technical Clarity'',
         description = ''Accuracy and depth when explaining technical decisions, tradeoffs, and outcomes.'',
         levels = technical_clarity_levels\<rparr>),
     (''behavioral_response'',
        \<lparr>title = ''Behavioral Response'',
         description = ''Quality of examples, reflection, and behavioral framing under interview prompts.'',
         levels = behavioral_response_levels\<rparr>),
     (''engagement'',
        \<lparr>title = ''Engagement'',
         description = ''Visible attentiveness and interview presence through gaze, posture, and interaction stability.'',
         levels = engagement_levels\<rparr>)]"

text \<open>\<^verbatim>\<open>score_to_level\<close>: the first level whose \<^verbatim>\<open>min_score\<close> the clamped score reaches,
  else \<^verbatim>\<open>levels[-1]\<close> (an \<^verbatim>\<open>IndexError\<close> on an empty list).\<close>

definition score_to_level :: "real \<Rightarrow> RubricLevel list \<Rightarrow> py_error + RubricLevel" where
  "score_to_level score lvls =
     (let val = max 0 (min 100 score)
      in case find (\<lambda>level. min_score level \<le> val) lvls of
           Some level \<Rightarrow> Inr level
         | None \<Rightarrow> (if lvls = [] then Inl IndexError else Inr (last lvls)))"

text \<open>\<^verbatim>\<open>_resolve_dimension_score\<close>: the first of primary, fallback, default that is not
  \<^verbatim>\<open>None\<close>, clamped to \<open>[0, 100]\<close>.  The default is always a number at the call sites.\<close>

definition resolve_dimension_score :: "real option \<Rightarrow> real option \<Rightarrow> real \<Rightarrow> real" where
  "resolve_dimension_score primary fallback dflt =
     (case primary of
        Some v \<Rightarrow> max 0 (min 100 v)
      | None \<Rightarrow> (case fallback of
                  Some v \<Rightarrow> max 0 (min 100 v)
                | None \<Rightarrow> max 0 (min 100 dflt)))"

record rubric_entry =
  re_title :: string
  re_description :: string
  re_score :: real
  re_level :: string
  re_descriptor :: string

definition rubric_entry_for :: "string \<times> real \<Rightarrow> py_error + (string \<times> rubric_entry)" where
  "rubric_entry_for ds =
     (case map_of RUBRIC_DIMENSIONS (fst ds) of
        None \<Rightarrow> Inl KeyError
      | Some definition \<Rightarrow>
          py_bind (score_to_level (snd ds) (levels definition)) (\<lambda>level.
            Inr (fst ds,
                 \<lparr>re_title = title definition,
                  re_description = description definition,
                  re_score = py_round (snd ds) 2,
                  re_level = label level,
                  re_descriptor = descriptor level\<rparr>)))"

definition map_scores_to_rubric ::
  "(string \<times> real) list \<Rightarrow> (string \<times> real) list option \<Rightarrow> py_error + (string \<times> rubric_entry) list" where
  "map_scores_to_rubric summary_scores advanced_scores_opt =
     (let advanced_scores = get_or advanced_scores_opt [];
          communication_score = resolve_dimension_score
            (map_of summary_scores ''communicationEffectiveness'')
            (map_of advanced_scores ''communicationClarity'')
            (dict_get summary_scores ''speechFluency'' 0);
          technical_clarity_score = resolve_dimension_score
            (map_of advanced_scores ''interviewComprehension'')
            (map_of summary_scores ''contentRelevanceScore'')
            (dict_get summary_scores ''speechFluency'' 0);
          behavioral_response_score = resolve_dimension_score
            (map_of summary_scores ''overallPerformanceScore'')
            (map_of advanced_scores ''overallPerformance'')
            (dict_get summary_scores ''emotionalStability'' 0);
          engagement_score = resolve_dimension_score
            (map_of summary_scores ''engagementScore'')
            (map_of advanced_scores ''engagement'')
            50;
          dimension_scores =
            [(''communication'', communication_score),
             (''technical_clarity'', technical_clarity_score),
             (''behavioral_response'', behavioral_response_score),
             (''engagement'', engagement_score)]
      in py_mapM rubric_entry_for dimension_scores)"

section \<open>Neutral-feature bands (\<^verbatim>\<open>scoring/fairness.py\<close>)\<close>

definition band_eye_contact :: "real \<Rightarrow> string" where
  "band_eye_contact eye_contact =
     (let val = (if eye_contact \<le> 1 then eye_contact * 100 else eye_contact)
      in if 75 \<le> val then ''high_eye_contact''
         else if 45 \<le> val then ''medium_eye_contact''
         else ''low_eye_contact'')"

definition band_speaking_rate :: "real \<Rightarrow> string" where
  "band_speaking_rate rate =
     (if rate \<le> 0 then ''unknown_rate''
      else if rate < 110 then ''slow_rate''
      else if rate \<le> 160 then ''optimal_rate''
      else ''fast_rate'')"

definition band_pause :: "real \<Rightarrow> string" where
  "band_pause pause =
     (if pause \<le> 0 then ''minimal_pause''
      else if pause < 0.5 then ''short_pause''
      else if pause < 1 then ''moderate_pause''
      else ''long_pause'')"

definition band_relevance :: "real \<Rightarrow> string" where
  "band_relevance relevance =
     (if 80 \<le> relevance then ''high_relevance''
      else if 60 \<le> relevance then ''medium_relevance''
      else ''low_relevance'')"

section \<open>Inputs shared by the scorers and auditors\<close>

text \<open>The metric dictionaries are read key by key with \<^verbatim>\<open>.get(key, 0.0)\<close>; a field that is
  \<open>None\<close> is a key the dictionary does not hold.\<close>

record engagement_metrics =
  overallEngagement :: "real option"
  eyeContactRatio :: "real option"
  avgHeadStability :: "real option"
  avgSpeakingRateWpm :: "real option"

record speech_quality_metrics =
  averagePitch :: "real option"
  averagePauseDuration :: "real option"
  speakingRateWpm :: "real option"
  prosodyScore :: "real option"

record segment_label =
  segmentId :: "string option"
  textRelevanceScore :: "real option"

section \<open>Neutral-feature fairness analyzer (\<^verbatim>\<open>scoring/fairness.py\<close>)\<close>

record fairness_sample =
  fs_sessionId :: string
  fs_groups :: "(string \<times> string) list"
  fs_scores :: "(string \<times> real) list"

text \<open>A warning stands for the message
  \<^verbatim>\<open>"Score spread for {score_name} across {group_key} is {spread:.2f}; investigate calibration."\<close>\<close>

datatype fairness_warning = SpreadWarning string string real

record score_group_report =
  bucketMeans :: "(string \<times> real) list"
  spread :: real

record fairness_report =
  sampleCount :: nat
  neutralMetricsUsed :: "string list"
  groupVariance :: "(string \<times> (string \<times> score_group_report) list) list"
  warnings :: "fairness_warning list"

definition max_samples :: nat where
  "max_samples = 1000"

text \<open>\<^verbatim>\<open>xs[-n:]\<close> for a positive \<open>n\<close>: the last \<open>n\<close> items, all of them when there are fewer.\<close>

definition last_n :: "nat \<Rightarrow> 'a list \<Rightarrow> 'a list" where
  "last_n n xs = drop (length xs - n) xs"

definition average_relevance :: "segment_label list \<Rightarrow> py_error + real" where
  "average_relevance segment_labels =
     (if segment_labels = [] then Inr 0
      else let vals = map (\<lambda>item. get_or (textRelevanceScore item) 0) segment_labels
           in if vals \<noteq> [] then statistics_mean vals else Inr 0)"

text \<open>\<^verbatim>\<open>grouped_values[bucket][score_name].append(float(score_value))\<close> on nested
  \<^verbatim>\<open>defaultdict\<close>s.\<close>

definition grouped_append ::
  "string \<Rightarrow> string \<times> real \<Rightarrow> (string \<times> (string \<times> real list) list) list
     \<Rightarrow> (string \<times> (string \<times> real list) list) list" where
  "grouped_append bucket sv grouped =
     (let inner = dict_get grouped bucket []
      in dict_set grouped bucket (dict_set inner (fst sv) (dict_get inner (fst sv) [] @ [snd sv])))"

definition grouped_add_row ::
  "string \<Rightarrow> fairness_sample \<Rightarrow> (string \<times> (string \<times> real list) list) list
     \<Rightarrow> (string \<times> (string \<times> real list) list) list" where
  "grouped_add_row group_key row grouped =
     (let bucket = dict_get (fs_groups row) group_key ''unknown''
      in fold (grouped_append bucket) (fs_scores row) grouped)"

definition grouped_values_of ::
  "string \<Rightarrow> fairness_sample list \<Rightarrow> (string \<times> (string \<times> real list) list) list" where
  "grouped_values_of group_key history = fold (grouped_add_row group_key) history []"

definition bucket_means_of ::
  "(string \<times> (string \<times> real list) list) list \<Rightarrow> string \<Rightarrow> py_error + (string \<times> real) list" where
  "bucket_means_of grouped score_name =
     py_mapM (\<lambda>bv. py_bind (statistics_mean (dict_get (snd bv) score_name []))
                      (\<lambda>m. Inr (fst bv, m)))
             (filter (\<lambda>bv. dict_get (snd bv) score_name [] \<noteq> []) grouped)"

definition spread_of_means :: "(string \<times> real) list \<Rightarrow> py_error + real" where
  "spread_of_means means =
     (if means \<noteq> []
      then py_bind (py_max (map snd means)) (\<lambda>mx.
           py_bind (py_min (map snd means)) (\<lambda>mn. Inr (mx - mn)))
      else Inr 0)"

definition score_group_entry ::
  "fairness_sample list \<Rightarrow> string \<Rightarrow> (string \<times> (string \<times> real list) list) list \<Rightarrow> string
     \<Rightarrow> py_error + ((string \<times> score_group_report) \<times> fairness_warning list)" where
  "score_group_entry history group_key grouped score_name =
     py_bind (bucket_means_of grouped score_name) (\<lambda>means.
     py_bind (spread_of_means means) (\<lambda>sp.
       Inr ((score_name,
             \<lparr>bucketMeans = map (\<lambda>kv. (fst kv, py_round (snd kv) 2)) means,
              spread = py_round sp 2\<rparr>),
            (if 2 \<le> length means \<and> 18 < sp \<and> 15 \<le> length history
             then [SpreadWarning score_name group_key sp] else []))))"

definition group_entry ::
  "fairness_sample list \<Rightarrow> string list \<Rightarrow> string
     \<Rightarrow> py_error + ((string \<times> (string \<times> score_group_report) list) \<times> fairness_warning list)" where
  "group_entry history score_names group_key =
     (let grouped = grouped_values_of group_key history
      in py_bind (py_mapM (score_group_entry history group_key grouped) score_names) (\<lambda>entries.
           Inr ((group_key, map fst entries), concat (map snd entries))))"

definition analyze ::
  "fairness_sample list \<Rightarrow> string \<Rightarrow> (string \<times> real) list \<Rightarrow> engagement_metrics
     \<Rightarrow> speech_quality_metrics \<Rightarrow> segment_label list
     \<Rightarrow> py_error + (fairness_report \<times> fairness_sample list)" where
  "analyze history0 session_id core_scores em sqm segment_labels =
     py_bind (average_relevance segment_labels) (\<lambda>avg_rel.
       let feature_groups =
             [(''eyeContactBand'', band_eye_contact (get_or (eyeContactRatio em) 0)),
              (''speakingRateBand'', band_speaking_rate (get_or (speakingRateWpm sqm) 0)),
              (''pauseBand'', band_pause (get_or (averagePauseDuration sqm) 0)),
              (''contentRelevanceBand'', band_relevance avg_rel)];
           scores =
             [(''engagement'', clamp (dict_get core_scores ''engagement'' 0) 0 100),
              (''communicationClarity'', clamp (dict_get core_scores ''communicationClarity'' 0) 0 100),
              (''interviewComprehension'', clamp (dict_get core_scores ''interviewComprehension'' 0) 0 100),
              (''overallPerformance'', clamp (dict_get core_scores ''overallPerformance'' 0) 0 100)];
           sample = \<lparr>fs_sessionId = session_id, fs_groups = feature_groups, fs_scores = scores\<rparr>;
           history = last_n max_samples (history0 @ [sample])
       in py_bind (py_mapM (group_entry history (map fst scores)) (map fst feature_groups))
            (\<lambda>entries.
               Inr (\<lparr>sampleCount = length history,
                     neutralMetricsUsed = sort (map fst feature_groups),
                     groupVariance = map fst entries,
                     warnings = concat (map snd entries)\<rparr>,
                    history)))"

section \<open>Sensitive-attribute bias auditor (\<^verbatim>\<open>scoring/score_calculator.py\<close>)\<close>

definition SENSITIVE_KEYS :: "string set" where
  "SENSITIVE_KEYS = {''gender'', ''race'', ''ethnicity'', ''age'', ''accent'', ''nationality'',
                     ''religion'', ''disability''}"

definition IRRELEVANT_KEYS :: "string set" where
  "IRRELEVANT_KEYS = {''camera_brand'', ''device_model'', ''network_quality'', ''lighting_condition''}"

text \<open>A value of the session context is \<open>None\<close> for Python's \<^verbatim>\<open>None\<close> and \<open>Some s\<close> for any
  other value, \<open>s\<close> being what \<^verbatim>\<open>str(value)\<close> gives.\<close>

record bias_sample =
  bs_overall :: real
  bs_sensitive :: "(string \<times> string) list"

text \<open>The two messages of the auditor: the irrelevant-fields notice and
  \<^verbatim>\<open>"Potential score disparity detected across '{key}' groups (mean spread {spread:.2f})."\<close>\<close>

datatype bias_warning = IrrelevantFields | Disparity string real

record bias_report =
  checkedSensitiveAttributes :: "string list"
  checkedIrrelevantAttributes :: "string list"
  bias_warnings :: "bias_warning list"
  historySampleCount :: nat

definition bias_max_samples :: nat where
  "bias_max_samples = 500"

definition flagged :: "string set \<Rightarrow> (string \<times> string option) list \<Rightarrow> (string \<times> string) list" where
  "flagged keys session_context =
     concat (map (\<lambda>kv. case snd kv of
                          None \<Rightarrow> []
                        | Some v \<Rightarrow> (if fst kv \<in> keys then [(fst kv, v)] else []))
                 session_context)"

definition group_scores_of :: "string \<Rightarrow> bias_sample list \<Rightarrow> (string \<times> real list) list" where
  "group_scores_of key history =
     fold (\<lambda>sample group_scores.
             case map_of (bs_sensitive sample) key of
               None \<Rightarrow> group_scores
             | Some v \<Rightarrow> dict_set group_scores v (dict_get group_scores v [] @ [bs_overall sample]))
          history []"

definition disparity_warning :: "bias_sample list \<Rightarrow> string \<Rightarrow> py_error + bias_warning list" where
  "disparity_warning history key =
     (let group_scores = group_scores_of key history
      in if length group_scores < 2 then Inr []
         else py_bind (py_mapM statistics_mean (filter (\<lambda>vals. vals \<noteq> []) (map snd group_scores)))
           (\<lambda>means.
              if means = [] then Inr []
              else py_bind (py_max means) (\<lambda>mx.
                   py_bind (py_min means) (\<lambda>mn.
                     let sp = mx - mn
                     in if 15 < sp \<and> 20 \<le> length history
                        then Inr [Disparity key sp] else Inr []))))"

definition audit ::
  "bias_sample list \<Rightarrow> (string \<times> string option) list \<Rightarrow> (string \<times> real) list
     \<Rightarrow> py_error + (bias_report \<times> bias_sample list)" where
  "audit history0 session_context summary_scores =
     (let flagged_sensitive = flagged SENSITIVE_KEYS session_context;
          flagged_irrelevant = flagged IRRELEVANT_KEYS session_context;
          warnings0 = (if flagged_irrelevant \<noteq> [] then [IrrelevantFields] else []);
          history = (if flagged_sensitive \<noteq> []
                     then last_n bias_max_samples
                            (history0 @ [\<lparr>bs_overall = dict_get summary_scores ''overallPerformanceScore'' 0,
                                          bs_sensitive = flagged_sensitive\<rparr>])
                     else history0)
      in py_bind (if flagged_sensitive \<noteq> []
                  then py_mapM (disparity_warning history) (map fst flagged_sensitive)
                  else Inr [])
           (\<lambda>ws. Inr (\<lparr>checkedSensitiveAttributes = sort (map fst flagged_sensitive),
                        checkedIrrelevantAttributes = sort (map fst flagged_irrelevant),
                        bias_warnings = warnings0 @ concat ws,
                        historySampleCount = length history\<rparr>,
                       history)))"

section \<open>Fused windows and the other scorer inputs\<close>

record head_pose =
  hp_yaw :: "real option"
  hp_pitch :: "real option"
  hp_roll :: "real option"

record speech_features =
  sf_pitch :: "real option"
  sf_pause_duration :: "real option"
  sf_speaking_rate :: "real option"
  sf_prosody_score :: "real option"

record text_scores =
  ts_semantic_relevance :: "real option"
  ts_sentiment_score :: "real option"
  ts_answer_coherence :: "real option"

record fused_window =
  startTime :: "real option"
  endTime :: "real option"
  facialEmotionScores :: "(string \<times> real) list option"
  headPose :: "head_pose option"
  gazeDirection :: "string option"
  speechFeatures :: "speech_features option"
  textScores :: "text_scores option"
  fusedVector :: "real list option"

record emotion_point =
  ep_timestamp :: "real option"
  dominantEmotion :: "string option"
  emotionScores :: "(string \<times> real) list option"

record speech_timeline_item =
  st_timestamp :: "real option"
  st_speakingRate :: "real option"
  st_pitch :: "real option"
  st_pauseDuration :: "real option"
  st_fluency :: "real option"

record timeline_arrays =
  speechTimeline :: "speech_timeline_item list option"

text \<open>The empty dictionaries of \<^verbatim>\<open>item.get("headPose", {})\<close>,
  \<^verbatim>\<open>item.get("speechFeatures", {})\<close> and \<^verbatim>\<open>item.get("textScores", {})\<close>.\<close>

definition no_head_pose :: head_pose where
  "no_head_pose = \<lparr>hp_yaw = None, hp_pitch = None, hp_roll = None\<rparr>"

definition no_speech_features :: speech_features where
  "no_speech_features =
     \<lparr>sf_pitch = None, sf_pause_duration = None, sf_speaking_rate = None, sf_prosody_score = None\<rparr>"

definition no_text_scores :: text_scores where
  "no_text_scores =
     \<lparr>ts_semantic_relevance = None, ts_sentiment_score = None, ts_answer_coherence = None\<rparr>"

section \<open>Rule-based composite scorer (\<^verbatim>\<open>scoring/score_calculator.py\<close>)\<close>

definition normalize_percent :: "real \<Rightarrow> real" where
  "normalize_percent val = (if val \<le> 1 then clamp (val * 100) 0 100 else clamp val 0 100)"

text \<open>The gaze labels of the windows, lower-cased, and their counts in a
  \<^verbatim>\<open>defaultdict(int)\<close>.\<close>

definition window_gazes :: "fused_window list \<Rightarrow> string list" where
  "window_gazes fused_feature_vectors =
     map (\<lambda>item. lower (get_or (gazeDirection item) ''unknown'')) fused_feature_vectors"

definition gaze_counts :: "string list \<Rightarrow> (string \<times> nat) list" where
  "gaze_counts gazes = fold (\<lambda>gaze counts. dict_set counts gaze (dict_get counts gaze 0 + 1)) gazes []"

definition head_motion :: "fused_window \<Rightarrow> real" where
  "head_motion item =
     (let head_pose = get_or (headPose item) no_head_pose
      in \<bar>get_or (hp_yaw head_pose) 0\<bar> + \<bar>get_or (hp_pitch head_pose) 0\<bar>
         + \<bar>get_or (hp_roll head_pose) 0\<bar>)"

definition compute_engagement_score ::
  "engagement_metrics \<Rightarrow> fused_window list \<Rightarrow> py_error + (real \<times> (string \<times> real) list)" where
  "compute_engagement_score em fused_feature_vectors =
     (let eye_contact_ratio = get_or (eyeContactRatio em) 0;
          eye_contact_score = normalize_percent eye_contact_ratio;
          gazes = window_gazes fused_feature_vectors
      in py_bind
           (if gazes \<noteq> []
            then (let counts = gaze_counts gazes
                  in py_bind (py_max (map (\<lambda>kv. real (snd kv)) counts)) (\<lambda>mx.
                       let dominant_ratio = mx / real (length gazes);
                           center_ratio = real (dict_get counts ''center'' 0) / real (length gazes)
                       in Inr (((dominant_ratio * 0.5) + (center_ratio * 0.5)) * 100)))
            else Inr 40)
           (\<lambda>gaze_stability.
              let head_motion_values = map head_motion fused_feature_vectors
              in py_bind (if head_motion_values \<noteq> [] then statistics_mean head_motion_values
                          else Inr 20)
                   (\<lambda>avg_head_motion.
                      let head_motion_score = clamp (100 - (avg_head_motion * 1.5)) 0 100;
                          score = (eye_contact_score * 0.4) + (gaze_stability * 0.35)
                                  + (head_motion_score * 0.25)
                      in Inr (clamp score 0 100,
                              [(''eyeContactScore'', py_round eye_contact_score 2),
                               (''gazeStabilityScore'', py_round gaze_stability 2),
                               (''headMotionScore'', py_round head_motion_score 2)]))))"

text \<open>The loop of \<^verbatim>\<open>compute_emotional_regulation_score\<close>: a point without emotion scores
  is skipped; otherwise its largest score is appended to \<^verbatim>\<open>dominant_scores\<close> and each of
  its scores to the series of its label.\<close>

definition series_append :: "string \<times> real \<Rightarrow> (string \<times> real list) list \<Rightarrow> (string \<times> real list) list" where
  "series_append lv per_label_series =
     dict_set per_label_series (fst lv) (dict_get per_label_series (fst lv) [] @ [snd lv])"

fun regulation_loop ::
  "emotion_point list \<Rightarrow> real list \<Rightarrow> (string \<times> real list) list
     \<Rightarrow> py_error + (real list \<times> (string \<times> real list) list)" where
  "regulation_loop [] dominant_scores per_label_series = Inr (dominant_scores, per_label_series)"
| "regulation_loop (point # rest) dominant_scores per_label_series =
     (let emotion_scores = get_or (emotionScores point) []
      in if emotion_scores = [] then regulation_loop rest dominant_scores per_label_series
         else py_bind (py_max (map snd emotion_scores)) (\<lambda>mx.
                regulation_loop rest (dominant_scores @ [mx])
                  (fold series_append emotion_scores per_label_series)))"

definition compute_emotional_regulation_score ::
  "emotion_point list \<Rightarrow> py_error + (real \<times> (string \<times> real) list)" where
  "compute_emotional_regulation_score emotion_trajectory =
     (if emotion_trajectory = []
      then Inr (50, [(''dominantEmotionVariance'', 0), (''averageEmotionVariance'', 0)])
      else py_bind (regulation_loop emotion_trajectory [] []) (\<lambda>(dominant_scores, per_label_series).
           py_bind (if 1 < length dominant_scores then statistics_pvariance dominant_scores
                    else Inr 0) (\<lambda>dominant_var.
           py_bind (py_mapM statistics_pvariance
                      (filter (\<lambda>series. 1 < length series) (map snd per_label_series)))
                   (\<lambda>label_vars.
           py_bind (if label_vars \<noteq> [] then statistics_mean label_vars else Inr 0)
                   (\<lambda>avg_label_var.
              let variance_penalty = min 100 ((dominant_var * 280) + (avg_label_var * 220));
                  score = clamp (100 - variance_penalty) 0 100
              in Inr (score,
                      [(''dominantEmotionVariance'', py_round dominant_var 6),
                       (''averageEmotionVariance'', py_round avg_label_var 6)]))))))"

definition compute_speech_clarity_score ::
  "speech_quality_metrics \<Rightarrow> speech_timeline_item list \<Rightarrow> py_error + (real \<times> (string \<times> real) list)" where
  "compute_speech_clarity_score sqm speech_timeline =
     (let avg_pause = get_or (averagePauseDuration sqm) 0;
          speaking_rate = get_or (speakingRateWpm sqm) 0;
          pause_score = clamp (100 - (avg_pause * 65)) 0 100;
          speaking_rate_score = clamp (100 - (\<bar>speaking_rate - 135\<bar> / 135) * 100) 0 100;
          pitch_values = map (\<lambda>item. get_or (st_pitch item) 0)
                             (filter (\<lambda>item. st_pitch item \<noteq> None) speech_timeline)
      in py_bind (if 1 < length pitch_values then statistics_pvariance pitch_values else Inr 0)
           (\<lambda>pitch_variance.
              let pitch_variance_score = clamp (100 - (pitch_variance / 9)) 0 100;
                  score = (pause_score * 0.35) + (speaking_rate_score * 0.45)
                          + (pitch_variance_score * 0.2)
              in Inr (clamp score 0 100,
                      [(''pauseScore'', py_round pause_score 2),
                       (''speakingRateScore'', py_round speaking_rate_score 2),
                       (''pitchVarianceScore'', py_round pitch_variance_score 2),
                       (''pitchVariance'', py_round pitch_variance 4)])))"

record content_details =
  cd_source :: string
  cd_segmentCount :: nat
  cd_avgSegmentRelevance :: real

definition compute_content_relevance_score ::
  "segment_label list \<Rightarrow> fused_window list \<Rightarrow> py_error + (real \<times> content_details)" where
  "compute_content_relevance_score segment_labels fused_feature_vectors =
     (if segment_labels \<noteq> []
      then (let vals = map (\<lambda>item. get_or (textRelevanceScore item) 0) segment_labels
            in py_bind (if vals \<noteq> [] then statistics_mean vals else Inr 0) (\<lambda>score.
                 Inr (clamp score 0 100,
                      \<lparr>cd_source = ''segmentLabels'',
                       cd_segmentCount = length segment_labels,
                       cd_avgSegmentRelevance = py_round score 2\<rparr>)))
      else (let semantic_values =
                  map (\<lambda>item. get_or (ts_semantic_relevance (get_or (textScores item) no_text_scores)) 0
                               * 100)
                      fused_feature_vectors
            in py_bind (if semantic_values \<noteq> [] then statistics_mean semantic_values else Inr 0)
                 (\<lambda>score.
                    Inr (clamp score 0 100,
                         \<lparr>cd_source = ''fusedFeatureVectors'',
                          cd_segmentCount = length fused_feature_vectors,
                          cd_avgSegmentRelevance = py_round score 2\<rparr>))))"

definition compute_overall_performance_score :: "real \<Rightarrow> real \<Rightarrow> real \<Rightarrow> real \<Rightarrow> real" where
  "compute_overall_performance_score engagement_score emotional_regulation_score
       speech_clarity_score content_relevance_score =
     (let weighted = (engagement_score * 0.3) + (emotional_regulation_score * 0.2)
                     + (speech_clarity_score * 0.25) + (content_relevance_score * 0.25)
      in clamp weighted 0 100)"

section \<open>Readiness model (\<^verbatim>\<open>scoring/scoring_models.py\<close>)\<close>

record RegressionHead =
  weights :: "real list"
  bias :: real

text \<open>\<^verbatim>\<open>_sigmoid_to_100\<close>, the same in \<^verbatim>\<open>scoring_models.py\<close> and
  \<^verbatim>\<open>advanced_scoring.py\<close>.\<close>

definition sigmoid_to_100 :: "real \<Rightarrow> py_error + real" where
  "sigmoid_to_100 val =
     py_bind (math_exp (- val)) (\<lambda>e.
       let transformed = 1 / (1 + e) in Inr (max 0 (min 100 (transformed * 100))))"

text \<open>\<^verbatim>\<open>RegressionHead.predict\<close> (and \<^verbatim>\<open>TrainableRegressionHead.predict\<close>, which has the
  same body): the bias plus the products of the first \<open>min(len(features), len(weights))\<close>
  weights and features, through the sigmoid.\<close>

definition head_predict :: "RegressionHead \<Rightarrow> real list \<Rightarrow> py_error + real" where
  "head_predict head features =
     (if features = [] then Inr 50
      else let limit = min (length features) (length (weights head));
               raw = fold (\<lambda>idx raw. raw + (weights head ! idx) * (features ! idx)) [0..<limit]
                          (bias head)
           in sigmoid_to_100 raw)"

definition confidence_head :: RegressionHead where
  "confidence_head =
     \<lparr>weights = [0.45, 0.32, -0.3, 0.004, 0.001, -0.25, 0.28, 0.35, 0.24, 0.42], bias = -0.15\<rparr>"

definition communication_head :: RegressionHead where
  "communication_head =
     \<lparr>weights = [0.28, 0.22, -0.18, 0.005, 0.0006, -0.2, 0.55, 0.26, 0.5, 0.25], bias = -0.12\<rparr>"

definition readiness_head :: RegressionHead where
  "readiness_head =
     \<lparr>weights = [0.3, 0.25, -0.22, 0.004, 0.0008, -0.18, 0.4, 0.22, 0.4, 0.35], bias = -0.1\<rparr>"

text \<open>\<^verbatim>\<open>_pool_fused_vectors\<close>: the column means of the non-empty fused vectors, each padded
  with zeros to the longest, then padded or cut to ten entries.  (\<open>vectors\<close> is not empty
  where its longest length is taken, and every padded vector has that length.)\<close>

definition pool_fused_vectors :: "fused_window list \<Rightarrow> real list" where
  "pool_fused_vectors fused_feature_vectors =
     (if fused_feature_vectors = [] then replicate 10 0
      else let vectors = filter (\<lambda>v. v \<noteq> [])
                           (map (\<lambda>item. get_or (fusedVector item) []) fused_feature_vectors)
           in if vectors = [] then replicate 10 0
              else let len = fold max (map length vectors) 0;
                       padded = map (\<lambda>v. if length v < len then v @ replicate (len - length v) 0 else v)
                                    vectors;
                       pooled = map (\<lambda>j. sum_list (map (\<lambda>v. v ! j) padded) / real (length padded))
                                    [0..<len];
                       pooled' = (if length pooled < 10
                                  then pooled @ replicate (10 - length pooled) 0 else pooled)
                   in take 10 pooled')"

record model_predictions =
  mp_confidence :: real
  mp_communicationEffectiveness :: real
  mp_interviewReadiness :: real

definition readiness_predict :: "fused_window list \<Rightarrow> py_error + model_predictions" where
  "readiness_predict fused_feature_vectors =
     (let pooled_features = pool_fused_vectors fused_feature_vectors
      in py_bind (head_predict confidence_head pooled_features) (\<lambda>confidence.
         py_bind (head_predict communication_head pooled_features) (\<lambda>communication.
         py_bind (head_predict readiness_head pooled_features) (\<lambda>readiness.
           Inr \<lparr>mp_confidence = py_round confidence 2,
                mp_communicationEffectiveness = py_round communication 2,
                mp_interviewReadiness = py_round readiness 2\<rparr>))))"

section \<open>\<^verbatim>\<open>compute_session_scores\<close>\<close>

record detailed_scores =
  ds_engagement :: "real \<times> (string \<times> real) list"
  ds_emotionalRegulation :: "real \<times> (string \<times> real) list"
  ds_speechClarity :: "real \<times> (string \<times> real) list"
  ds_contentRelevance :: "real \<times> content_details"
  ds_modelPredictions :: model_predictions
  ds_weights :: "(string \<times> real) list"

record session_scores =
  summaryScores :: "(string \<times> real) list"
  detailedScores :: detailed_scores
  rubricEvaluation :: "(string \<times> rubric_entry) list"

definition compute_session_scores ::
  "engagement_metrics \<Rightarrow> emotion_point list \<Rightarrow> speech_quality_metrics \<Rightarrow> segment_label list
     \<Rightarrow> fused_window list \<Rightarrow> timeline_arrays option \<Rightarrow> py_error + session_scores" where
  "compute_session_scores em emotion_trajectory sqm segment_labels fused_feature_vectors
       timeline_arrays_opt =
     (let speech_timeline =
            (case timeline_arrays_opt of None \<Rightarrow> [] | Some ta \<Rightarrow> get_or (speechTimeline ta) [])
      in py_bind (compute_engagement_score em fused_feature_vectors)
           (\<lambda>(engagement_score, engagement_details).
         py_bind (compute_emotional_regulation_score emotion_trajectory)
           (\<lambda>(emotional_regulation_score, emotional_details).
         py_bind (compute_speech_clarity_score sqm speech_timeline)
           (\<lambda>(speech_clarity_score, speech_details).
         py_bind (compute_content_relevance_score segment_labels fused_feature_vectors)
           (\<lambda>(content_relevance_score, content_details).
         let overall_score = compute_overall_performance_score engagement_score
                               emotional_regulation_score speech_clarity_score
                               content_relevance_score
         in py_bind (readiness_predict fused_feature_vectors) (\<lambda>model_predictions.
            let summary_scores =
                  [(''engagementScore'', py_round engagement_score 2),
                   (''confidenceScore'', py_round (mp_confidence model_predictions) 2),
                   (''speechFluency'', py_round speech_clarity_score 2),
                   (''emotionalStability'', py_round emotional_regulation_score 2),
                   (''contentRelevanceScore'', py_round content_relevance_score 2),
                   (''overallPerformanceScore'', py_round overall_score 2),
                   (''communicationEffectiveness'',
                      py_round (mp_communicationEffectiveness model_predictions) 2),
                   (''interviewReadiness'',
                      py_round (mp_interviewReadiness model_predictions) 2)];
                detailed =
                  \<lparr>ds_engagement = (py_round engagement_score 2, engagement_details),
                   ds_emotionalRegulation = (py_round emotional_regulation_score 2, emotional_details),
                   ds_speechClarity = (py_round speech_clarity_score 2, speech_details),
                   ds_contentRelevance = (py_round content_relevance_score 2, content_details),
                   ds_modelPredictions = model_predictions,
                   ds_weights = [(''engagement'', 0.3), (''emotionalRegulation'', 0.2),
                                 (''speechClarity'', 0.25), (''contentRelevance'', 0.25)]\<rparr>
            in py_bind (map_scores_to_rubric summary_scores None) (\<lambda>rubric_evaluation.
                 Inr \<lparr>summaryScores = summary_scores,
                      detailedScores = detailed,
                      rubricEvaluation = rubric_evaluation\<rparr>)))))))"

section \<open>Ensemble advanced scorer (\<^verbatim>\<open>scoring/advanced_scoring.py\<close>)\<close>

definition adv_normalize_percent :: "real \<Rightarrow> real" where
  "adv_normalize_percent val = (if val \<le> 1 then clamp (val * 100) 0 100 else clamp val 0 100)"

definition build_vision_embedding :: "engagement_metrics \<Rightarrow> fused_window list \<Rightarrow> py_error + real list" where
  "build_vision_embedding em fused_feature_vectors =
     (let eye_contact = adv_normalize_percent (get_or (eyeContactRatio em) 0) / 100;
          overall_engagement = adv_normalize_percent (get_or (overallEngagement em) 0) / 100;
          gazes = window_gazes fused_feature_vectors;
          center_ratio = (if gazes \<noteq> []
                          then real (length (filter (\<lambda>gaze. gaze = ''center'') gazes))
                               / real (length gazes)
                          else 0.5);
          head_motions = map head_motion fused_feature_vectors
      in py_bind (if head_motions \<noteq> [] then statistics_mean head_motions else Inr 10)
           (\<lambda>head_motion_mean.
              let head_stability = clamp (1 - (head_motion_mean / 30)) 0 1
              in Inr [eye_contact, overall_engagement, center_ratio, head_stability]))"

definition build_audio_embedding :: "speech_quality_metrics \<Rightarrow> fused_window list \<Rightarrow> py_error + real list" where
  "build_audio_embedding sqm fused_feature_vectors =
     (let speaking_rate = get_or (speakingRateWpm sqm) 0;
          pause_duration = get_or (averagePauseDuration sqm) 0;
          prosody_score = get_or (prosodyScore sqm) 0;
          speaking_rate_norm = clamp (1 - (\<bar>speaking_rate - 135\<bar> / 135)) 0 1;
          pause_control = clamp (1 - (pause_duration / 1.4)) 0 1;
          prosody_norm = clamp prosody_score 0 1;
          pitch_values =
            map (\<lambda>item. get_or (sf_pitch (get_or (speechFeatures item) no_speech_features)) 0)
                (filter (\<lambda>item. sf_pitch (get_or (speechFeatures item) no_speech_features) \<noteq> None)
                        fused_feature_vectors)
      in py_bind (if 1 < length pitch_values then statistics_pvariance pitch_values else Inr 0)
           (\<lambda>pitch_var.
              let pitch_stability = clamp (1 - (pitch_var / 220)) 0 1
              in Inr [speaking_rate_norm, pause_control, prosody_norm, pitch_stability]))"

definition build_text_embedding :: "segment_label list \<Rightarrow> fused_window list \<Rightarrow> py_error + real list" where
  "build_text_embedding segment_labels fused_feature_vectors =
     (let segment_relevance = map (\<lambda>item. get_or (textRelevanceScore item) 0) segment_labels;
          semantic = map (\<lambda>item. get_or (ts_semantic_relevance (get_or (textScores item) no_text_scores)) 0)
                         fused_feature_vectors;
          coherence = map (\<lambda>item. get_or (ts_answer_coherence (get_or (textScores item) no_text_scores)) 0)
                          fused_feature_vectors;
          sentiment = map (\<lambda>item. get_or (ts_sentiment_score (get_or (textScores item) no_text_scores)) 0)
                          fused_feature_vectors
      in py_bind (if segment_relevance \<noteq> []
                  then py_bind (statistics_mean segment_relevance) (\<lambda>m. Inr (m / 100))
                  else Inr 0) (\<lambda>relevance_norm.
         py_bind (if semantic \<noteq> [] then statistics_mean semantic else Inr 0) (\<lambda>semantic_norm.
         py_bind (if coherence \<noteq> [] then statistics_mean coherence else Inr 0) (\<lambda>coherence_norm.
         py_bind (if sentiment \<noteq> [] then statistics_mean sentiment else Inr 0) (\<lambda>sentiment_mean.
           let sentiment_norm = clamp ((sentiment_mean + 1) / 2) 0 1
           in Inr [relevance_norm, semantic_norm, coherence_norm, sentiment_norm])))))"

text \<open>The scorer object.  Its encoder is the \<^verbatim>\<open>torch\<close> network, which is not part of the
  sources: \<open>None\<close> when \<^verbatim>\<open>torch\<close> is not installed, otherwise the function from the three
  embeddings to the four logits of its \<^verbatim>\<open>score_head\<close>.\<close>

record advanced_scorer =
  adv_engagement_head :: RegressionHead
  adv_communication_head :: RegressionHead
  adv_comprehension_head :: RegressionHead
  adv_overall_head :: RegressionHead
  transformer :: "(real list list \<Rightarrow> real \<times> real \<times> real \<times> real) option"

definition ADVANCED_SCORER ::
  "(real list list \<Rightarrow> real \<times> real \<times> real \<times> real) option \<Rightarrow> advanced_scorer" where
  "ADVANCED_SCORER net =
     \<lparr>adv_engagement_head =
        \<lparr>weights = [0.9, 0.65, 0.55, 0.25, 0.15, 0.18, 0.08, 0.12, 0.2, 0.15, 0.2, 0.18],
         bias = -0.72\<rparr>,
      adv_communication_head =
        \<lparr>weights = [0.22, 0.18, 0.2, 0.08, 0.68, 0.75, 0.42, 0.66, 0.3, 0.34, 0.2, 0.24],
         bias = -0.78\<rparr>,
      adv_comprehension_head =
        \<lparr>weights = [0.18, 0.2, 0.12, 0.06, 0.2, 0.28, 0.16, 0.14, 0.74, 0.62, 0.5, 0.7],
         bias = -0.8\<rparr>,
      adv_overall_head =
        \<lparr>weights = [0.36, 0.3, 0.26, 0.12, 0.34, 0.36, 0.24, 0.3, 0.42, 0.38, 0.31, 0.36],
         bias = -0.84\<rparr>,
      transformer = net\<rparr>"

text \<open>\<^verbatim>\<open>torch.sigmoid\<close> does not raise.\<close>

definition torch_sigmoid :: "real \<Rightarrow> real" where
  "torch_sigmoid x = 1 / (1 + exp (- x))"

definition transformer_predict ::
  "advanced_scorer \<Rightarrow> real list \<Rightarrow> real list \<Rightarrow> real list \<Rightarrow> (string \<times> real) list" where
  "transformer_predict scorer vision_embedding audio_embedding text_embedding =
     (case transformer scorer of
        None \<Rightarrow>
          [(''engagement'',
              clamp ((vision_embedding ! 0 * 65) + (vision_embedding ! 1 * 35)) 0 100),
           (''communicationClarity'',
              clamp ((audio_embedding ! 0 * 50) + (audio_embedding ! 1 * 50)) 0 100),
           (''interviewComprehension'',
              clamp ((text_embedding ! 0 * 65) + (text_embedding ! 1 * 35)) 0 100),
           (''overallPerformance'',
              clamp (((vision_embedding ! 0 + audio_embedding ! 0 + text_embedding ! 0) / 3) * 100)
                    0 100)]
      | Some net \<Rightarrow>
          (case net [vision_embedding, audio_embedding, text_embedding] of
             (l0, l1, l2, l3) \<Rightarrow>
               [(''engagement'', torch_sigmoid l0 * 100),
                (''communicationClarity'', torch_sigmoid l1 * 100),
                (''interviewComprehension'', torch_sigmoid l2 * 100),
                (''overallPerformance'', torch_sigmoid l3 * 100)]))"

record advanced_diagnostics =
  regressionHeadScores :: "(string \<times> real) list"
  transformerScores :: "(string \<times> real) list"
  modalityEmbeddings :: "(string \<times> real list) list"

record advanced_scores =
  adv_scores :: "(string \<times> real) list"
  diagnostics :: advanced_diagnostics

definition predict ::
  "advanced_scorer \<Rightarrow> engagement_metrics \<Rightarrow> speech_quality_metrics \<Rightarrow> segment_label list
     \<Rightarrow> fused_window list \<Rightarrow> py_error + advanced_scores" where
  "predict scorer em sqm segment_labels fused_feature_vectors =
     py_bind (build_vision_embedding em fused_feature_vectors) (\<lambda>vision_embedding.
     py_bind (build_audio_embedding sqm fused_feature_vectors) (\<lambda>audio_embedding.
     py_bind (build_text_embedding segment_labels fused_feature_vectors) (\<lambda>text_embedding.
       let combined_features = vision_embedding @ audio_embedding @ text_embedding
       in py_bind (head_predict (adv_engagement_head scorer) combined_features) (\<lambda>r_eng.
          py_bind (head_predict (adv_communication_head scorer) combined_features) (\<lambda>r_com.
          py_bind (head_predict (adv_comprehension_head scorer) combined_features) (\<lambda>r_cmp.
          py_bind (head_predict (adv_overall_head scorer) combined_features) (\<lambda>r_ovr.
            let regression_scores =
                  [(''engagement'', r_eng), (''communicationClarity'', r_com),
                   (''interviewComprehension'', r_cmp), (''overallPerformance'', r_ovr)];
                transformer_scores =
                  transformer_predict scorer vision_embedding audio_embedding text_embedding;
                scores =
                  map (\<lambda>kv. let regression_value = snd kv;
                                 transformer_value = dict_get transformer_scores (fst kv) regression_value
                             in (fst kv,
                                 py_round (clamp ((0.45 * regression_value) + (0.55 * transformer_value))
                                                 0 100) 2))
                      regression_scores
            in Inr \<lparr>adv_scores = scores,
                    diagnostics =
                      \<lparr>regressionHeadScores = map (\<lambda>kv. (fst kv, py_round (snd kv) 2)) regression_scores,
                       transformerScores = map (\<lambda>kv. (fst kv, py_round (snd kv) 2)) transformer_scores,
                       modalityEmbeddings =
                         [(''vision'', map (\<lambda>v. py_round v 4) vision_embedding),
                          (''audio'', map (\<lambda>v. py_round v 4) audio_embedding),
                          (''text'', map (\<lambda>v. py_round v 4) text_embedding)]\<rparr>\<rparr>)))))))"

section \<open>Window aligner (\<^verbatim>\<open>analysis/multimodal_fusion.py\<close>)\<close>

record video_feature =
  vf_timestamp :: "real option"
  vf_facial_emotion_scores :: "(string \<times> real) list option"
  vf_head_pose :: "head_pose option"
  vf_gaze_direction :: "string option"
  vf_eye_contact :: "real option"

record prosody =
  log_mel_std :: "real option"

record audio_segment_feature =
  af_start :: "real option"
  af_end :: "real option"
  af_pitch :: "real option"
  af_pause_duration :: "real option"
  af_speaking_rate :: "real option"
  af_prosody :: "prosody option"

record text_segment_feature =
  tf_start :: "real option"
  tf_end :: "real option"
  tf_semantic_relevance :: "real option"
  tf_sentiment_score :: "real option"
  tf_answer_coherence :: "real option"

text \<open>\<^verbatim>\<open>_max_time\<close>: the largest of \<open>0.0\<close>, the video timestamps and the audio and text
  end times.\<close>

definition max_time_of ::
  "video_feature list \<Rightarrow> audio_segment_feature list \<Rightarrow> text_segment_feature list \<Rightarrow> real" where
  "max_time_of video_features audio_segments text_segments =
     fold max (map (\<lambda>item. get_or (vf_timestamp item) 0) video_features
               @ map (\<lambda>item. get_or (af_end item) 0) audio_segments
               @ map (\<lambda>item. get_or (tf_end item) 0) text_segments) 0"

definition overlap :: "real \<Rightarrow> real \<Rightarrow> real \<Rightarrow> real \<Rightarrow> bool" where
  "overlap start_a end_a start_b end_b = (max start_a start_b < min end_a end_b)"

text \<open>\<^verbatim>\<open>_mean\<close>: \<open>0.0\<close> for no values.\<close>

definition mean_or_zero :: "real list \<Rightarrow> real" where
  "mean_or_zero vals = (if vals = [] then 0 else sum_list vals / real (length vals))"

definition mean_emotions :: "video_feature list \<Rightarrow> (string \<times> real) list" where
  "mean_emotions video_slice =
     (if video_slice = [] then [(''neutral'', 1)]
      else let totals =
                 fold (\<lambda>item totals.
                         fold (\<lambda>ls totals. dict_set totals (fst ls) (dict_get totals (fst ls) 0 + snd ls))
                              (get_or (vf_facial_emotion_scores item) []) totals)
                      video_slice [];
               count = real (length video_slice)
           in map (\<lambda>ls. (fst ls, snd ls / count)) totals)"

definition mean_head_pose :: "video_feature list \<Rightarrow> head_pose" where
  "mean_head_pose video_slice =
     (if video_slice = [] then \<lparr>hp_yaw = Some 0, hp_pitch = Some 0, hp_roll = Some 0\<rparr>
      else \<lparr>hp_yaw = Some (mean_or_zero
               (map (\<lambda>item. get_or (hp_yaw (get_or (vf_head_pose item) no_head_pose)) 0) video_slice)),
            hp_pitch = Some (mean_or_zero
               (map (\<lambda>item. get_or (hp_pitch (get_or (vf_head_pose item) no_head_pose)) 0) video_slice)),
            hp_roll = Some (mean_or_zero
               (map (\<lambda>item. get_or (hp_roll (get_or (vf_head_pose item) no_head_pose)) 0) video_slice))\<rparr>)"

text \<open>\<^verbatim>\<open>max(d, key=d.get)\<close>: the first key, in insertion order, whose value no other
  exceeds; a \<^verbatim>\<open>ValueError\<close> on the empty dictionary.\<close>

fun max_key :: "(string \<times> 'v::linorder) list \<Rightarrow> py_error + string" where
  "max_key [] = Inl ValueError"
| "max_key (kv # rest) =
     Inr (fst (fold (\<lambda>kv best. if snd best < snd kv then kv else best) rest kv))"

definition dominant_gaze :: "video_feature list \<Rightarrow> py_error + string" where
  "dominant_gaze video_slice =
     (if video_slice = [] then Inr ''unknown''
      else max_key (fold (\<lambda>item counts.
                            let gaze = get_or (vf_gaze_direction item) ''unknown''
                            in dict_set counts gaze (dict_get counts gaze (0::nat) + 1))
                         video_slice []))"

definition mean_speech :: "audio_segment_feature list \<Rightarrow> speech_features" where
  "mean_speech audio_slice =
     (if audio_slice = []
      then \<lparr>sf_pitch = Some 0, sf_pause_duration = Some 0, sf_speaking_rate = Some 0,
            sf_prosody_score = Some 0\<rparr>
      else \<lparr>sf_pitch = Some (mean_or_zero (map (\<lambda>item. get_or (af_pitch item) 0) audio_slice)),
            sf_pause_duration =
              Some (mean_or_zero (map (\<lambda>item. get_or (af_pause_duration item) 0) audio_slice)),
            sf_speaking_rate =
              Some (mean_or_zero (map (\<lambda>item. get_or (af_speaking_rate item) 0) audio_slice)),
            sf_prosody_score =
              Some (mean_or_zero
                (map (\<lambda>item. get_or (log_mel_std (get_or (af_prosody item) \<lparr>log_mel_std = None\<rparr>)) 0)
                     audio_slice))\<rparr>)"

definition mean_text_scores :: "text_segment_feature list \<Rightarrow> text_scores" where
  "mean_text_scores text_slice =
     (if text_slice = []
      then \<lparr>ts_semantic_relevance = Some 0, ts_sentiment_score = Some 0, ts_answer_coherence = Some 0\<rparr>
      else \<lparr>ts_semantic_relevance =
              Some (mean_or_zero (map (\<lambda>item. get_or (tf_semantic_relevance item) 0) text_slice)),
            ts_sentiment_score =
              Some (mean_or_zero (map (\<lambda>item. get_or (tf_sentiment_score item) 0) text_slice)),
            ts_answer_coherence =
              Some (mean_or_zero (map (\<lambda>item. get_or (tf_answer_coherence item) 0) text_slice))\<rparr>)"

text \<open>\<^verbatim>\<open>_apply_fusion\<close>.  The learned transform is the seeded \<^verbatim>\<open>torch\<close> network, which is
  not part of the sources: \<open>None\<close> when \<^verbatim>\<open>torch\<close> is missing or model loading is disabled.\<close>

definition apply_fusion :: "(real list \<Rightarrow> real list) option \<Rightarrow> real list \<Rightarrow> bool \<Rightarrow> real list" where
  "apply_fusion learned raw_vector use_learned_fusion =
     (if \<not> use_learned_fusion then map (\<lambda>v. py_round v 6) raw_vector
      else case learned of
             None \<Rightarrow> map (\<lambda>v. py_round v 6) raw_vector
           | Some model \<Rightarrow> map (\<lambda>v. py_round v 6) (model raw_vector))"

definition video_slice_of :: "video_feature list \<Rightarrow> real \<Rightarrow> real \<Rightarrow> video_feature list" where
  "video_slice_of video_features cursor end_time =
     filter (\<lambda>item. cursor \<le> get_or (vf_timestamp item) 0 \<and> get_or (vf_timestamp item) 0 < end_time)
            video_features"

definition audio_slice_of :: "audio_segment_feature list \<Rightarrow> real \<Rightarrow> real \<Rightarrow> audio_segment_feature list" where
  "audio_slice_of audio_segment_features cursor end_time =
     filter (\<lambda>item. overlap cursor end_time (get_or (af_start item) 0) (get_or (af_end item) 0))
            audio_segment_features"

definition text_slice_of :: "text_segment_feature list \<Rightarrow> real \<Rightarrow> real \<Rightarrow> text_segment_feature list" where
  "text_slice_of text_segment_features cursor end_time =
     filter (\<lambda>item. overlap cursor end_time (get_or (tf_start item) 0) (get_or (tf_end item) 0))
            text_segment_features"

text \<open>The body of the \<^verbatim>\<open>while\<close> loop: the window from \<open>cursor\<close> to \<open>end_time\<close>.\<close>

definition fuse_window ::
  "(real list \<Rightarrow> real list) option \<Rightarrow> video_feature list \<Rightarrow> audio_segment_feature list
     \<Rightarrow> text_segment_feature list \<Rightarrow> bool \<Rightarrow> real \<Rightarrow> real \<Rightarrow> py_error + fused_window" where
  "fuse_window learned video_features audio_segment_features text_segment_features
       use_learned_fusion cursor end_time =
     (let video_slice = video_slice_of video_features cursor end_time;
          audio_slice = audio_slice_of audio_segment_features cursor end_time;
          text_slice = text_slice_of text_segment_features cursor end_time;
          facial_emotions = mean_emotions video_slice;
          head_pose = mean_head_pose video_slice
      in py_bind (dominant_gaze video_slice) (\<lambda>gaze_direction.
           let speech_features = mean_speech audio_slice;
               text_scores = mean_text_scores text_slice;
               raw_vector =
                 [dict_get facial_emotions ''happy'' 0,
                  dict_get facial_emotions ''neutral'' 0,
                  dict_get facial_emotions ''sad'' 0,
                  get_or (sf_speaking_rate speech_features) 0,
                  get_or (sf_pitch speech_features) 0,
                  get_or (sf_pause_duration speech_features) 0,
                  get_or (ts_semantic_relevance text_scores) 0,
                  get_or (ts_sentiment_score text_scores) 0,
                  get_or (ts_answer_coherence text_scores) 0,
                  (if gaze_direction = ''center'' then 1 else 0)];
               fused_vector = apply_fusion learned raw_vector use_learned_fusion
           in Inr \<lparr>startTime = Some (py_round cursor 3),
                   endTime = Some (py_round end_time 3),
                   facialEmotionScores = Some facial_emotions,
                   headPose = Some head_pose,
                   gazeDirection = Some gaze_direction,
                   speechFeatures = Some speech_features,
                   textScores = Some text_scores,
                   fusedVector = Some fused_vector\<rparr>))"

text \<open>The \<^verbatim>\<open>while cursor <= max_time\<close> loop, with \<^verbatim>\<open>end_time = cursor + window_size\<close>
  a sum of doubles and \<^verbatim>\<open>cursor = end_time\<close> at the end of the body.  The loop need not
  end (a cursor of \<open>2^52\<close> is not moved by adding 0.5): the result is \<open>None\<close> when it runs
  forever.\<close>

partial_function (option) fuse_loop ::
  "(real list \<Rightarrow> real list) option \<Rightarrow> video_feature list \<Rightarrow> audio_segment_feature list
     \<Rightarrow> text_segment_feature list \<Rightarrow> bool \<Rightarrow> real \<Rightarrow> real \<Rightarrow> real \<Rightarrow> fused_window list
     \<Rightarrow> (py_error + fused_window list) option" where
  "fuse_loop learned video_features audio_segment_features text_segment_features
       use_learned_fusion window_size max_time cursor fused_segments =
     (if cursor \<le> max_time
      then (let end_time = float_add cursor window_size
            in case fuse_window learned video_features audio_segment_features
                      text_segment_features use_learned_fusion cursor end_time of
                 Inl e \<Rightarrow> Some (Inl e)
               | Inr segment \<Rightarrow>
                   fuse_loop learned video_features audio_segment_features text_segment_features
                     use_learned_fusion window_size max_time end_time
                     (fused_segments @ [segment]))
      else Some (Inr fused_segments))"

text \<open>\<^verbatim>\<open>_dominant_emotion\<close>.\<close>

definition dominant_emotion :: "(string \<times> real) list \<Rightarrow> py_error + string" where
  "dominant_emotion emotion_scores =
     (if emotion_scores = [] then Inr ''neutral'' else max_key emotion_scores)"

text \<open>Of the dictionary \<^verbatim>\<open>fuse_multimodal_features\<close> returns, the model holds
  \<^verbatim>\<open>fused_feature_vectors\<close> and \<^verbatim>\<open>emotion_trajectory\<close>; its other entries are session
  metrics derived from these after the loop.  The result is \<open>None\<close> when the loop does not
  end.\<close>

record fusion_result =
  fused_feature_vectors :: "fused_window list"
  emotion_trajectory :: "emotion_point list"

definition fuse_multimodal_features ::
  "(real list \<Rightarrow> real list) option \<Rightarrow> video_feature list \<Rightarrow> audio_segment_feature list
     \<Rightarrow> text_segment_feature list \<Rightarrow> real \<Rightarrow> bool \<Rightarrow> (py_error + fusion_result) option" where
  "fuse_multimodal_features learned video_features audio_segment_features text_segment_features
       window_size_seconds use_learned_fusion =
     (let window_size = max 0.5 window_size_seconds;
          max_time = max_time_of video_features audio_segment_features text_segment_features
      in case fuse_loop learned video_features audio_segment_features text_segment_features
                use_learned_fusion window_size max_time 0 [] of
           None \<Rightarrow> None
         | Some looped \<Rightarrow>
             Some (py_bind looped (\<lambda>fused_segments.
                   py_bind (py_mapM (\<lambda>item.
                       py_bind (dominant_emotion (get_or (vf_facial_emotion_scores item) []))
                         (\<lambda>dom. Inr \<lparr>ep_timestamp = Some (get_or (vf_timestamp item) 0),
                                     dominantEmotion = Some dom,
                                     emotionScores = Some (get_or (vf_facial_emotion_scores item) [])\<rparr>))
                     video_features)
                   (\<lambda>trajectory.
                      let emotion_trajectory =
                            (if trajectory = []
                             then [\<lparr>ep_timestamp = Some 0, dominantEmotion = Some ''neutral'',
                                    emotionScores = Some [(''neutral'', 1)]\<rparr>]
                             else trajectory)
                      in Inr \<lparr>fused_feature_vectors = fused_segments,
                              emotion_trajectory = emotion_trajectory\<rparr>))))"

section \<open>Reference definitions for the properties\<close>

text \<open>The position of the rubric level that the thresholds 85 and 70 give a score.\<close>

definition level_index :: "real \<Rightarrow> nat" where
  "level_index s = (if 85 \<le> clamp s 0 100 then 0 else if 70 \<le> clamp s 0 100 then 1 else 2)"

text \<open>The closed form of the engagement score: the share of the most frequent gaze label,
  the share of the label \<open>center\<close>, the mean absolute head motion, and the weighted sum.\<close>

definition dominant_gaze_ratio :: "string list \<Rightarrow> real" where
  "dominant_gaze_ratio gazes =
     real (Max ((\<lambda>g. count_list gazes g) ` set gazes)) / real (length gazes)"

definition center_gaze_ratio :: "string list \<Rightarrow> real" where
  "center_gaze_ratio gazes = real (count_list gazes ''center'') / real (length gazes)"

definition mean_abs_head_motion :: "fused_window list \<Rightarrow> real" where
  "mean_abs_head_motion ws = (\<Sum>w\<leftarrow>ws. head_motion w) / real (length ws)"

definition engagement_formula :: "real \<Rightarrow> real \<Rightarrow> real \<Rightarrow> real" where
  "engagement_formula eyeContactPct gazeStability headMotionScore =
     clamp (0.4 * eyeContactPct + 0.35 * gazeStability + 0.25 * headMotionScore) 0 100"

definition example_metrics :: engagement_metrics where
  "example_metrics = \<lparr>overallEngagement = None, eyeContactRatio = Some 0.75,
                       avgHeadStability = Some 0.85, avgSpeakingRateWpm = None\<rparr>"

definition example_windows :: "fused_window list" where
  "example_windows =
     [\<lparr>startTime = None, endTime = None, facialEmotionScores = None,
       headPose = Some \<lparr>hp_yaw = Some 2, hp_pitch = Some (-1.5), hp_roll = Some 1\<rparr>,
       gazeDirection = Some ''Center'', speechFeatures = None, textScores = None,
       fusedVector = None\<rparr>,
      \<lparr>startTime = None, endTime = None, facialEmotionScores = None,
       headPose = Some \<lparr>hp_yaw = Some 2.5, hp_pitch = None, hp_roll = Some 1\<rparr>,
       gazeDirection = Some ''left'', speechFeatures = None, textScores = None,
       fusedVector = None\<rparr>,
      \<lparr>startTime = None, endTime = None, facialEmotionScores = None,
       headPose = None,
       gazeDirection = Some ''left'', speechFeatures = None, textScores = None,
       fusedVector = None\<rparr>]"

text \<open>The closed form of the emotional-regulation score over a trajectory: the points that
  hold emotion scores, the largest score of each, the series of each label, and the two
  variances.\<close>

definition scored_points :: "emotion_point list \<Rightarrow> (string \<times> real) list list" where
  "scored_points traj = filter (\<lambda>es. es \<noteq> []) (map (\<lambda>p. get_or (emotionScores p) []) traj)"

definition dominant_series :: "emotion_point list \<Rightarrow> real list" where
  "dominant_series traj = map (\<lambda>es. Max (set (map snd es))) (scored_points traj)"

definition label_values :: "string \<Rightarrow> (string \<times> real) list \<Rightarrow> real list" where
  "label_values l es = map snd (filter (\<lambda>lv. fst lv = l) es)"

definition label_series :: "emotion_point list \<Rightarrow> string \<Rightarrow> real list" where
  "label_series traj l = concat (map (label_values l) (scored_points traj))"

definition trajectory_labels :: "emotion_point list \<Rightarrow> string list" where
  "trajectory_labels traj = remdups (concat (map (map fst) (scored_points traj)))"

definition dominant_variance :: "emotion_point list \<Rightarrow> real" where
  "dominant_variance traj =
     (if 1 < length (dominant_series traj) then pvariance_of (dominant_series traj) else 0)"

definition varying_labels :: "emotion_point list \<Rightarrow> string list" where
  "varying_labels traj = filter (\<lambda>l. 1 < length (label_series traj l)) (trajectory_labels traj)"

definition mean_label_variance :: "emotion_point list \<Rightarrow> real" where
  "mean_label_variance traj =
     (if varying_labels traj = [] then 0
      else mean_of (map (\<lambda>l. pvariance_of (label_series traj l)) (varying_labels traj)))"

definition regulation_formula :: "emotion_point list \<Rightarrow> real" where
  "regulation_formula traj =
     clamp (100 - min 100 (280 * dominant_variance traj + 220 * mean_label_variance traj)) 0 100"

definition neutral_point :: emotion_point where
  "neutral_point = \<lparr>ep_timestamp = Some 0, dominantEmotion = Some ''neutral'',
                     emotionScores = Some [(''neutral'', 1)]\<rparr>"

definition two_point_trajectory :: "emotion_point list" where
  "two_point_trajectory =
     [\<lparr>ep_timestamp = Some 0, dominantEmotion = Some ''neutral'',
       emotionScores = Some [(''neutral'', 0.8), (''happy'', 0.2)]\<rparr>,
      \<lparr>ep_timestamp = Some 2, dominantEmotion = Some ''neutral'',
       emotionScores = Some [(''neutral'', 0.75), (''happy'', 0.25)]\<rparr>]"

text \<open>The statistics of the neutral-feature audit over a history: the bucket of a row in a
  band, the values of a score in a bucket, the buckets that hold a value, and the spread
  of the bucket means.\<close>

definition row_bucket :: "string \<Rightarrow> fairness_sample \<Rightarrow> string" where
  "row_bucket g row = dict_get (fs_groups row) g ''unknown''"

definition score_values :: "string \<Rightarrow> (string \<times> real) list \<Rightarrow> real list" where
  "score_values s scores = map snd (filter (\<lambda>kv. fst kv = s) scores)"

definition bucket_values :: "fairness_sample list \<Rightarrow> string \<Rightarrow> string \<Rightarrow> string \<Rightarrow> real list" where
  "bucket_values hist g s b =
     concat (map (\<lambda>row. if row_bucket g row = b then score_values s (fs_scores row) else []) hist)"

definition populated_buckets :: "fairness_sample list \<Rightarrow> string \<Rightarrow> string \<Rightarrow> string list" where
  "populated_buckets hist g s =
     remdups (map (row_bucket g) (filter (\<lambda>row. score_values s (fs_scores row) \<noteq> []) hist))"

definition bucket_mean :: "fairness_sample list \<Rightarrow> string \<Rightarrow> string \<Rightarrow> string \<Rightarrow> real" where
  "bucket_mean hist g s b = mean_of (bucket_values hist g s b)"

definition bucket_spread :: "fairness_sample list \<Rightarrow> string \<Rightarrow> string \<Rightarrow> real" where
  "bucket_spread hist g s =
     (let ms = map (bucket_mean hist g s) (populated_buckets hist g s)
      in if ms = [] then 0 else Max (set ms) - Min (set ms))"

definition band_keys :: "string list" where
  "band_keys = [''eyeContactBand'', ''speakingRateBand'', ''pauseBand'', ''contentRelevanceBand'']"

definition score_keys :: "string list" where
  "score_keys = [''engagement'', ''communicationClarity'', ''interviewComprehension'',
                 ''overallPerformance'']"

text \<open>The sample that a call of \<open>analyze\<close> appends.\<close>

definition relevance_of :: "segment_label list \<Rightarrow> real" where
  "relevance_of segment_labels =
     (if segment_labels = [] then 0
      else mean_of (map (\<lambda>item. get_or (textRelevanceScore item) 0) segment_labels))"

definition sample_of ::
  "string \<Rightarrow> (string \<times> real) list \<Rightarrow> engagement_metrics \<Rightarrow> speech_quality_metrics
     \<Rightarrow> segment_label list \<Rightarrow> fairness_sample" where
  "sample_of session_id core_scores em sqm segment_labels =
     \<lparr>fs_sessionId = session_id,
      fs_groups =
        [(''eyeContactBand'', band_eye_contact (get_or (eyeContactRatio em) 0)),
         (''speakingRateBand'', band_speaking_rate (get_or (speakingRateWpm sqm) 0)),
         (''pauseBand'', band_pause (get_or (averagePauseDuration sqm) 0)),
         (''contentRelevanceBand'', band_relevance (relevance_of segment_labels))],
      fs_scores =
        [(''engagement'', clamp (dict_get core_scores ''engagement'' 0) 0 100),
         (''communicationClarity'', clamp (dict_get core_scores ''communicationClarity'' 0) 0 100),
         (''interviewComprehension'', clamp (dict_get core_scores ''interviewComprehension'' 0) 0 100),
         (''overallPerformance'', clamp (dict_get core_scores ''overallPerformance'' 0) 0 100)]\<rparr>"

text \<open>The warnings the thresholds give for one band and one score.\<close>

definition spread_warnings :: "fairness_sample list \<Rightarrow> string \<Rightarrow> string \<Rightarrow> fairness_warning list" where
  "spread_warnings hist g s =
     (if 2 \<le> length (populated_buckets hist g s) \<and> 18 < bucket_spread hist g s
         \<and> 15 \<le> length hist
      then [SpreadWarning s g (bucket_spread hist g s)] else [])"

text \<open>The analyzer and the auditor are process-wide objects, called once per finished
  analysis: a run is a sequence of calls, each on the history the previous call left.\<close>

type_synonym analyze_call =
  "string \<times> (string \<times> real) list \<times> engagement_metrics \<times> speech_quality_metrics \<times> segment_label list"

fun analyze_run ::
  "fairness_sample list \<Rightarrow> analyze_call list \<Rightarrow> py_error + (fairness_report list \<times> fairness_sample list)" where
  "analyze_run history [] = Inr ([], history)"
| "analyze_run history ((sid, cs, em, sqm, sl) # calls) =
     py_bind (analyze history sid cs em sqm sl) (\<lambda>(rep, history').
     py_bind (analyze_run history' calls) (\<lambda>(reps, final). Inr (rep # reps, final)))"

fun call_sample :: "analyze_call \<Rightarrow> fairness_sample" where
  "call_sample (sid, cs, em, sqm, sl) = sample_of sid cs em sqm sl"

type_synonym audit_call = "(string \<times> string option) list \<times> (string \<times> real) list"

fun audit_run ::
  "bias_sample list \<Rightarrow> audit_call list \<Rightarrow> py_error + (bias_report list \<times> bias_sample list)" where
  "audit_run history [] = Inr ([], history)"
| "audit_run history ((session_context, summary_scores) # calls) =
     py_bind (audit history session_context summary_scores) (\<lambda>(rep, history').
     py_bind (audit_run history' calls) (\<lambda>(reps, final). Inr (rep # reps, final)))"

text \<open>A session context that holds at least one sensitive key with a value other than
  \<open>None\<close>, and the sample the auditor stores for it.\<close>

fun has_sensitive :: "audit_call \<Rightarrow> bool" where
  "has_sensitive (session_context, summary_scores) =
     list_ex (\<lambda>kv. fst kv \<in> SENSITIVE_KEYS \<and> snd kv \<noteq> None) session_context"

fun bias_sample_of :: "audit_call \<Rightarrow> bias_sample" where
  "bias_sample_of (session_context, summary_scores) =
     \<lparr>bs_overall = dict_get summary_scores ''overallPerformanceScore'' 0,
      bs_sensitive = flagged SENSITIVE_KEYS session_context\<rparr>"

text \<open>Two samples of an example run: strong eye contact with engagement 40, and medium
  eye contact with engagement 90.\<close>

definition call_high :: analyze_call where
  "call_high =
     (''high'', [(''engagement'', 40)],
      \<lparr>overallEngagement = None, eyeContactRatio = Some 0.8, avgHeadStability = None,
       avgSpeakingRateWpm = None\<rparr>,
      \<lparr>averagePitch = None, averagePauseDuration = None, speakingRateWpm = None,
       prosodyScore = None\<rparr>,
      [])"

definition call_medium :: analyze_call where
  "call_medium =
     (''medium'', [(''engagement'', 90)],
      \<lparr>overallEngagement = None, eyeContactRatio = Some 0.5, avgHeadStability = None,
       avgSpeakingRateWpm = None\<rparr>,
      \<lparr>averagePitch = None, averagePauseDuration = None, speakingRateWpm = None,
       prosodyScore = None\<rparr>,
      [])"

definition fourteen_samples :: "fairness_sample list" where
  "fourteen_samples = concat (replicate 7 [call_sample call_high, call_sample call_medium])"

definition context_with_gender :: audit_call where
  "context_with_gender = ([(''userId'', Some ''abc''), (''gender'', Some ''f'')],
                          [(''overallPerformanceScore'', 71)])"

definition context_without_sensitive :: audit_call where
  "context_without_sensitive = ([(''camera_brand'', Some ''BrandX''), (''age'', None)],
                                [(''overallPerformanceScore'', 60)])"

text \<open>The cursor after \<open>i\<close> passes of the loop that starts at \<open>c\<close>: \<open>w\<close> added \<open>i\<close> times, each
  sum rounded to a double.  The loop starts at 0.\<close>

primrec cursor_after :: "real \<Rightarrow> real \<Rightarrow> nat \<Rightarrow> real" where
  "cursor_after w c 0 = c"
| "cursor_after w c (Suc i) = float_add (cursor_after w c i) w"

definition cursor_at :: "real \<Rightarrow> nat \<Rightarrow> real" where
  "cursor_at w i = cursor_after w 0 i"

text \<open>The window that the loop builds at a cursor, for a window size \<open>w\<close>.\<close>

definition window_at ::
  "(real list \<Rightarrow> real list) option \<Rightarrow> video_feature list \<Rightarrow> audio_segment_feature list
     \<Rightarrow> text_segment_feature list \<Rightarrow> bool \<Rightarrow> real \<Rightarrow> real \<Rightarrow> fused_window" where
  "window_at learned vf af tf ulf w cursor =
     projr (fuse_window learned vf af tf ulf cursor (float_add cursor w))"

text \<open>Example inputs: one transcript segment that ends at 4.5 s, one that ends at
  \<open>2049/4096 = 0.500244140625\<close> s, one that ends at 7.0 s, and one centred video frame at
  1.0 s; the window size \<open>1025/2048 = 0.50048828125\<close> s, and the double nearest to 0.7.  These
  times and sizes are doubles.\<close>

definition window_size_1025 :: real where
  "window_size_1025 = 1025 / 2048"

definition double_0_7 :: real where
  "double_0_7 = 3152519739159347 / 4503599627370496"

definition text_until_7 :: "text_segment_feature list" where
  "text_until_7 =
     [\<lparr>tf_start = Some 0, tf_end = Some 7, tf_semantic_relevance = Some 0.8,
       tf_sentiment_score = Some 0.1, tf_answer_coherence = Some 0.7\<rparr>]"

definition text_until_4_5 :: "text_segment_feature list" where
  "text_until_4_5 =
     [\<lparr>tf_start = Some 0, tf_end = Some 4.5, tf_semantic_relevance = Some 0.8,
       tf_sentiment_score = Some 0.1, tf_answer_coherence = Some 0.7\<rparr>]"

definition text_until_2049 :: "text_segment_feature list" where
  "text_until_2049 =
     [\<lparr>tf_start = Some 0, tf_end = Some (2049 / 4096), tf_semantic_relevance = Some 0.8,
       tf_sentiment_score = Some 0.1, tf_answer_coherence = Some 0.7\<rparr>]"

definition frame_at_1 :: "video_feature list" where
  "frame_at_1 =
     [\<lparr>vf_timestamp = Some 1,
       vf_facial_emotion_scores = Some [(''happy'', 1)],
       vf_head_pose = Some \<lparr>hp_yaw = Some 0, hp_pitch = Some 0, hp_roll = Some 0\<rparr>,
       vf_gaze_direction = Some ''center'',
       vf_eye_contact = Some 1\<rparr>]"

text \<open>A fused window whose mean pause is 3000 s, and otherwise empty inputs.\<close>

definition long_pause_window :: fused_window where
  "long_pause_window =
     \<lparr>startTime = Some 0, endTime = Some 2, facialEmotionScores = Some [(''neutral'', 1)],
      headPose = Some \<lparr>hp_yaw = Some 0, hp_pitch = Some 0, hp_roll = Some 0\<rparr>,
      gazeDirection = Some ''unknown'',
      speechFeatures = Some \<lparr>sf_pitch = Some 0, sf_pause_duration = Some 3000,
                              sf_speaking_rate = Some 0, sf_prosody_score = Some 0\<rparr>,
      textScores = Some \<lparr>ts_semantic_relevance = Some 0, ts_sentiment_score = Some 0,
                         ts_answer_coherence = Some 0\<rparr>,
      fusedVector = Some [0, 1, 0, 0, 0, 3000, 0, 0, 0, 0]\<rparr>"

definition long_pause_audio :: "audio_segment_feature list" where
  "long_pause_audio =
     [\<lparr>af_start = Some 0, af_end = Some 1, af_pitch = Some 0, af_pause_duration = Some 3000,
       af_speaking_rate = Some 0, af_prosody = None\<rparr>]"

definition no_engagement_metrics :: engagement_metrics where
  "no_engagement_metrics = \<lparr>overallEngagement = None, eyeContactRatio = None,
                             avgHeadStability = None, avgSpeakingRateWpm = None\<rparr>"

definition no_speech_metrics :: speech_quality_metrics where
  "no_speech_metrics = \<lparr>averagePitch = None, averagePauseDuration = None,
                         speakingRateWpm = None, prosodyScore = None\<rparr>"

section \<open>Properties\<close>

subsection \<open>Library lemmas\<close>

lemma py_bind_Inr [simp]: "py_bind (Inr v) f = f v"
  by (simp add: py_bind_def)

lemma py_bind_Inl [simp]: "py_bind (Inl e) f = Inl e"
  by (simp add: py_bind_def)

lemma py_bind_eq_Inr:
  "(py_bind m f = Inr r) = (\<exists>v. m = Inr v \<and> f v = Inr r)"
  by (cases m) simp_all

lemma py_mapM_Inr:
  "(\<And>x. x \<in> set xs \<Longrightarrow> f x = Inr (g x)) \<Longrightarrow> py_mapM f xs = Inr (map g xs)"
  by (induction xs) simp_all

lemma fold_max_eq_Max: "fold max xs (x::'a::linorder) = Max (set (x # xs))"
  by (rule Max.set_eq_fold[symmetric])

lemma py_max_nonempty: "xs \<noteq> [] \<Longrightarrow> py_max xs = Inr (Max (set xs))"
  by (cases xs) (simp_all add: fold_max_eq_Max)

lemma fold_min_eq_Min: "fold min xs (x::'a::linorder) = Min (set (x # xs))"
  by (rule Min.set_eq_fold[symmetric])

lemma py_min_nonempty: "xs \<noteq> [] \<Longrightarrow> py_min xs = Inr (Min (set xs))"
  by (cases xs) (simp_all add: fold_min_eq_Min)

lemma map_of_dict_set: "map_of (dict_set d k v) = (map_of d)(k \<mapsto> v)"
  by (induction d) (auto simp: fun_eq_iff)

lemma dict_get_dict_set: "dict_get (dict_set d k v) k' dflt = (if k' = k then v else dict_get d k' dflt)"
  by (simp add: dict_get_def map_of_dict_set)

lemma fst_set_dict_set: "fst ` set (dict_set d k v) = insert k (fst ` set d)"
proof -
  have "fst ` set (dict_set d k v) = dom (map_of (dict_set d k v))"
    by (simp add: dom_map_of_conv_image_fst)
  also have "\<dots> = insert k (dom (map_of d))"
    by (simp add: map_of_dict_set)
  finally show ?thesis by (simp add: dom_map_of_conv_image_fst)
qed

lemma distinct_dict_set: "distinct (map fst d) \<Longrightarrow> distinct (map fst (dict_set d k v))"
  by (induction d) (auto simp: fst_set_dict_set)

lemma dict_set_nonempty [simp]: "dict_set d k v \<noteq> []"
  by (cases d) (auto split: if_splits)

lemma clamp_bounds: "lo \<le> hi \<Longrightarrow> lo \<le> clamp v lo hi \<and> clamp v lo hi \<le> hi"
  by (simp add: clamp_def)

subsection \<open>Rubric levels\<close>

lemma rubric_dims_cases:
  "(dname, defn) \<in> set RUBRIC_DIMENSIONS \<Longrightarrow>
     levels defn = communication_levels \<or> levels defn = technical_clarity_levels
     \<or> levels defn = behavioral_response_levels \<or> levels defn = engagement_levels"
  by (auto simp: RUBRIC_DIMENSIONS_def)

lemma score_to_level_fixed:
  assumes "lvls = [l0, l1, l2]" "min_score l0 = 85" "min_score l1 = 70" "min_score l2 = 0"
  shows "score_to_level s lvls = Inr (lvls ! level_index s)"
  using assms by (auto simp: score_to_level_def level_index_def clamp_def Let_def)

lemma score_to_level_dimension:
  assumes "(dname, defn) \<in> set RUBRIC_DIMENSIONS"
  shows "score_to_level s (levels defn) = Inr (levels defn ! level_index s)"
  using rubric_dims_cases[OF assms]
  by (auto simp: communication_levels_def technical_clarity_levels_def
      behavioral_response_levels_def engagement_levels_def intro!: score_to_level_fixed)

lemma level_label_dimension:
  assumes "(dname, defn) \<in> set RUBRIC_DIMENSIONS"
  shows "label (levels defn ! level_index s) =
             (if 85 \<le> clamp s 0 100 then ''Excellent''
              else if 70 \<le> clamp s 0 100 then ''Good'' else ''Needs Improvement'')"
  using rubric_dims_cases[OF assms]
  by (auto simp: communication_levels_def technical_clarity_levels_def
      behavioral_response_levels_def engagement_levels_def level_index_def)

lemma rubric_descriptors_twelve:
  "length (concat (map (\<lambda>d. map descriptor (levels (snd d))) RUBRIC_DIMENSIONS)) = 12
   \<and> distinct (concat (map (\<lambda>d. map descriptor (levels (snd d))) RUBRIC_DIMENSIONS))"
  by (simp add: RUBRIC_DIMENSIONS_def communication_levels_def technical_clarity_levels_def
        behavioral_response_levels_def engagement_levels_def)

text \<open>
  C8: for each of the four rubric dimensions, \<open>score_to_level\<close> returns the first level
  (\<open>Excellent\<close>) when the score clamped to \<open>[0, 100]\<close> is at least 85, the second (\<open>Good\<close>)
  when it is at least 70 and below 85, and the third (labelled \<open>Needs Improvement\<close>)
  otherwise; the descriptor is the one written for that level of that dimension, and the
  four dimensions hold twelve descriptors, all different.
\<close>

theorem score_to_level_thresholds:
  assumes "(dname, defn) \<in> set RUBRIC_DIMENSIONS"
  shows "score_to_level s (levels defn) = Inr (levels defn ! level_index s)
         \<and> level_index s < length (levels defn)
         \<and> label (levels defn ! level_index s) =
             (if 85 \<le> clamp s 0 100 then ''Excellent''
              else if 70 \<le> clamp s 0 100 then ''Good'' else ''Needs Improvement'')
         \<and> length (concat (map (\<lambda>d. map descriptor (levels (snd d))) RUBRIC_DIMENSIONS)) = 12
         \<and> distinct (concat (map (\<lambda>d. map descriptor (levels (snd d))) RUBRIC_DIMENSIONS))"
proof -
  have "level_index s < length (levels defn)"
    using rubric_dims_cases[OF assms]
    by (auto simp: communication_levels_def technical_clarity_levels_def
        behavioral_response_levels_def engagement_levels_def level_index_def)
  then show ?thesis
    using score_to_level_dimension[OF assms] level_label_dimension[OF assms]
      rubric_descriptors_twelve by simp
qed

theorem score_to_level_thresholds_witness:
  "(''communication'', the (map_of RUBRIC_DIMENSIONS ''communication'')) \<in> set RUBRIC_DIMENSIONS
   \<and> map (\<lambda>s. map_sum id label (score_to_level s communication_levels)) [85, 84.999, 0, 70, 100, 120, -3]
     = [Inr ''Excellent'', Inr ''Good'', Inr ''Needs Improvement'', Inr ''Good'',
        Inr ''Excellent'', Inr ''Excellent'', Inr ''Needs Improvement'']
   \<and> map_sum id descriptor (score_to_level 84.999 communication_levels)
     = Inr ''Communicates clearly with minor pacing or structure gaps that do not block understanding.''"
proof -
  have m: "(''communication'', the (map_of RUBRIC_DIMENSIONS ''communication'')) \<in> set RUBRIC_DIMENSIONS"
    by (simp add: RUBRIC_DIMENSIONS_def)
  have l: "levels (the (map_of RUBRIC_DIMENSIONS ''communication'')) = communication_levels"
    by (simp add: RUBRIC_DIMENSIONS_def)
  have i: "map level_index [85, 84.999, 0, 70, 100, 120, -3] = [0, 1, 2, 1, 0, 0, 2]"
    by (simp add: level_index_def clamp_def)
  show ?thesis
    using m i score_to_level_thresholds[OF m, of 85] score_to_level_thresholds[OF m, of "84.999"]
      score_to_level_thresholds[OF m, of 0] score_to_level_thresholds[OF m, of 70]
      score_to_level_thresholds[OF m, of 100] score_to_level_thresholds[OF m, of 120]
      score_to_level_thresholds[OF m, of "-3"]
    by (simp add: l communication_levels_def)
qed

subsection \<open>Speaking-rate bands\<close>

text \<open>
  C9, as stated, fails: a speaking rate of 0 (and any rate that is not positive) is put in
  a fourth bucket, \<^verbatim>\<open>unknown_rate\<close>, and not in the slow bucket.
\<close>

theorem band_speaking_rate_zero_counterexample:
  "band_speaking_rate 0 = ''unknown_rate'' \<and> band_speaking_rate 0 \<noteq> ''slow_rate''
   \<and> band_speaking_rate 0 \<notin> {''slow_rate'', ''optimal_rate'', ''fast_rate''}"
  by (simp add: band_speaking_rate_def)

text \<open>
  C9, amended: every speaking rate gets exactly one of four buckets: unknown for a rate
  that is not positive, slow for a positive rate below 110, optimal from 110 to 160
  (both included) and fast above 160.
\<close>

theorem band_speaking_rate_four_buckets:
  "band_speaking_rate rate =
     (if rate \<le> 0 then ''unknown_rate''
      else if rate < 110 then ''slow_rate''
      else if rate \<le> 160 then ''optimal_rate''
      else ''fast_rate'')
   \<and> (band_speaking_rate rate = ''unknown_rate'') = (rate \<le> 0)
   \<and> (band_speaking_rate rate = ''slow_rate'') = (0 < rate \<and> rate < 110)
   \<and> (band_speaking_rate rate = ''optimal_rate'') = (110 \<le> rate \<and> rate \<le> 160)
   \<and> (band_speaking_rate rate = ''fast_rate'') = (160 < rate)"
  by (simp add: band_speaking_rate_def)

subsection \<open>Engagement score\<close>

lemma map_of_count_fold:
  assumes f: "\<And>g c. f g c = dict_set c g (dict_get c g (0::nat) + 1)"
  shows "map_of (fold f gs acc) g =
     (if g \<in> set gs \<or> map_of acc g \<noteq> None
      then Some (dict_get acc g 0 + count_list gs g) else None)"
proof (induction gs arbitrary: acc)
  case Nil
  then show ?case by (auto simp: dict_get_def)
next
  case (Cons a gs)
  have step: "fold f (a # gs) acc = fold f gs (f a acc)" by simp
  show ?case unfolding step Cons.IH
    by (auto simp: f map_of_dict_set dict_get_def)
qed

lemma distinct_count_fold:
  assumes f: "\<And>g c. f g c = dict_set c g (dict_get c g (0::nat) + 1)"
  shows "distinct (map fst acc) \<Longrightarrow> distinct (map fst (fold f gs acc))"
proof (induction gs arbitrary: acc)
  case Nil
  then show ?case by simp
next
  case (Cons a gs)
  have "distinct (map fst (f a acc))"
    unfolding f using Cons.prems by (rule distinct_dict_set)
  from Cons.IH[OF this] show ?case by simp
qed

lemma map_of_gaze_counts:
  "map_of (gaze_counts gs) g = (if g \<in> set gs then Some (count_list gs g) else None)"
  unfolding gaze_counts_def by (subst map_of_count_fold) (simp_all add: dict_get_def)

lemma distinct_gaze_counts: "distinct (map fst (gaze_counts gs))"
  unfolding gaze_counts_def by (rule distinct_count_fold) simp_all

lemma set_gaze_counts: "set (gaze_counts gs) = (\<lambda>g. (g, count_list gs g)) ` set gs"
proof -
  have "\<And>k v. ((k, v) \<in> set (gaze_counts gs)) = (k \<in> set gs \<and> v = count_list gs k)"
    using map_of_eq_Some_iff[OF distinct_gaze_counts, of gs, symmetric]
    by (auto simp: map_of_gaze_counts split: if_splits)
  then show ?thesis by auto
qed

lemma gaze_counts_max:
  assumes "gs \<noteq> []"
  shows "py_max (map (\<lambda>kv. real (snd kv)) (gaze_counts gs))
         = Inr (real (Max ((\<lambda>g. count_list gs g) ` set gs)))"
proof -
  have ne: "gaze_counts gs \<noteq> []"
    using set_gaze_counts[of gs] assms by (cases "gaze_counts gs") auto
  have "set (map (\<lambda>kv. real (snd kv)) (gaze_counts gs)) = real ` ((\<lambda>g. count_list gs g) ` set gs)"
    by (simp add: set_gaze_counts image_image)
  moreover have "Max (real ` ((\<lambda>g. count_list gs g) ` set gs)) = real (Max ((\<lambda>g. count_list gs g) ` set gs))"
    using assms by (intro mono_Max_commute[symmetric]) (auto simp: mono_def)
  ultimately show ?thesis using ne by (simp add: py_max_nonempty)
qed

lemma window_gazes_empty [simp]: "(window_gazes ws = []) = (ws = [])"
  by (simp add: window_gazes_def)

lemma length_window_gazes [simp]: "length (window_gazes ws) = length ws"
  by (simp add: window_gazes_def)

lemma compute_engagement_score_nonempty:
  assumes "ws \<noteq> []"
  shows "compute_engagement_score em ws =
     Inr (engagement_formula
            (normalize_percent (get_or (eyeContactRatio em) 0))
            (100 * (0.5 * dominant_gaze_ratio (window_gazes ws) + 0.5 * center_gaze_ratio (window_gazes ws)))
            (clamp (100 - 1.5 * mean_abs_head_motion ws) 0 100),
          [(''eyeContactScore'', py_round (normalize_percent (get_or (eyeContactRatio em) 0)) 2),
           (''gazeStabilityScore'',
              py_round (100 * (0.5 * dominant_gaze_ratio (window_gazes ws)
                               + 0.5 * center_gaze_ratio (window_gazes ws))) 2),
           (''headMotionScore'', py_round (clamp (100 - 1.5 * mean_abs_head_motion ws) 0 100) 2)])"
proof -
  have c: "dict_get (gaze_counts (window_gazes ws)) ''center'' 0 = count_list (window_gazes ws) ''center''"
    by (simp add: dict_get_def map_of_gaze_counts)
  have m: "statistics_mean (map head_motion ws) = Inr (mean_abs_head_motion ws)"
    using assms by (simp add: statistics_mean_def mean_of_def mean_abs_head_motion_def)
  have n: "real (length ws) \<noteq> 0" using assms by simp
  have e: "\<And>a b d. (a::real) * 0.4 + b * 0.35 + d * 0.25 = 0.4 * a + 0.35 * b + 0.25 * d"
    by (simp add: algebra_simps)
  have h: "100 - mean_abs_head_motion ws * 1.5 = 100 - 1.5 * mean_abs_head_motion ws"
    by simp
  have g: "\<And>b c. ((b::real) * 0.5 + c * 0.5) * 100 = 100 * (0.5 * b + 0.5 * c)"
    by (simp add: algebra_simps)
  show ?thesis
    using assms
    by (simp only: compute_engagement_score_def Let_def gaze_counts_max c m engagement_formula_def
        dominant_gaze_ratio_def center_gaze_ratio_def window_gazes_empty length_window_gazes
        py_bind_Inr if_False if_True list.map_disc_iff e h g
        simp_thms)
qed

lemma compute_engagement_score_empty:
  "compute_engagement_score em [] =
     Inr (engagement_formula (normalize_percent (get_or (eyeContactRatio em) 0)) 40 70,
          [(''eyeContactScore'', py_round (normalize_percent (get_or (eyeContactRatio em) 0)) 2),
           (''gazeStabilityScore'', py_round 40 2),
           (''headMotionScore'', py_round 70 2)])"
  by (simp add: compute_engagement_score_def Let_def engagement_formula_def clamp_def window_gazes_def
      algebra_simps)

text \<open>
  C5, as stated, fails for the empty window list: there the code does not use the gaze and
  head-motion formulas but the constants 40 (gaze stability) and 20 (mean head motion), and
  the example gives 61.5, while the closed form with no gaze share and no head motion
  gives 55.
\<close>

theorem engagement_empty_windows_counterexample:
  "map_sum id fst (compute_engagement_score example_metrics []) = Inr 61.5
   \<and> engagement_formula (normalize_percent 0.75) (100 * (0.5 * 0 + 0.5 * 0)) (clamp (100 - 1.5 * 0) 0 100) = 55
   \<and> \<not> \<bar>61.5 - (55::real)\<bar> < 1 / 10 ^ 6"
  by (simp add: compute_engagement_score_empty example_metrics_def engagement_formula_def
      normalize_percent_def clamp_def get_or_def)

text \<open>
  C5, amended: for a non-empty list of fused windows the engagement score is the closed form
  \<open>clamp(0.4 * eyeContactPct + 0.35 * gazeStability + 0.25 * headMotionScore, 0, 100)\<close> with
  \<open>gazeStability = 100 * (0.5 * dominantGazeRatio + 0.5 * centerGazeRatio)\<close> and
  \<open>headMotionScore = clamp(100 - 1.5 * meanAbsoluteHeadMotion, 0, 100)\<close>; for the empty list
  it is the same weighted sum with gaze stability 40 and mean head motion 20, so that the
  example with \<open>eyeContactRatio = 0.75\<close> gives \<open>0.4 * 75 + 0.35 * 40 + 0.25 * 70 = 61.5\<close>.
\<close>

theorem compute_engagement_score_closed_form:
  "(ws \<noteq> [] \<longrightarrow>
      map_sum id fst (compute_engagement_score em ws) =
        Inr (engagement_formula
               (normalize_percent (get_or (eyeContactRatio em) 0))
               (100 * (0.5 * dominant_gaze_ratio (window_gazes ws)
                       + 0.5 * center_gaze_ratio (window_gazes ws)))
               (clamp (100 - 1.5 * mean_abs_head_motion ws) 0 100)))
   \<and> map_sum id fst (compute_engagement_score em []) =
        Inr (engagement_formula (normalize_percent (get_or (eyeContactRatio em) 0)) 40
               (clamp (100 - 1.5 * 20) 0 100))
   \<and> map_sum id fst (compute_engagement_score example_metrics []) = Inr 61.5
   \<and> engagement_formula 75 40 70 = 61.5"
proof -
  have a: "ws \<noteq> [] \<longrightarrow>
      map_sum id fst (compute_engagement_score em ws) =
        Inr (engagement_formula
               (normalize_percent (get_or (eyeContactRatio em) 0))
               (100 * (0.5 * dominant_gaze_ratio (window_gazes ws)
                       + 0.5 * center_gaze_ratio (window_gazes ws)))
               (clamp (100 - 1.5 * mean_abs_head_motion ws) 0 100))"
    by (simp add: compute_engagement_score_nonempty)
  have b: "\<And>em. map_sum id fst (compute_engagement_score em []) =
        Inr (engagement_formula (normalize_percent (get_or (eyeContactRatio em) 0)) 40
               (clamp (100 - 1.5 * 20) 0 100))"
    by (simp add: compute_engagement_score_empty clamp_def)
  have c: "engagement_formula 75 40 70 = 61.5"
    by (simp add: engagement_formula_def clamp_def)
  have d: "map_sum id fst (compute_engagement_score example_metrics []) = Inr 61.5"
    unfolding b by (simp add: example_metrics_def get_or_def normalize_percent_def clamp_def
        engagement_formula_def)
  from a b c d show ?thesis by blast
qed

lemma example_windows_values:
  "window_gazes example_windows = [''center'', ''left'', ''left'']"
  "mean_abs_head_motion example_windows = 8 / 3"
  by (simp_all add: example_windows_def window_gazes_def lower_def get_or_def
      mean_abs_head_motion_def head_motion_def no_head_pose_def)

theorem compute_engagement_score_closed_form_witness:
  "example_windows \<noteq> []
   \<and> map_sum id fst (compute_engagement_score example_metrics example_windows) = Inr 71.5"
proof -
  have ne: "example_windows \<noteq> []" by (simp add: example_windows_def)
  have s: "set [''center'', ''left'', ''left''] = {''center'', ''left''}" by auto
  have v: "engagement_formula
               (normalize_percent (get_or (eyeContactRatio example_metrics) 0))
               (100 * (0.5 * dominant_gaze_ratio (window_gazes example_windows)
                       + 0.5 * center_gaze_ratio (window_gazes example_windows)))
               (clamp (100 - 1.5 * mean_abs_head_motion example_windows) 0 100) = 71.5"
    unfolding example_windows_values dominant_gaze_ratio_def center_gaze_ratio_def s
    by (simp add: example_metrics_def get_or_def normalize_percent_def clamp_def
        engagement_formula_def)
  show ?thesis
    using compute_engagement_score_closed_form[of example_windows example_metrics] ne v by simp
qed

subsection \<open>Eye-contact normalisation\<close>

lemma normalize_percent_cases:
  "normalize_percent v = (if v \<le> 0 then 0 else if v \<le> 1 then v * 100 else if v \<le> 100 then v else 100)"
  by (simp add: normalize_percent_def clamp_def)

lemma adv_normalize_percent_eq: "adv_normalize_percent = normalize_percent"
  by (simp add: fun_eq_iff adv_normalize_percent_def normalize_percent_def)

lemma normalize_percent_not_cont: "\<not> isCont normalize_percent 1"
proof
  assume "isCont normalize_percent 1"
  then have "normalize_percent \<midarrow>1\<rightarrow> normalize_percent 1"
    by (simp add: isCont_def)
  from metric_LIM_D[OF this, of 1]
  obtain d where d: "0 < d"
      "\<And>x'. x' \<noteq> 1 \<Longrightarrow> dist x' 1 < d \<Longrightarrow> dist (normalize_percent x') (normalize_percent 1) < 1"
    by auto
  define x where "x = 1 + min (d / 2) 1"
  have x: "1 < x" "x \<le> 2" "dist x 1 < d"
    using d(1) by (auto simp: x_def dist_real_def min_def)
  have "normalize_percent x = x" using x by (simp add: normalize_percent_cases)
  moreover have "normalize_percent 1 = 100" by (simp add: normalize_percent_cases)
  ultimately have "dist x 100 < 1" using d(2)[OF _ x(3)] x(1) by simp
  then show False using x by (simp add: dist_real_def)
qed

lemma build_vision_embedding_head:
  "\<exists>rest. build_vision_embedding em ws =
      Inr (adv_normalize_percent (get_or (eyeContactRatio em) 0) / 100 # rest)"
proof (cases "ws = []")
  case True
  then show ?thesis by (simp add: build_vision_embedding_def Let_def window_gazes_def)
next
  case False
  then have "statistics_mean (map head_motion ws) = Inr (mean_of (map head_motion ws))"
    by (simp add: statistics_mean_def)
  with False show ?thesis by (simp add: build_vision_embedding_def Let_def)
qed

lemma compute_engagement_score_eye_contact:
  "\<exists>gs hm. compute_engagement_score em ws =
      Inr (clamp (0.4 * normalize_percent (get_or (eyeContactRatio em) 0) + 0.35 * gs + 0.25 * hm) 0 100,
           [(''eyeContactScore'', py_round (normalize_percent (get_or (eyeContactRatio em) 0)) 2),
            (''gazeStabilityScore'', py_round gs 2),
            (''headMotionScore'', py_round hm 2)])"
proof (cases "ws = []")
  case True
  then show ?thesis
    using compute_engagement_score_empty[of em] unfolding engagement_formula_def by blast
next
  case False
  then show ?thesis
    using compute_engagement_score_nonempty[of ws em] unfolding engagement_formula_def by blast
qed

text \<open>
  C10: both copies of \<open>_normalize_percent\<close> are piecewise: an input up to 1 is multiplied by
  100, a larger input is taken as the percentage itself, and the result is clamped to
  \<open>[0, 100]\<close>.  Input 1 gives 100 and input 1.01 gives 1.01, so the function is not
  continuous at 1.  The engagement score and the first entry of the vision embedding
  are computed from this value.
\<close>

theorem normalize_percent_piecewise:
  "normalize_percent v = (if v \<le> 1 then clamp (v * 100) 0 100 else clamp v 0 100)
   \<and> adv_normalize_percent v = (if v \<le> 1 then clamp (v * 100) 0 100 else clamp v 0 100)
   \<and> normalize_percent v = (if v \<le> 0 then 0 else if v \<le> 1 then v * 100 else if v \<le> 100 then v else 100)
   \<and> normalize_percent 1 = 100 \<and> normalize_percent 1.01 = 1.01
   \<and> adv_normalize_percent 1 = 100 \<and> adv_normalize_percent 1.01 = 1.01
   \<and> \<not> isCont normalize_percent 1 \<and> \<not> isCont adv_normalize_percent 1
   \<and> (\<exists>gs hm. compute_engagement_score em ws =
        Inr (clamp (0.4 * normalize_percent (get_or (eyeContactRatio em) 0) + 0.35 * gs + 0.25 * hm) 0 100,
             [(''eyeContactScore'', py_round (normalize_percent (get_or (eyeContactRatio em) 0)) 2),
              (''gazeStabilityScore'', py_round gs 2),
              (''headMotionScore'', py_round hm 2)]))
   \<and> (\<exists>rest. build_vision_embedding em ws =
        Inr (adv_normalize_percent (get_or (eyeContactRatio em) 0) / 100 # rest))"
  using normalize_percent_not_cont build_vision_embedding_head[of em ws]
    compute_engagement_score_eye_contact[of em ws] normalize_percent_cases[of v]
  by (simp add: adv_normalize_percent_eq) (simp add: normalize_percent_def clamp_def)

subsection \<open>Emotional regulation score\<close>

lemma series_fold_get:
  "dict_get (fold series_append es pls) l [] = dict_get pls l [] @ label_values l es"
proof (induction es arbitrary: pls)
  case Nil
  then show ?case by (simp add: label_values_def)
next
  case (Cons a es)
  have step: "fold series_append (a # es) pls = fold series_append es (series_append a pls)"
    by simp
  show ?case unfolding step Cons.IH
    by (simp add: series_append_def dict_get_dict_set label_values_def)
qed

lemma series_fold_keys:
  "fst ` set (fold series_append es pls) = fst ` set pls \<union> fst ` set es"
  by (induction es arbitrary: pls) (auto simp: series_append_def fst_set_dict_set)

lemma series_fold_distinct:
  "distinct (map fst pls) \<Longrightarrow> distinct (map fst (fold series_append es pls))"
  by (induction es arbitrary: pls) (simp_all add: series_append_def distinct_dict_set)

lemma regulation_loop_spec:
  assumes "distinct (map fst pls)"
  shows "\<exists>pls'. regulation_loop traj ds pls = Inr (ds @ dominant_series traj, pls')
           \<and> distinct (map fst pls')
           \<and> (\<forall>l. dict_get pls' l [] = dict_get pls l [] @ label_series traj l)
           \<and> fst ` set pls' = fst ` set pls \<union> set (trajectory_labels traj)"
  using assms
proof (induction traj arbitrary: ds pls)
  case Nil
  then show ?case
    by (simp add: dominant_series_def scored_points_def label_series_def trajectory_labels_def)
next
  case (Cons p traj)
  show ?case
  proof (cases "get_or (emotionScores p) [] = []")
    case True
    with Cons.IH[OF Cons.prems, of ds] show ?thesis
      by (simp add: dominant_series_def scored_points_def label_series_def trajectory_labels_def)
  next
    case False
    let ?es = "get_or (emotionScores p) []"
    have d: "distinct (map fst (fold series_append ?es pls))"
      using Cons.prems by (rule series_fold_distinct)
    from Cons.IH[OF d, of "ds @ [Max (set (map snd ?es))]"]
    obtain pls' where p: "regulation_loop traj (ds @ [Max (set (map snd ?es))]) (fold series_append ?es pls)
             = Inr ((ds @ [Max (set (map snd ?es))]) @ dominant_series traj, pls')"
        "distinct (map fst pls')"
        "\<forall>l. dict_get pls' l [] = dict_get (fold series_append ?es pls) l [] @ label_series traj l"
        "fst ` set pls' = fst ` set (fold series_append ?es pls) \<union> set (trajectory_labels traj)"
      by blast
    have m: "py_max (map snd ?es) = Inr (Max (set (map snd ?es)))"
      using False by (simp add: py_max_nonempty)
    have "regulation_loop (p # traj) ds pls = Inr (ds @ dominant_series (p # traj), pls')"
      using False p(1) m by (simp add: dominant_series_def scored_points_def)
    moreover have "\<forall>l. dict_get pls' l [] = dict_get pls l [] @ label_series (p # traj) l"
      using False p(3) by (simp add: series_fold_get label_series_def scored_points_def)
    moreover have "fst ` set pls' = fst ` set pls \<union> set (trajectory_labels (p # traj))"
      using False p(4) by (auto simp: series_fold_keys trajectory_labels_def scored_points_def)
    ultimately show ?thesis using p(2) by blast
  qed
qed

lemma pvariance_all:
  "py_mapM statistics_pvariance (filter (\<lambda>series. 1 < length series) xs)
     = Inr (map pvariance_of (filter (\<lambda>series. 1 < length series) xs))"
  by (rule py_mapM_Inr) (auto simp: statistics_pvariance_def)

lemma label_vars_sum:
  assumes d: "distinct (map fst pls)"
    and g: "\<forall>l. dict_get pls l [] = label_series traj l"
    and k: "fst ` set pls = set (trajectory_labels traj)"
  shows "sum_list (map pvariance_of (filter (\<lambda>series. 1 < length series) (map snd pls)))
           = sum_list (map (\<lambda>l. pvariance_of (label_series traj l)) (varying_labels traj))
         \<and> length (filter (\<lambda>series. 1 < length series) (map snd pls)) = length (varying_labels traj)"
proof -
  have v: "\<And>kv. kv \<in> set pls \<Longrightarrow> snd kv = label_series traj (fst kv)"
  proof -
    fix kv assume "kv \<in> set pls"
    then have "map_of pls (fst kv) = Some (snd kv)" using d by simp
    then show "snd kv = label_series traj (fst kv)" using g by (auto simp: dict_get_def split: option.splits)
  qed
  define ks where "ks = filter (\<lambda>l. 1 < length (label_series traj l)) (map fst pls)"
  have f: "filter (\<lambda>series. 1 < length series) (map snd pls) = map (label_series traj) ks"
    unfolding ks_def using v by (induction pls) auto
  have dk: "distinct ks" using d by (simp add: ks_def)
  have dv: "distinct (varying_labels traj)" by (simp add: varying_labels_def trajectory_labels_def)
  have s: "set ks = set (varying_labels traj)"
    using k by (auto simp: varying_labels_def ks_def)
  have "sum_list (map (\<lambda>l. pvariance_of (label_series traj l)) ks)
        = sum_list (map (\<lambda>l. pvariance_of (label_series traj l)) (varying_labels traj))"
    using dk dv s by (simp add: sum_list_distinct_conv_sum_set)
  moreover have "length ks = length (varying_labels traj)"
    using dk dv s by (metis distinct_card)
  ultimately show ?thesis unfolding f by (simp add: comp_def)
qed

lemma compute_emotional_regulation_score_nonempty:
  assumes "traj \<noteq> []"
  shows "\<exists>details. compute_emotional_regulation_score traj = Inr (regulation_formula traj, details)"
proof -
  from regulation_loop_spec[of "[]" traj "[]"]
  obtain pls where p: "regulation_loop traj [] [] = Inr (dominant_series traj, pls)"
      "distinct (map fst pls)" "\<forall>l. dict_get pls l [] = label_series traj l"
      "fst ` set pls = set (trajectory_labels traj)"
    by (auto simp: dict_get_def)
  let ?vs = "map pvariance_of (filter (\<lambda>series. 1 < length series) (map snd pls))"
  from label_vars_sum[OF p(2) p(3) p(4)]
  have s: "sum_list ?vs = sum_list (map (\<lambda>l. pvariance_of (label_series traj l)) (varying_labels traj))"
    and n: "length ?vs = length (varying_labels traj)" by simp_all
  have e: "(?vs = []) = (varying_labels traj = [])" using n by (metis length_0_conv)
  have dv: "(if 1 < length (dominant_series traj) then statistics_pvariance (dominant_series traj) else Inr 0)
            = Inr (dominant_variance traj)"
    by (auto simp: dominant_variance_def statistics_pvariance_def)
  have mv: "(if ?vs \<noteq> [] then statistics_mean ?vs else Inr 0) = Inr (mean_label_variance traj)"
    using e s n by (auto simp: mean_label_variance_def statistics_mean_def mean_of_def)
  have "compute_emotional_regulation_score traj =
          Inr (clamp (100 - min 100 ((dominant_variance traj * 280) + (mean_label_variance traj * 220))) 0 100,
               [(''dominantEmotionVariance'', py_round (dominant_variance traj) 6),
                (''averageEmotionVariance'', py_round (mean_label_variance traj) 6)])"
    unfolding compute_emotional_regulation_score_def
    by (simp only: assms if_False p(1) py_bind_Inr prod.case dv pvariance_all mv Let_def)
  moreover have "(dominant_variance traj * 280) + (mean_label_variance traj * 220)
                 = 280 * dominant_variance traj + 220 * mean_label_variance traj"
    by simp
  ultimately show ?thesis by (simp add: regulation_formula_def)
qed

lemma regulation_formula_single:
  assumes "distinct (map fst (get_or (emotionScores p) []))"
  shows "regulation_formula [p] = 100"
proof -
  have l: "\<And>l. length (label_values l (get_or (emotionScores p) [])) \<le> 1"
  proof -
    fix l
    have "distinct (map fst (filter (\<lambda>lv. fst lv = l) (get_or (emotionScores p) [])))"
      using assms by (simp add: distinct_map_filter)
    moreover have "set (map fst (filter (\<lambda>lv. fst lv = l) (get_or (emotionScores p) []))) \<subseteq> {l}"
      by auto
    ultimately have "length (map fst (filter (\<lambda>lv. fst lv = l) (get_or (emotionScores p) []))) \<le> card {l}"
      by (metis card_mono distinct_card finite.emptyI finite.insertI)
    then show "length (label_values l (get_or (emotionScores p) [])) \<le> 1"
      by (simp add: label_values_def)
  qed
  have "varying_labels [p] = []"
    using l by (auto simp: varying_labels_def label_series_def scored_points_def filter_empty_conv
        not_less)
  then have "mean_label_variance [p] = 0" by (simp add: mean_label_variance_def)
  moreover have "dominant_variance [p] = 0"
    by (simp add: dominant_variance_def dominant_series_def scored_points_def)
  ultimately show ?thesis by (simp add: regulation_formula_def clamp_def)
qed

text \<open>
  C4, as stated, fails for a trajectory of one point: the code returns 50 only for the empty
  trajectory; one point has no variance, so its score is 100.  (The window aligner emits
  such a one-point trajectory when there are no video frames.)
\<close>

theorem regulation_single_point_counterexample:
  "length [neutral_point] < 2
   \<and> map_sum id fst (compute_emotional_regulation_score [neutral_point]) = Inr 100
   \<and> map_sum id fst (compute_emotional_regulation_score [neutral_point]) \<noteq> Inr 50"
proof -
  have "distinct (map fst (get_or (emotionScores neutral_point) []))"
    by (simp add: neutral_point_def get_or_def)
  from regulation_formula_single[OF this]
    compute_emotional_regulation_score_nonempty[of "[neutral_point]"]
  show ?thesis by auto
qed

text \<open>
  C4, amended: for the empty trajectory \<open>compute_emotional_regulation_score\<close> returns the
  constant 50; for every non-empty trajectory it returns
  \<open>clamp(100 - min(100, 280 * dominantVariance + 220 * meanLabelVariance), 0, 100)\<close>, where
  \<open>dominantVariance\<close> is the population variance of the largest emotion score of each point
  that has emotion scores (0 when fewer than two points have any) and \<open>meanLabelVariance\<close> is
  the mean, over the labels observed at least twice, of the population variance of the
  label's scores (0 when no label is observed twice).  A trajectory of a single point
  therefore scores 100.
\<close>

theorem compute_emotional_regulation_score_closed_form:
  "map_sum id fst (compute_emotional_regulation_score traj)
     = Inr (if traj = [] then 50 else regulation_formula traj)
   \<and> (distinct (map fst (get_or (emotionScores p) [])) \<longrightarrow>
        map_sum id fst (compute_emotional_regulation_score [p]) = Inr 100)"
proof -
  have a: "\<And>traj. map_sum id fst (compute_emotional_regulation_score traj)
     = Inr (if traj = [] then 50 else regulation_formula traj)"
  proof -
    fix traj
    show "map_sum id fst (compute_emotional_regulation_score traj)
     = Inr (if traj = [] then 50 else regulation_formula traj)"
    proof (cases "traj = []")
      case True
      then show ?thesis by (simp add: compute_emotional_regulation_score_def)
    next
      case False
      with compute_emotional_regulation_score_nonempty[OF False] show ?thesis by auto
    qed
  qed
  show ?thesis using a[of traj] a[of "[p]"] regulation_formula_single[of p] by simp
qed

lemma two_point_values:
  "dominant_series two_point_trajectory = [0.8, 0.75]"
  "varying_labels two_point_trajectory = [''neutral'', ''happy'']"
  "label_series two_point_trajectory ''neutral'' = [0.8, 0.75]"
  "label_series two_point_trajectory ''happy'' = [0.2, 0.25]"
  by (simp_all add: two_point_trajectory_def dominant_series_def scored_points_def get_or_def
      varying_labels_def trajectory_labels_def label_series_def label_values_def)

theorem compute_emotional_regulation_score_closed_form_witness:
  "distinct (map fst (get_or (emotionScores neutral_point) []))
   \<and> map_sum id fst (compute_emotional_regulation_score [neutral_point]) = Inr 100
   \<and> map_sum id fst (compute_emotional_regulation_score two_point_trajectory) = Inr 99.6875
   \<and> map_sum id fst (compute_emotional_regulation_score []) = Inr 50"
proof -
  have d: "distinct (map fst (get_or (emotionScores neutral_point) []))"
    by (simp add: neutral_point_def get_or_def)
  have ne: "two_point_trajectory \<noteq> []" by (simp add: two_point_trajectory_def)
  have v: "regulation_formula two_point_trajectory = 99.6875"
    by (simp add: regulation_formula_def dominant_variance_def mean_label_variance_def
        two_point_values pvariance_of_def mean_of_def clamp_def power2_eq_square)
  show ?thesis
    using compute_emotional_regulation_score_closed_form[of two_point_trajectory neutral_point]
      compute_emotional_regulation_score_closed_form[of "[]" neutral_point] d ne v
    by simp
qed

subsection \<open>Neutral-feature fairness analyzer\<close>

lemma grouped_append_get:
  "dict_get (dict_get (grouped_append b0 sv G) b []) s [] =
     dict_get (dict_get G b []) s [] @ (if b = b0 \<and> s = fst sv then [snd sv] else [])"
  by (simp add: grouped_append_def Let_def dict_get_dict_set)

lemma grouped_append_distinct:
  "distinct (map fst G) \<Longrightarrow> distinct (map fst (grouped_append b0 sv G))"
  by (simp add: grouped_append_def Let_def distinct_dict_set)

lemma grouped_fold_get:
  "dict_get (dict_get (fold (grouped_append b0) scores G) b []) s [] =
     dict_get (dict_get G b []) s [] @ (if b = b0 then score_values s scores else [])"
proof (induction scores arbitrary: G)
  case Nil
  then show ?case by (simp add: score_values_def)
next
  case (Cons sv scores)
  have step: "fold (grouped_append b0) (sv # scores) G
              = fold (grouped_append b0) scores (grouped_append b0 sv G)" by simp
  show ?case unfolding step Cons.IH grouped_append_get
    by (simp add: score_values_def)
qed

lemma grouped_fold_distinct:
  "distinct (map fst G) \<Longrightarrow> distinct (map fst (fold (grouped_append b0) scores G))"
proof (induction scores arbitrary: G)
  case Nil
  then show ?case by simp
next
  case (Cons sv scores)
  from Cons.IH[OF grouped_append_distinct[OF Cons.prems]] show ?case by simp
qed

lemma grouped_rows_get:
  "dict_get (dict_get (fold (grouped_add_row g) hist G) b []) s [] =
     dict_get (dict_get G b []) s [] @ bucket_values hist g s b"
proof (induction hist arbitrary: G)
  case Nil
  then show ?case by (simp add: bucket_values_def)
next
  case (Cons row hist)
  have step: "fold (grouped_add_row g) (row # hist) G
              = fold (grouped_add_row g) hist (grouped_add_row g row G)" by simp
  show ?case unfolding step Cons.IH
    by (simp add: grouped_add_row_def Let_def grouped_fold_get bucket_values_def row_bucket_def)
qed

lemma grouped_rows_distinct:
  "distinct (map fst G) \<Longrightarrow> distinct (map fst (fold (grouped_add_row g) hist G))"
proof (induction hist arbitrary: G)
  case Nil
  then show ?case by simp
next
  case (Cons row hist)
  have "distinct (map fst (grouped_add_row g row G))"
    using Cons.prems by (simp add: grouped_add_row_def Let_def grouped_fold_distinct)
  from Cons.IH[OF this] show ?case by simp
qed

lemma grouped_values_get:
  "dict_get (dict_get (grouped_values_of g hist) b []) s [] = bucket_values hist g s b"
  by (simp add: grouped_values_of_def grouped_rows_get) (simp add: dict_get_def)

lemma grouped_values_distinct: "distinct (map fst (grouped_values_of g hist))"
  by (simp add: grouped_values_of_def grouped_rows_distinct)

lemma bucket_values_nonempty:
  "(bucket_values hist g s b \<noteq> []) = (b \<in> set (populated_buckets hist g s))"
  by (auto simp: bucket_values_def populated_buckets_def)

lemma grouped_entry_values:
  assumes "bv \<in> set (grouped_values_of g hist)"
  shows "dict_get (snd bv) s [] = bucket_values hist g s (fst bv)"
proof -
  have "map_of (grouped_values_of g hist) (fst bv) = Some (snd bv)"
    using assms grouped_values_distinct by simp
  then have "dict_get (grouped_values_of g hist) (fst bv) [] = snd bv"
    by (simp add: dict_get_def)
  then show ?thesis using grouped_values_get[of g hist "fst bv" s] by simp
qed

lemma bucket_means_spec:
  "\<exists>ks. bucket_means_of (grouped_values_of g hist) s = Inr (map (\<lambda>b. (b, bucket_mean hist g s b)) ks)
        \<and> distinct ks \<and> set ks = set (populated_buckets hist g s)"
proof -
  let ?G = "grouped_values_of g hist"
  define F where "F = filter (\<lambda>bv. dict_get (snd bv) s [] \<noteq> []) ?G"
  have m: "\<And>bv. bv \<in> set F \<Longrightarrow>
             py_bind (statistics_mean (dict_get (snd bv) s [])) (\<lambda>m. Inr (fst bv, m))
             = Inr (fst bv, bucket_mean hist g s (fst bv))"
  proof -
    fix bv assume "bv \<in> set F"
    then have "bv \<in> set ?G" "dict_get (snd bv) s [] \<noteq> []" by (simp_all add: F_def)
    then show "py_bind (statistics_mean (dict_get (snd bv) s [])) (\<lambda>m. Inr (fst bv, m))
             = Inr (fst bv, bucket_mean hist g s (fst bv))"
      using grouped_entry_values[of bv g hist s]
      by (simp add: statistics_mean_def bucket_mean_def)
  qed
  have a: "bucket_means_of ?G s = Inr (map (\<lambda>b. (b, bucket_mean hist g s b)) (map fst F))"
    unfolding bucket_means_of_def F_def[symmetric]
    using py_mapM_Inr[of F _ "\<lambda>bv. (fst bv, bucket_mean hist g s (fst bv))", OF m]
    by (simp add: comp_def)
  have d: "distinct (map fst F)"
    unfolding F_def using grouped_values_distinct[of g hist] by (rule distinct_map_filter)
  have "set (map fst F) = set (populated_buckets hist g s)"
  proof (intro set_eqI iffI)
    fix b assume "b \<in> set (map fst F)"
    then obtain bv where "bv \<in> set ?G" "dict_get (snd bv) s [] \<noteq> []" "b = fst bv"
      by (auto simp: F_def)
    then show "b \<in> set (populated_buckets hist g s)"
      using grouped_entry_values[of bv g hist s] bucket_values_nonempty[of hist g s b] by simp
  next
    fix b assume "b \<in> set (populated_buckets hist g s)"
    then have ne: "dict_get (dict_get ?G b []) s [] \<noteq> []"
      by (simp add: grouped_values_get bucket_values_nonempty)
    then obtain inner where i: "map_of ?G b = Some inner"
      by (cases "map_of ?G b") (auto simp: dict_get_def)
    then have "(b, inner) \<in> set ?G" by (rule map_of_SomeD)
    moreover have "dict_get inner s [] \<noteq> []" using ne i by (simp add: dict_get_def)
    ultimately have "(b, inner) \<in> set F" by (simp add: F_def)
    then show "b \<in> set (map fst F)" by force
  qed
  with a d show ?thesis by blast
qed

lemma score_group_entry_spec:
  "\<exists>report. score_group_entry hist g (grouped_values_of g hist) s
      = Inr ((s, report), spread_warnings hist g s)"
proof -
  from bucket_means_spec[of g hist s]
  obtain ks where k: "bucket_means_of (grouped_values_of g hist) s
                        = Inr (map (\<lambda>b. (b, bucket_mean hist g s b)) ks)"
      "distinct ks" "set ks = set (populated_buckets hist g s)"
    by blast
  let ?means = "map (\<lambda>b. (b, bucket_mean hist g s b)) ks"
  have dp: "distinct (populated_buckets hist g s)" by (simp add: populated_buckets_def)
  have len: "length ?means = length (populated_buckets hist g s)"
    using k(2) k(3) dp by (simp add: distinct_card[symmetric])
  have e: "(ks = []) = (populated_buckets hist g s = [])"
    using k(3) by (metis set_empty)
  have ms: "set (map snd ?means) = set (map (bucket_mean hist g s) (populated_buckets hist g s))"
    using k(3) by (simp add: comp_def)
  have sp: "spread_of_means ?means = Inr (bucket_spread hist g s)"
  proof (cases "ks = []")
    case True
    then show ?thesis using e by (simp add: spread_of_means_def bucket_spread_def)
  next
    case False
    then have ne: "map snd ?means \<noteq> []" by simp
    have "spread_of_means ?means = Inr (Max (set (map snd ?means)) - Min (set (map snd ?means)))"
      using False unfolding spread_of_means_def
      by (simp only: py_max_nonempty[OF ne] py_min_nonempty[OF ne] py_bind_Inr map_is_Nil_conv
          if_True simp_thms)
    then show ?thesis using False e unfolding ms by (simp add: bucket_spread_def Let_def)
  qed
  show ?thesis
    unfolding score_group_entry_def k(1) py_bind_Inr sp len spread_warnings_def
    by simp
qed

lemma group_entry_spec:
  "\<exists>reports. group_entry hist names g
      = Inr ((g, reports), concat (map (spread_warnings hist g) names))"
proof -
  have "\<forall>s. \<exists>report. score_group_entry hist g (grouped_values_of g hist) s
      = Inr ((s, report), spread_warnings hist g s)"
    using score_group_entry_spec by blast
  then obtain rep where r: "\<And>s. score_group_entry hist g (grouped_values_of g hist) s
      = Inr ((s, rep s), spread_warnings hist g s)"
    by metis
  have "py_mapM (score_group_entry hist g (grouped_values_of g hist)) names
        = Inr (map (\<lambda>s. ((s, rep s), spread_warnings hist g s)) names)"
    by (rule py_mapM_Inr) (simp add: r)
  then show ?thesis by (simp add: group_entry_def Let_def comp_def)
qed

lemma groups_spec:
  "\<exists>variance. py_mapM (group_entry hist names) keys
      = Inr (map (\<lambda>g. ((g, variance g), concat (map (spread_warnings hist g) names))) keys)"
proof -
  have "\<forall>g. \<exists>reports. group_entry hist names g
      = Inr ((g, reports), concat (map (spread_warnings hist g) names))"
    using group_entry_spec by blast
  then obtain variance where r: "\<And>g. group_entry hist names g
      = Inr ((g, variance g), concat (map (spread_warnings hist g) names))"
    by metis
  have "py_mapM (group_entry hist names) keys
      = Inr (map (\<lambda>g. ((g, variance g), concat (map (spread_warnings hist g) names))) keys)"
    by (rule py_mapM_Inr) (simp add: r)
  then show ?thesis by blast
qed

lemma average_relevance_spec: "average_relevance sl = Inr (relevance_of sl)"
  by (simp add: average_relevance_def relevance_of_def statistics_mean_def Let_def)

lemma analyze_spec:
  "\<exists>rep. analyze h0 sid cs em sqm sl
       = Inr (rep, last_n max_samples (h0 @ [sample_of sid cs em sqm sl]))
     \<and> warnings rep =
         concat (map (\<lambda>g. concat (map (spread_warnings
                                        (last_n max_samples (h0 @ [sample_of sid cs em sqm sl])) g)
                                     score_keys)) band_keys)
     \<and> sampleCount rep = length (last_n max_samples (h0 @ [sample_of sid cs em sqm sl]))"
proof -
  let ?hist = "last_n max_samples (h0 @ [sample_of sid cs em sqm sl])"
  from groups_spec[of ?hist score_keys band_keys]
  obtain variance where v: "py_mapM (group_entry ?hist score_keys) band_keys
      = Inr (map (\<lambda>g. ((g, variance g), concat (map (spread_warnings ?hist g) score_keys))) band_keys)"
    by blast
  show ?thesis
    unfolding analyze_def average_relevance_spec py_bind_Inr Let_def
    using v
    by (simp add: sample_of_def score_keys_def band_keys_def comp_def)
qed

lemma spread_warning_mem:
  "(SpreadWarning s g x \<in> set (concat (map (\<lambda>g. concat (map (spread_warnings hist g) score_keys)) band_keys)))
   = (g \<in> set band_keys \<and> s \<in> set score_keys \<and> x = bucket_spread hist g s
      \<and> 18 < bucket_spread hist g s \<and> 2 \<le> length (populated_buckets hist g s)
      \<and> 15 \<le> length hist)"
  by (auto simp: spread_warnings_def split: if_splits)

lemma single_bucket_populated:
  assumes "\<forall>row\<in>set hist. row_bucket g row = b"
  shows "length (populated_buckets hist g s) \<le> 1"
proof -
  have "set (populated_buckets hist g s) \<subseteq> {b}"
    using assms by (auto simp: populated_buckets_def)
  moreover have "distinct (populated_buckets hist g s)" by (simp add: populated_buckets_def)
  ultimately show ?thesis
    by (metis card_mono distinct_card finite.emptyI finite.insertI card_1_singleton_iff
        One_nat_def is_singletonI is_singleton_altdef)
qed

lemma set_last_n: "set (last_n n xs) \<subseteq> set xs"
  by (simp add: last_n_def set_drop_subset)

lemma length_last_n: "length (last_n n xs) \<le> n"
  by (simp add: last_n_def)

lemma last_n_all: "length xs \<le> n \<Longrightarrow> last_n n xs = xs"
  by (simp add: last_n_def)

lemma last_n_last_n_append: "last_n n (last_n n xs @ ys) = last_n n (xs @ ys)"
proof (cases "length xs \<le> n")
  case True
  then show ?thesis by (simp add: last_n_all)
next
  case False
  then have "length xs - (length xs - n) = n" by simp
  then show ?thesis using False by (simp add: last_n_def add.commute)
qed

lemma analyze_run_history:
  "\<exists>reps. analyze_run h calls = Inr (reps, (if calls = [] then h
                                             else last_n max_samples (h @ map call_sample calls)))"
proof (induction calls arbitrary: h)
  case Nil
  then show ?case by simp
next
  case (Cons c calls)
  obtain sid cs em sqm sl where c: "c = (sid, cs, em, sqm, sl)" by (cases c) auto
  let ?h' = "last_n max_samples (h @ [sample_of sid cs em sqm sl])"
  from analyze_spec[of h sid cs em sqm sl]
  obtain rep where r: "analyze h sid cs em sqm sl = Inr (rep, ?h')" by blast
  from Cons.IH[of ?h']
  obtain reps where rs: "analyze_run ?h' calls
      = Inr (reps, (if calls = [] then ?h' else last_n max_samples (?h' @ map call_sample calls)))"
    by blast
  have "last_n max_samples (?h' @ map call_sample calls)
        = last_n max_samples (h @ map call_sample (c # calls))"
    by (simp add: last_n_last_n_append c)
  then show ?case using r rs by (auto simp: c)
qed

lemma analyze_run_single_bucket:
  assumes "\<forall>row\<in>set h. row_bucket g row = b" "\<forall>c\<in>set calls. row_bucket g (call_sample c) = b"
    "analyze_run h calls = Inr (reps, final)"
  shows "\<forall>rep\<in>set reps. \<forall>s x. SpreadWarning s g x \<notin> set (warnings rep)"
  using assms
proof (induction calls arbitrary: h reps)
  case Nil
  then show ?case by simp
next
  case (Cons c calls)
  obtain sid cs em sqm sl where c: "c = (sid, cs, em, sqm, sl)" by (cases c) auto
  let ?h' = "last_n max_samples (h @ [sample_of sid cs em sqm sl])"
  from analyze_spec[of h sid cs em sqm sl]
  obtain rep where r: "analyze h sid cs em sqm sl = Inr (rep, ?h')"
    "warnings rep = concat (map (\<lambda>g. concat (map (spread_warnings ?h' g) score_keys)) band_keys)"
    by blast
  have hb: "\<forall>row\<in>set ?h'. row_bucket g row = b"
    using Cons.prems(1,2) set_last_n[of max_samples "h @ [sample_of sid cs em sqm sl]"]
    by (auto simp: c)
  from Cons.prems(3) r(1) obtain reps' where
    rs: "analyze_run ?h' calls = Inr (reps', final)" "reps = rep # reps'"
    by (auto simp: c py_bind_eq_Inr)
  have "\<forall>s x. SpreadWarning s g x \<notin> set (warnings rep)"
    using single_bucket_populated[OF hb] unfolding r(2) spread_warning_mem
    by (metis Suc_1 not_less_eq_eq One_nat_def)
  moreover have "\<forall>rep\<in>set reps'. \<forall>s x. SpreadWarning s g x \<notin> set (warnings rep)"
    using Cons.IH[OF hb _ rs(1)] Cons.prems(2) by simp
  ultimately show ?case using rs(2) by simp
qed

text \<open>
  C6: a call of the neutral-feature analyzer returns a warning for a band and a score
  exactly when, over the history retained after appending the current sample, the spread of
  the bucket means of that score is above 18, at least two buckets of the band hold a
  value, and the history holds at least 15 samples.  In a run from the empty history in
  which every sample falls in the same bucket of a band, no call returns a warning for that
  band.
\<close>

theorem analyze_warning_iff:
  "(\<exists>rep. analyze h0 sid cs em sqm sl
            = Inr (rep, last_n max_samples (h0 @ [sample_of sid cs em sqm sl]))
         \<and> (\<forall>s g x. (SpreadWarning s g x \<in> set (warnings rep)) =
               (g \<in> set band_keys \<and> s \<in> set score_keys
                \<and> x = bucket_spread (last_n max_samples (h0 @ [sample_of sid cs em sqm sl])) g s
                \<and> 18 < bucket_spread (last_n max_samples (h0 @ [sample_of sid cs em sqm sl])) g s
                \<and> 2 \<le> length (populated_buckets
                                 (last_n max_samples (h0 @ [sample_of sid cs em sqm sl])) g s)
                \<and> 15 \<le> length (last_n max_samples (h0 @ [sample_of sid cs em sqm sl])))))
   \<and> (analyze_run [] calls = Inr (reps, final)
        \<and> (\<forall>c\<in>set calls. row_bucket band (call_sample c) = bucket)
      \<longrightarrow> (\<forall>rep\<in>set reps. \<forall>s x. SpreadWarning s band x \<notin> set (warnings rep)))"
proof -
  from analyze_spec[of h0 sid cs em sqm sl]
  obtain rep where r: "analyze h0 sid cs em sqm sl
            = Inr (rep, last_n max_samples (h0 @ [sample_of sid cs em sqm sl]))"
    "warnings rep =
         concat (map (\<lambda>g. concat (map (spread_warnings
                                        (last_n max_samples (h0 @ [sample_of sid cs em sqm sl])) g)
                                     score_keys)) band_keys)"
    by blast
  have a: "\<exists>rep. analyze h0 sid cs em sqm sl
            = Inr (rep, last_n max_samples (h0 @ [sample_of sid cs em sqm sl]))
         \<and> (\<forall>s g x. (SpreadWarning s g x \<in> set (warnings rep)) =
               (g \<in> set band_keys \<and> s \<in> set score_keys
                \<and> x = bucket_spread (last_n max_samples (h0 @ [sample_of sid cs em sqm sl])) g s
                \<and> 18 < bucket_spread (last_n max_samples (h0 @ [sample_of sid cs em sqm sl])) g s
                \<and> 2 \<le> length (populated_buckets
                                 (last_n max_samples (h0 @ [sample_of sid cs em sqm sl])) g s)
                \<and> 15 \<le> length (last_n max_samples (h0 @ [sample_of sid cs em sqm sl]))))"
  proof (intro exI conjI allI)
    show "analyze h0 sid cs em sqm sl
            = Inr (rep, last_n max_samples (h0 @ [sample_of sid cs em sqm sl]))"
      by (rule r(1))
  next
    fix s g x
    show "(SpreadWarning s g x \<in> set (warnings rep)) =
               (g \<in> set band_keys \<and> s \<in> set score_keys
                \<and> x = bucket_spread (last_n max_samples (h0 @ [sample_of sid cs em sqm sl])) g s
                \<and> 18 < bucket_spread (last_n max_samples (h0 @ [sample_of sid cs em sqm sl])) g s
                \<and> 2 \<le> length (populated_buckets
                                 (last_n max_samples (h0 @ [sample_of sid cs em sqm sl])) g s)
                \<and> 15 \<le> length (last_n max_samples (h0 @ [sample_of sid cs em sqm sl])))"
      unfolding r(2) by (rule spread_warning_mem)
  qed
  have b: "analyze_run [] calls = Inr (reps, final)
        \<and> (\<forall>c\<in>set calls. row_bucket band (call_sample c) = bucket)
      \<longrightarrow> (\<forall>rep\<in>set reps. \<forall>s x. SpreadWarning s band x \<notin> set (warnings rep))"
    using analyze_run_single_bucket[of "[]" band bucket calls reps final] by simp
  from a b show ?thesis by blast
qed

lemma example_rows:
  "row_bucket ''eyeContactBand'' (call_sample call_high) = ''high_eye_contact''"
  "row_bucket ''eyeContactBand'' (call_sample call_medium) = ''medium_eye_contact''"
  "row_bucket ''pauseBand'' (call_sample call_high) = ''minimal_pause''"
  "row_bucket ''pauseBand'' (call_sample call_medium) = ''minimal_pause''"
  "score_values ''engagement'' (fs_scores (call_sample call_high)) = [40]"
  "score_values ''engagement'' (fs_scores (call_sample call_medium)) = [90]"
  by (simp_all add: call_high_def call_medium_def sample_of_def row_bucket_def score_values_def
      dict_get_def band_eye_contact_def band_pause_def get_or_def clamp_def)

lemma fourteen_samples_list:
  "fourteen_samples =
     [call_sample call_high, call_sample call_medium, call_sample call_high, call_sample call_medium,
      call_sample call_high, call_sample call_medium, call_sample call_high, call_sample call_medium,
      call_sample call_high, call_sample call_medium, call_sample call_high, call_sample call_medium,
      call_sample call_high, call_sample call_medium]"
  by (simp add: fourteen_samples_def eval_nat_numeral)

lemma length_fourteen_samples: "length fourteen_samples = 14"
  by (simp add: fourteen_samples_list)

lemma fifteen_samples_values:
  "length (fourteen_samples @ [call_sample call_high]) = 15"
  "populated_buckets (fourteen_samples @ [call_sample call_high]) ''eyeContactBand'' ''engagement''
     = [''medium_eye_contact'', ''high_eye_contact'']"
  "bucket_mean (fourteen_samples @ [call_sample call_high]) ''eyeContactBand'' ''engagement''
     ''high_eye_contact'' = 40"
  "bucket_mean (fourteen_samples @ [call_sample call_high]) ''eyeContactBand'' ''engagement''
     ''medium_eye_contact'' = 90"
  "populated_buckets (fourteen_samples @ [call_sample call_high]) ''pauseBand'' ''engagement''
     = [''minimal_pause'']"
  unfolding fourteen_samples_list populated_buckets_def bucket_mean_def bucket_values_def
  by (simp_all add: example_rows mean_of_def)

theorem analyze_warning_iff_witness:
  "(\<exists>rep. analyze fourteen_samples ''high'' [(''engagement'', 40)]
             (fst (snd (snd call_high))) (fst (snd (snd (snd call_high)))) []
           = Inr (rep, fourteen_samples @ [call_sample call_high])
         \<and> SpreadWarning ''engagement'' ''eyeContactBand'' 50 \<in> set (warnings rep)
         \<and> SpreadWarning ''engagement'' ''pauseBand'' 50 \<notin> set (warnings rep))
   \<and> (\<exists>reps final. analyze_run [] (replicate 20 call_high) = Inr (reps, final)
         \<and> list_all (\<lambda>rep. \<not> (\<exists>s x. SpreadWarning s ''eyeContactBand'' x \<in> set (warnings rep))) reps)"
proof -
  let ?H = "fourteen_samples @ [call_sample call_high]"
  let ?em = "fst (snd (snd call_high))"
  let ?sqm = "fst (snd (snd (snd call_high)))"
  have s: "sample_of ''high'' [(''engagement'', 40)] ?em ?sqm [] = call_sample call_high"
    by (simp add: call_high_def)
  have l: "last_n max_samples ?H = ?H"
    by (rule last_n_all) (simp add: fourteen_samples_list max_samples_def)
  have sp: "bucket_spread ?H ''eyeContactBand'' ''engagement'' = 50"
    by (simp add: bucket_spread_def fifteen_samples_values)
  have p1: "populated_buckets ?H ''pauseBand'' ''engagement'' = [''minimal_pause'']"
    by (rule fifteen_samples_values(5))
  obtain reps final where rf: "analyze_run [] (replicate 20 call_high) = Inr (reps, final)"
    using analyze_run_history[of "[]" "replicate 20 call_high"] by blast
  have same: "\<forall>c\<in>set (replicate 20 call_high).
                row_bucket ''eyeContactBand'' (call_sample c) = ''high_eye_contact''"
    by (simp add: example_rows)
  from analyze_warning_iff[of fourteen_samples "''high''" "[(''engagement'', 40)]" ?em ?sqm "[]"
      "replicate 20 call_high" reps final "''eyeContactBand''" "''high_eye_contact''"]
  obtain rep where r: "analyze fourteen_samples ''high'' [(''engagement'', 40)] ?em ?sqm []
           = Inr (rep, ?H)"
     "\<And>s g x. (SpreadWarning s g x \<in> set (warnings rep)) =
               (g \<in> set band_keys \<and> s \<in> set score_keys
                \<and> x = bucket_spread ?H g s \<and> 18 < bucket_spread ?H g s
                \<and> 2 \<le> length (populated_buckets ?H g s) \<and> 15 \<le> length ?H)"
     and run: "\<forall>rep\<in>set reps. \<forall>s x. SpreadWarning s ''eyeContactBand'' x \<notin> set (warnings rep)"
    unfolding s l using rf same by blast
  have "SpreadWarning ''engagement'' ''eyeContactBand'' 50 \<in> set (warnings rep)"
    unfolding r(2)
    by (simp add: sp fifteen_samples_values length_fourteen_samples band_keys_def score_keys_def)
  moreover have "SpreadWarning ''engagement'' ''pauseBand'' 50 \<notin> set (warnings rep)"
    unfolding r(2) by (simp add: p1)
  moreover have "list_all (\<lambda>rep. \<not> (\<exists>s x. SpreadWarning s ''eyeContactBand'' x \<in> set (warnings rep))) reps"
    using run by (simp add: list_all_iff)
  ultimately show ?thesis using r(1) rf by blast
qed

subsection \<open>Bounded histories\<close>

lemma flagged_nonempty:
  "(flagged keys ctx \<noteq> []) = list_ex (\<lambda>kv. fst kv \<in> keys \<and> snd kv \<noteq> None) ctx"
  by (induction ctx) (auto simp: flagged_def split: option.splits)

lemma has_sensitive_iff:
  "has_sensitive (ctx, ss) = (\<exists>k v. (k, Some v) \<in> set ctx \<and> k \<in> SENSITIVE_KEYS)"
  by (force simp: list_ex_iff)

lemma disparity_warning_Inr: "\<exists>ws. disparity_warning hist key = Inr ws"
proof -
  let ?vs = "filter (\<lambda>vals. vals \<noteq> []) (map snd (group_scores_of key hist))"
  have m: "py_mapM statistics_mean ?vs = Inr (map mean_of ?vs)"
    by (rule py_mapM_Inr) (simp add: statistics_mean_def)
  show ?thesis
  proof (cases "map mean_of ?vs = []")
    case True
    then show ?thesis by (simp add: disparity_warning_def Let_def m)
  next
    case False
    then show ?thesis
      by (simp add: disparity_warning_def Let_def m py_max_nonempty py_min_nonempty)
  qed
qed

lemma disparity_warnings_Inr: "\<exists>ws. py_mapM (disparity_warning hist) keys = Inr ws"
proof -
  obtain w where "\<And>key. disparity_warning hist key = Inr (w key)"
    using disparity_warning_Inr by metis
  then have "py_mapM (disparity_warning hist) keys = Inr (map w keys)"
    by (intro py_mapM_Inr) simp
  then show ?thesis by blast
qed

lemma audit_spec:
  "\<exists>rep. audit h ctx ss
      = Inr (rep, (if has_sensitive (ctx, ss)
                   then last_n bias_max_samples (h @ [bias_sample_of (ctx, ss)]) else h))"
proof (cases "flagged SENSITIVE_KEYS ctx = []")
  case True
  then have "\<not> has_sensitive (ctx, ss)" using flagged_nonempty[of SENSITIVE_KEYS ctx] by simp
  then show ?thesis using True by (simp add: audit_def Let_def)
next
  case False
  then have hs: "has_sensitive (ctx, ss)" using flagged_nonempty[of SENSITIVE_KEYS ctx] by simp
  let ?H = "last_n bias_max_samples (h @ [bias_sample_of (ctx, ss)])"
  obtain ws where "py_mapM (disparity_warning ?H) (map fst (flagged SENSITIVE_KEYS ctx)) = Inr ws"
    using disparity_warnings_Inr by blast
  then show ?thesis using False hs by (simp add: audit_def Let_def)
qed

lemma audit_run_history:
  assumes "length h \<le> bias_max_samples"
  shows "\<exists>reps. audit_run h calls
      = Inr (reps, last_n bias_max_samples (h @ map bias_sample_of (filter has_sensitive calls)))"
  using assms
proof (induction calls arbitrary: h)
  case Nil
  then show ?case by (simp add: last_n_all)
next
  case (Cons c calls)
  obtain ctx ss where c: "c = (ctx, ss)" by (cases c) auto
  let ?h' = "if has_sensitive (ctx, ss)
             then last_n bias_max_samples (h @ [bias_sample_of (ctx, ss)]) else h"
  obtain rep where r: "audit h ctx ss = Inr (rep, ?h')" using audit_spec by blast
  have len: "length ?h' \<le> bias_max_samples" using Cons.prems by (simp add: length_last_n)
  from Cons.IH[OF len]
  obtain reps where rs: "audit_run ?h' calls
      = Inr (reps, last_n bias_max_samples (?h' @ map bias_sample_of (filter has_sensitive calls)))"
    by blast
  have "last_n bias_max_samples (?h' @ map bias_sample_of (filter has_sensitive calls))
        = last_n bias_max_samples (h @ map bias_sample_of (filter has_sensitive (c # calls)))"
    by (simp add: last_n_last_n_append c)
  then show ?case using r rs by (auto simp: c)
qed

text \<open>
  C7: after any sequence of calls from the empty history, the neutral-feature analyzer
  holds the last 1000 of the samples it was given, in the order given, and the bias
  auditor holds the last 500 of the samples of the calls whose session context has a
  sensitive key with a value other than \<open>None\<close>; a call of the auditor appends its sample
  exactly when the context has such a key, and leaves the history as it is otherwise.
\<close>

theorem histories_bounded_fifo:
  "(\<exists>reps. analyze_run [] calls = Inr (reps, last_n max_samples (map call_sample calls)))
   \<and> length (last_n max_samples (map call_sample calls)) \<le> 1000
   \<and> (\<exists>rep. analyze h sid cs em sqm sl
              = Inr (rep, last_n max_samples (h @ [sample_of sid cs em sqm sl])))
   \<and> length (last_n max_samples (h @ [sample_of sid cs em sqm sl])) \<le> 1000
   \<and> (\<exists>reps. audit_run [] bcalls
              = Inr (reps, last_n bias_max_samples
                             (map bias_sample_of (filter has_sensitive bcalls))))
   \<and> length (last_n bias_max_samples (map bias_sample_of (filter has_sensitive bcalls))) \<le> 500
   \<and> (\<exists>rep. audit bh ctx ss
              = Inr (rep, (if has_sensitive (ctx, ss)
                           then last_n bias_max_samples (bh @ [bias_sample_of (ctx, ss)])
                           else bh)))
   \<and> has_sensitive (ctx, ss) = (\<exists>k v. (k, Some v) \<in> set ctx \<and> k \<in> SENSITIVE_KEYS)
   \<and> last_n n xs = drop (length xs - n) xs"
proof -
  have a: "\<exists>reps. analyze_run [] calls = Inr (reps, last_n max_samples (map call_sample calls))"
    using analyze_run_history[of "[]" calls] by (cases "calls = []") (auto simp: last_n_def)
  have b: "\<exists>rep. analyze h sid cs em sqm sl
              = Inr (rep, last_n max_samples (h @ [sample_of sid cs em sqm sl]))"
    using analyze_spec[of h sid cs em sqm sl] by blast
  have c: "\<exists>reps. audit_run [] bcalls
              = Inr (reps, last_n bias_max_samples
                             (map bias_sample_of (filter has_sensitive bcalls)))"
    using audit_run_history[of "[]" bcalls] by simp
  have d: "\<And>xs::fairness_sample list. length (last_n max_samples xs) \<le> 1000"
    using length_last_n[of max_samples] by (simp add: max_samples_def)
  have e: "\<And>xs::bias_sample list. length (last_n bias_max_samples xs) \<le> 500"
    using length_last_n[of bias_max_samples] by (simp add: bias_max_samples_def)
  have f: "last_n n xs = drop (length xs - n) xs" by (simp add: last_n_def)
  from a b c d[of "map call_sample calls"] d[of "h @ [sample_of sid cs em sqm sl]"]
    e[of "map bias_sample_of (filter has_sensitive bcalls)"]
    audit_spec[of bh ctx ss] has_sensitive_iff[of ctx ss] f
  show ?thesis by (intro conjI)
qed

theorem histories_bounded_fifo_witness:
  "(\<exists>reps. audit_run [] [context_with_gender, context_without_sensitive]
             = Inr (reps, [\<lparr>bs_overall = 71, bs_sensitive = [(''gender'', ''f'')]\<rparr>]))
   \<and> has_sensitive context_with_gender \<and> \<not> has_sensitive context_without_sensitive
   \<and> last_n 2 [1::nat, 2, 3] = [2, 3]"
proof -
  have s: "has_sensitive context_with_gender" "\<not> has_sensitive context_without_sensitive"
    by (simp_all add: context_with_gender_def context_without_sensitive_def SENSITIVE_KEYS_def)
  have f: "filter has_sensitive [context_with_gender, context_without_sensitive]
           = [context_with_gender]"
    using s by simp
  have b: "bias_sample_of context_with_gender = \<lparr>bs_overall = 71, bs_sensitive = [(''gender'', ''f'')]\<rparr>"
    by (simp add: context_with_gender_def dict_get_def flagged_def SENSITIVE_KEYS_def)
  have l: "last_n bias_max_samples [\<lparr>bs_overall = 71, bs_sensitive = [(''gender'', ''f'')]\<rparr>]
           = [\<lparr>bs_overall = 71, bs_sensitive = [(''gender'', ''f'')]\<rparr>]"
    by (simp add: last_n_def bias_max_samples_def)
  have n: "drop (length [1::nat, 2, 3] - 2) [1::nat, 2, 3] = [2, 3]" by simp
  show ?thesis
    using histories_bounded_fifo[where bcalls = "[context_with_gender, context_without_sensitive]"
        and n = 2 and xs = "[1::nat, 2, 3]" and calls = "[]" and h = "[]" and bh = "[]"
        and ctx = "[]"]
      s
    unfolding f n by (simp add: b l)
qed

subsection \<open>Double-precision addition\<close>

lemma round_half_even_of_int: "round_half_even (of_int k) = k"
  by (simp add: round_half_even_def)

lemma py_round_exact:
  assumes "x * 10 ^ n = of_int k"
  shows "py_round x n = x"
proof -
  have "py_round x n = of_int k / 10 ^ n"
    unfolding py_round_def assms round_half_even_of_int ..
  also have "\<dots> = x" using assms[symmetric] by simp
  finally show ?thesis .
qed

lemma py_round_zero: "py_round 0 n = 0"
  using py_round_exact[of 0 n 0] by simp

lemma pow2_powr: "pow2 e = 2 powr (of_int e)"
proof (cases "0 \<le> e")
  case True
  then show ?thesis by (simp add: pow2_def powr_real_of_int)
next
  case False
  then show ?thesis by (simp add: pow2_def powr_real_of_int field_simps)
qed

lemma pow2_pos: "0 < pow2 e"
  by (simp add: pow2_powr)

lemma pow2_add: "pow2 (a + b) = pow2 a * pow2 b"
  by (simp add: pow2_powr powr_add)

lemma pow2_less_iff: "pow2 a < pow2 b \<longleftrightarrow> a < b"
  by (simp add: pow2_powr)

lemma pow2_Suc: "pow2 (e + 1) = 2 * pow2 e"
  using pow2_add[of e 1] by (simp add: pow2_def[of 1])

lemma pow2_nat: "0 \<le> e \<Longrightarrow> pow2 e = of_int (2 ^ nat e)"
  by (simp add: pow2_def)

lemma float_exponent_bounds:
  "x \<noteq> 0 \<Longrightarrow> pow2 (float_exponent x) \<le> \<bar>x\<bar> \<and> \<bar>x\<bar> < 2 * pow2 (float_exponent x)"
proof (induction x rule: float_exponent.induct)
  case (1 x)
  show ?case
  proof (cases "2 \<le> \<bar>x\<bar>")
    case True
    then have e: "float_exponent x = float_exponent (x / 2) + 1"
      using 1(3) by (subst float_exponent.simps) simp
    have "pow2 (float_exponent (x / 2)) \<le> \<bar>x / 2\<bar> \<and> \<bar>x / 2\<bar> < 2 * pow2 (float_exponent (x / 2))"
      using 1(1)[OF 1(3) True] 1(3) by simp
    then show ?thesis unfolding e pow2_Suc by simp
  next
    case False
    show ?thesis
    proof (cases "\<bar>x\<bar> < 1")
      case True
      then have e: "float_exponent x = float_exponent (x * 2) - 1"
        using 1(3) False by (subst float_exponent.simps) simp
      have ih: "pow2 (float_exponent (x * 2)) \<le> \<bar>x * 2\<bar> \<and> \<bar>x * 2\<bar> < 2 * pow2 (float_exponent (x * 2))"
        using 1(2)[OF 1(3) False True] 1(3) by simp
      have "pow2 (float_exponent (x * 2)) = 2 * pow2 (float_exponent (x * 2) - 1)"
        using pow2_Suc[of "float_exponent (x * 2) - 1"] by simp
      with ih show ?thesis unfolding e by (simp add: abs_mult)
    next
      case nl: False
      then have e: "float_exponent x = 0"
        using 1(3) False by (subst float_exponent.simps) simp
      show ?thesis unfolding e using False nl by (simp add: pow2_def)
    qed
  qed
qed

lemma float_exponent_unique:
  assumes "pow2 e \<le> \<bar>x\<bar>" "\<bar>x\<bar> < 2 * pow2 e"
  shows "float_exponent x = e"
proof -
  have nz: "x \<noteq> 0" using assms(1) pow2_pos[of e] by auto
  note b = float_exponent_bounds[OF nz]
  have "pow2 e < pow2 (float_exponent x + 1)" unfolding pow2_Suc using assms(1) b by linarith
  moreover have "pow2 (float_exponent x) < pow2 (e + 1)" unfolding pow2_Suc using assms(2) b by linarith
  ultimately show ?thesis unfolding pow2_less_iff by linarith
qed

lemma round_half_even_error: "\<bar>of_int (round_half_even y) - y\<bar> \<le> 1 / 2"
  unfolding round_half_even_def Let_def by (auto; linarith)

lemma float_round_error:
  assumes "x \<noteq> 0"
  shows "\<bar>float_round x - x\<bar> \<le> \<bar>x\<bar> / 2 ^ 53"
proof -
  define u where "u = pow2 (float_exponent x - 52)"
  have upos: "0 < u" unfolding u_def by (rule pow2_pos)
  have "pow2 (float_exponent x) = pow2 (float_exponent x - 52) * pow2 52"
    using pow2_add[of "float_exponent x - 52" 52] by simp
  then have pe: "pow2 (float_exponent x) = u * 2 ^ 52" by (simp add: u_def pow2_def)
  have ule: "u * 2 ^ 52 \<le> \<bar>x\<bar>" using float_exponent_bounds[OF assms] pe by simp
  have "float_round x - x = (of_int (round_half_even (x / u)) - x / u) * u"
    using upos by (simp add: float_round_def Let_def u_def[symmetric] field_simps)
  then have "\<bar>float_round x - x\<bar> = \<bar>of_int (round_half_even (x / u)) - x / u\<bar> * u"
    using upos by (simp add: abs_mult)
  also have "\<dots> \<le> (1 / 2) * u"
    using round_half_even_error[of "x / u"] upos by (intro mult_right_mono) simp_all
  also have "\<dots> \<le> \<bar>x\<bar> / 2 ^ 53" using ule by simp
  finally show ?thesis .
qed

lemma float_round_exact:
  assumes "\<bar>m\<bar> < 2 ^ 53"
  shows "float_round (of_int m * pow2 k) = of_int m * pow2 k"
proof (cases "m = 0")
  case True
  then show ?thesis by (simp add: float_round_def round_half_even_def)
next
  case False
  define x where "x = of_int m * pow2 k"
  define e where "e = float_exponent x"
  have nz: "x \<noteq> 0" using False pow2_pos[of k] by (simp add: x_def)
  have "\<bar>x\<bar> = of_int \<bar>m\<bar> * pow2 k" using pow2_pos[of k] by (simp add: x_def abs_mult)
  also have "\<dots> < of_int (2 ^ 53) * pow2 k"
    using assms pow2_pos[of k] by (intro mult_strict_right_mono) (simp_all only: of_int_less_iff)
  also have "\<dots> = pow2 (53 + k)" using pow2_add[of 53 k] by (simp add: pow2_def[of 53])
  finally have "pow2 e < pow2 (53 + k)"
    using float_exponent_bounds[OF nz] unfolding e_def by linarith
  then have j: "0 \<le> k - (e - 52)" unfolding pow2_less_iff by linarith
  have "pow2 k = pow2 (k - (e - 52)) * pow2 (e - 52)"
    using pow2_add[of "k - (e - 52)" "e - 52"] by simp
  then have pk: "pow2 k = of_int (2 ^ nat (k - (e - 52))) * pow2 (e - 52)"
    using pow2_nat[OF j] by simp
  have "x / pow2 (e - 52) = of_int (m * 2 ^ nat (k - (e - 52)))"
    using pow2_pos[of "e - 52"] by (simp add: x_def pk)
  then have "float_round x = of_int (m * 2 ^ nat (k - (e - 52))) * pow2 (e - 52)"
    unfolding float_round_def Let_def e_def[symmetric] by (simp only: round_half_even_of_int)
  also have "\<dots> = x" by (simp add: x_def pk)
  finally show ?thesis unfolding x_def .
qed

lemma float_add_progress:
  assumes "0 \<le> c" "c \<le> 2 ^ 50" "1 / 2 \<le> w"
  shows "c + 1 / 4 \<le> float_add c w"
proof -
  have nz: "c + w \<noteq> 0" using assms by linarith
  have "\<bar>float_round (c + w) - (c + w)\<bar> \<le> \<bar>c + w\<bar> / 2 ^ 53"
    by (rule float_round_error[OF nz])
  moreover have "\<bar>c + w\<bar> = c + w" using assms by simp
  ultimately have "c + w - (c + w) / 2 ^ 53 \<le> float_round (c + w)" by linarith
  moreover have "(c + w) / 2 ^ 53 = c / 2 ^ 53 + w / 2 ^ 53" by (rule add_divide_distrib)
  moreover have "c / 2 ^ 53 \<le> 1 / 8" using assms(2) by simp
  moreover have "3 / 8 \<le> w - w / 2 ^ 53" using assms(3) by simp
  ultimately show ?thesis unfolding float_add_def by linarith
qed

lemma float_add_error:
  assumes "0 \<le> c" "0 < w"
  shows "\<bar>float_add c w - (c + w)\<bar> \<le> (c + w) / 2 ^ 53"
  using float_round_error[of "c + w"] assms unfolding float_add_def by simp

lemma round_half_even_mono:
  assumes "x \<le> y"
  shows "round_half_even x \<le> round_half_even y"
proof (cases "\<lfloor>x\<rfloor> = \<lfloor>y\<rfloor>")
  case True
  then show ?thesis using assms unfolding round_half_even_def Let_def by auto
next
  case False
  then have "\<lfloor>x\<rfloor> + 1 \<le> \<lfloor>y\<rfloor>" using floor_mono[OF assms] by linarith
  moreover have "round_half_even x \<le> \<lfloor>x\<rfloor> + 1" unfolding round_half_even_def Let_def by auto
  moreover have "\<lfloor>y\<rfloor> \<le> round_half_even y" unfolding round_half_even_def Let_def by auto
  ultimately show ?thesis by linarith
qed

lemma py_round_mono:
  assumes "x \<le> y"
  shows "py_round x n \<le> py_round y n"
proof -
  have "x * 10 ^ n \<le> y * 10 ^ n" using assms by simp
  then have "round_half_even (x * 10 ^ n) \<le> round_half_even (y * 10 ^ n)"
    by (rule round_half_even_mono)
  then show ?thesis unfolding py_round_def by (simp add: divide_right_mono)
qed

lemma float_add_exact:
  assumes "a + b = of_int m * pow2 k" "\<bar>m\<bar> < 2 ^ 53"
  shows "float_add a b = a + b"
  unfolding float_add_def assms(1) by (rule float_round_exact[OF assms(2)])

lemma float_add_stall: "float_add (2 ^ 52) (1 / 2) = 2 ^ 52"
proof -
  have s: "(2::real) ^ 52 + 1 / 2 = 9007199254740993 / 2" by simp
  have e: "float_exponent (9007199254740993 / 2) = 52"
    by (rule float_exponent_unique) (simp_all add: pow2_def)
  have p: "pow2 (52 - 52) = 1" by (simp add: pow2_def)
  have r: "round_half_even (9007199254740993 / 2) = 4503599627370496"
    by (simp add: round_half_even_def)
  show ?thesis unfolding float_add_def s float_round_def Let_def e p using r by simp
qed

subsection \<open>Window aligner\<close>

lemma gaze_fold_nonempty:
  assumes f: "\<And>item counts. f item counts = dict_set counts (g item) (h item counts)"
  shows "xs \<noteq> [] \<Longrightarrow> fold f xs acc \<noteq> []"
proof (induction xs arbitrary: acc rule: rev_induct)
  case Nil
  then show ?case by simp
next
  case (snoc x xs)
  show ?case by (simp add: f)
qed

lemma dominant_gaze_Inr: "\<exists>g. dominant_gaze video_slice = Inr g"
proof (cases "video_slice = []")
  case True
  then show ?thesis by (simp add: dominant_gaze_def)
next
  case False
  let ?c = "fold (\<lambda>item counts.
                    let gaze = get_or (vf_gaze_direction item) ''unknown''
                    in dict_set counts gaze (dict_get counts gaze (0::nat) + 1))
                 video_slice []"
  have "?c \<noteq> []"
    by (rule gaze_fold_nonempty[where g = "\<lambda>item. get_or (vf_gaze_direction item) ''unknown''"
          and h = "\<lambda>item counts. dict_get counts (get_or (vf_gaze_direction item) ''unknown'') 0 + 1"])
       (simp_all add: Let_def False)
  then obtain kv rest where "?c = kv # rest" by (cases ?c) auto
  then show ?thesis using False unfolding dominant_gaze_def by (simp only: if_False max_key.simps) blast
qed

lemma dominant_gaze_empty: "dominant_gaze [] = Inr ''unknown''"
  by (simp add: dominant_gaze_def)

lemma fuse_window_Inr:
  "\<exists>seg. fuse_window learned vf af tf ulf cursor end_time = Inr seg"
proof -
  obtain g where "dominant_gaze (video_slice_of vf cursor end_time) = Inr g"
    using dominant_gaze_Inr by blast
  then show ?thesis by (simp add: fuse_window_def Let_def)
qed

lemma fuse_window_at:
  "fuse_window learned vf af tf ulf cursor (float_add cursor w)
     = Inr (window_at learned vf af tf ulf w cursor)"
  using fuse_window_Inr[of learned vf af tf ulf cursor "float_add cursor w"]
  by (auto simp: window_at_def)

lemma window_at_times:
  "startTime (window_at learned vf af tf ulf w cursor) = Some (py_round cursor 3)"
  "endTime (window_at learned vf af tf ulf w cursor) = Some (py_round (float_add cursor w) 3)"
proof -
  obtain g where g: "dominant_gaze (video_slice_of vf cursor (float_add cursor w)) = Inr g"
    using dominant_gaze_Inr by blast
  show "startTime (window_at learned vf af tf ulf w cursor) = Some (py_round cursor 3)"
    "endTime (window_at learned vf af tf ulf w cursor) = Some (py_round (float_add cursor w) 3)"
    by (simp_all add: window_at_def fuse_window_def Let_def g)
qed

lemma fuse_loop_step:
  assumes "cursor \<le> mt"
  shows "fuse_loop learned vf af tf ulf w mt cursor acc =
         fuse_loop learned vf af tf ulf w mt (float_add cursor w)
           (acc @ [window_at learned vf af tf ulf w cursor])"
  by (subst fuse_loop.simps) (simp add: assms Let_def fuse_window_at)

lemma fuse_loop_stop:
  assumes "\<not> cursor \<le> mt"
  shows "fuse_loop learned vf af tf ulf w mt cursor acc = Some (Inr acc)"
  by (subst fuse_loop.simps) (simp add: assms)

lemma cursor_after_shift:
  "cursor_after w c (Suc i) = cursor_after w (float_add c w) i"
  by (induction i) simp_all

lemma windows_from_Suc:
  "map (\<lambda>i. f (cursor_after w c i)) [0..<Suc n]
     = f c # map (\<lambda>i. f (cursor_after w (float_add c w) i)) [0..<n]"
proof -
  have "map (\<lambda>i. f (cursor_after w c i)) [0..<Suc n]
        = f (cursor_after w c 0) # map (\<lambda>i. f (cursor_after w c (Suc i))) [0..<n]"
    by (subst upt_conv_Cons, simp) (simp add: map_Suc_upt[symmetric] del: upt_Suc cursor_after.simps)
  then show ?thesis unfolding cursor_after_shift by simp
qed

text \<open>What the loop returns, if it returns: the windows at the cursors up to the first one
  beyond \<open>max_time\<close>.\<close>

lemma fuse_loop_result:
  assumes "fuse_loop learned vf af tf ulf w mt c acc = Some y"
  shows "\<exists>n. y = Inr (acc @ map (\<lambda>i. window_at learned vf af tf ulf w (cursor_after w c i)) [0..<n])
           \<and> (\<forall>i<n. cursor_after w c i \<le> mt) \<and> \<not> cursor_after w c n \<le> mt"
proof (rule fuse_loop.raw_induct[where P = "\<lambda>learned vf af tf ulf w mt c acc y.
           \<exists>n. y = Inr (acc @ map (\<lambda>i. window_at learned vf af tf ulf w (cursor_after w c i)) [0..<n])
             \<and> (\<forall>i<n. cursor_after w c i \<le> mt) \<and> \<not> cursor_after w c n \<le> mt", OF _ assms],
       goal_cases)
  case (1 loop learned vf af tf ulf w mt c acc y)
  show ?case
  proof (cases "c \<le> mt")
    case False
    then have "y = Inr acc" using 1(2) by simp
    then have "y = Inr (acc @ map (\<lambda>i. window_at learned vf af tf ulf w (cursor_after w c i)) [0..<0])
           \<and> (\<forall>i<0. cursor_after w c i \<le> mt) \<and> \<not> cursor_after w c 0 \<le> mt"
      using False by simp
    then show ?thesis by (rule exI[of _ 0])
  next
    case True
    let ?c = "float_add c w"
    let ?W = "window_at learned vf af tf ulf w"
    have "loop learned vf af tf ulf w mt ?c (acc @ [?W c]) = Some y"
      using 1(2) True by (simp add: Let_def fuse_window_at)
    from 1(1)[OF this] obtain n where n:
      "y = Inr ((acc @ [?W c]) @ map (\<lambda>i. ?W (cursor_after w ?c i)) [0..<n])"
      "\<forall>i<n. cursor_after w ?c i \<le> mt" "\<not> cursor_after w ?c n \<le> mt"
      by blast
    have a: "y = Inr (acc @ map (\<lambda>i. ?W (cursor_after w c i)) [0..<Suc n])"
      unfolding windows_from_Suc[of ?W] using n(1) by simp
    have b: "\<forall>i<Suc n. cursor_after w c i \<le> mt"
    proof (intro allI impI)
      fix i assume i: "i < Suc n"
      show "cursor_after w c i \<le> mt"
      proof (cases i)
        case 0
        then show ?thesis using True by simp
      next
        case (Suc j)
        then have "j < n" using i by simp
        then show ?thesis unfolding Suc cursor_after_shift using n(2) by blast
      qed
    qed
    have c: "\<not> cursor_after w c (Suc n) \<le> mt"
      unfolding cursor_after_shift by (rule n(3))
    from a b c show ?thesis by (intro exI[of _ "Suc n"] conjI)
  qed
qed

text \<open>The loop returns when the largest timestamp is at most \<open>2^50\<close> seconds: below that,
  adding a window of at least half a second moves the cursor by at least a quarter.\<close>

lemma fuse_loop_returns:
  assumes "0 \<le> c" "mt \<le> 2 ^ 50" "1 / 2 \<le> w"
  shows "\<exists>y. fuse_loop learned vf af tf ulf w mt c acc = Some y"
  using assms(1)
proof (induction "nat \<lfloor>(mt - c) * 4\<rfloor>" arbitrary: c acc rule: less_induct)
  case less
  show ?case
  proof (cases "c \<le> mt")
    case False
    then show ?thesis by (simp add: fuse_loop_stop)
  next
    case True
    let ?c = "float_add c w"
    have p: "c + 1 / 4 \<le> ?c"
      using less(2) True assms(2) assms(3) by (intro float_add_progress) linarith+
    show ?thesis
    proof (cases "?c \<le> mt")
      case False
      then show ?thesis unfolding fuse_loop_step[OF True] by (simp add: fuse_loop_stop)
    next
      case le: True
      have "(mt - ?c) * 4 \<le> (mt - c) * 4 - 1" using p by (simp add: algebra_simps)
      then have "\<lfloor>(mt - ?c) * 4\<rfloor> \<le> \<lfloor>(mt - c) * 4\<rfloor> - 1" by linarith
      moreover have "0 \<le> \<lfloor>(mt - ?c) * 4\<rfloor>" using le by simp
      ultimately have "nat \<lfloor>(mt - ?c) * 4\<rfloor> < nat \<lfloor>(mt - c) * 4\<rfloor>" by linarith
      moreover have "0 \<le> ?c" using p less(2) by linarith
      ultimately show ?thesis unfolding fuse_loop_step[OF True] by (rule less(1))
    qed
  qed
qed

lemma max_time_nonneg: "0 \<le> max_time_of vf af tf"
proof -
  have "\<And>xs (a::real). a \<le> fold max xs a"
    by (simp add: fold_max_eq_Max)
  then show ?thesis unfolding max_time_of_def .
qed

lemma dominant_emotion_Inr: "\<exists>d. dominant_emotion es = Inr d"
  by (cases es) (simp_all add: dominant_emotion_def)

lemma trajectory_Inr:
  "\<exists>tr. py_mapM (\<lambda>item.
             py_bind (dominant_emotion (get_or (vf_facial_emotion_scores item) []))
               (\<lambda>dom. Inr \<lparr>ep_timestamp = Some (get_or (vf_timestamp item) 0),
                           dominantEmotion = Some dom,
                           emotionScores = Some (get_or (vf_facial_emotion_scores item) [])\<rparr>))
           vf = Inr tr"
proof -
  obtain d where d: "\<And>es. dominant_emotion es = Inr (d es)"
    using dominant_emotion_Inr by metis
  have "py_mapM (\<lambda>item.
             py_bind (dominant_emotion (get_or (vf_facial_emotion_scores item) []))
               (\<lambda>dom. Inr \<lparr>ep_timestamp = Some (get_or (vf_timestamp item) 0),
                           dominantEmotion = Some dom,
                           emotionScores = Some (get_or (vf_facial_emotion_scores item) [])\<rparr>))
           vf
        = Inr (map (\<lambda>item. \<lparr>ep_timestamp = Some (get_or (vf_timestamp item) 0),
                           dominantEmotion = Some (d (get_or (vf_facial_emotion_scores item) [])),
                           emotionScores = Some (get_or (vf_facial_emotion_scores item) [])\<rparr>) vf)"
    by (rule py_mapM_Inr) (simp add: d)
  then show ?thesis by blast
qed

lemma fuse_multimodal_features_result:
  assumes "fuse_multimodal_features learned vf af tf wss ulf = Some r"
  shows "\<exists>res n. r = Inr res
     \<and> fused_feature_vectors res =
         map (\<lambda>i. window_at learned vf af tf ulf (max 0.5 wss) (cursor_at (max 0.5 wss) i)) [0..<n]
     \<and> 0 < n
     \<and> (\<forall>i<n. cursor_at (max 0.5 wss) i \<le> max_time_of vf af tf)
     \<and> max_time_of vf af tf < cursor_at (max 0.5 wss) n"
proof -
  define w where "w = max 0.5 wss"
  define mt where "mt = max_time_of vf af tf"
  obtain y where y: "fuse_loop learned vf af tf ulf w mt 0 [] = Some y"
    using assms unfolding fuse_multimodal_features_def Let_def w_def mt_def
    by (auto split: option.splits)
  from fuse_loop_result[OF y] obtain n where n:
    "y = Inr (map (\<lambda>i. window_at learned vf af tf ulf w (cursor_after w 0 i)) [0..<n])"
    "\<forall>i<n. cursor_after w 0 i \<le> mt" "\<not> cursor_after w 0 n \<le> mt"
    by auto
  have "0 \<le> mt" unfolding mt_def by (rule max_time_nonneg)
  then have pos: "0 < n" using n(3) by (cases n) simp_all
  obtain tr where t: "py_mapM (\<lambda>item.
             py_bind (dominant_emotion (get_or (vf_facial_emotion_scores item) []))
               (\<lambda>dom. Inr \<lparr>ep_timestamp = Some (get_or (vf_timestamp item) 0),
                           dominantEmotion = Some dom,
                           emotionScores = Some (get_or (vf_facial_emotion_scores item) [])\<rparr>))
           vf = Inr tr"
    using trajectory_Inr by blast
  define res where "res = \<lparr>fused_feature_vectors =
        map (\<lambda>i. window_at learned vf af tf ulf w (cursor_at w i)) [0..<n],
      emotion_trajectory = (if tr = []
                     then [\<lparr>ep_timestamp = Some 0, dominantEmotion = Some ''neutral'',
                            emotionScores = Some [(''neutral'', 1)]\<rparr>]
                     else tr)\<rparr>"
  have "fuse_multimodal_features learned vf af tf wss ulf = Some (Inr res)"
    unfolding fuse_multimodal_features_def Let_def w_def[symmetric] mt_def[symmetric] y n(1)
      option.case py_bind_Inr t res_def cursor_at_def by (rule refl)
  then have r: "r = Inr res" using assms by simp
  have f: "fused_feature_vectors res
        = map (\<lambda>i. window_at learned vf af tf ulf w (cursor_at w i)) [0..<n]"
    by (simp add: res_def)
  have b: "\<forall>i<n. cursor_at w i \<le> mt" "mt < cursor_at w n"
    using n(2) n(3) by (simp_all add: cursor_at_def)
  from r f pos b show ?thesis unfolding w_def mt_def by (intro exI[of _ res] exI[of _ n] conjI)
qed

lemma fuse_multimodal_features_returns:
  assumes "max_time_of vf af tf \<le> 2 ^ 50"
  shows "\<exists>r. fuse_multimodal_features learned vf af tf wss ulf = Some r"
proof -
  have "\<exists>y. fuse_loop learned vf af tf ulf (max 0.5 wss) (max_time_of vf af tf) 0 [] = Some y"
    by (rule fuse_loop_returns[OF _ assms]) simp_all
  then show ?thesis unfolding fuse_multimodal_features_def Let_def by auto
qed

lemma cursor_at_nonneg:
  assumes "\<forall>j<n. cursor_at w j \<le> 2 ^ 50" "1 / 2 \<le> w"
  shows "i \<le> n \<Longrightarrow> 0 \<le> cursor_at w i"
proof (induction i)
  case 0
  then show ?case by (simp add: cursor_at_def)
next
  case (Suc i)
  then have "0 \<le> cursor_at w i" "cursor_at w i \<le> 2 ^ 50" using assms(1) by simp_all
  from float_add_progress[OF this assms(2)] this(1)
  show ?case by (simp add: cursor_at_def)
qed

lemma window_at_video_default:
  assumes "video_slice_of vf cursor (float_add cursor w) = []"
  shows "facialEmotionScores (window_at learned vf af tf ulf w cursor) = Some [(''neutral'', 1)]"
    "headPose (window_at learned vf af tf ulf w cursor)
       = Some \<lparr>hp_yaw = Some 0, hp_pitch = Some 0, hp_roll = Some 0\<rparr>"
    "gazeDirection (window_at learned vf af tf ulf w cursor) = Some ''unknown''"
  by (simp_all add: window_at_def fuse_window_def Let_def assms dominant_gaze_empty
      mean_emotions_def mean_head_pose_def)

lemma window_at_audio_default:
  assumes "audio_slice_of af cursor (float_add cursor w) = []"
  shows "speechFeatures (window_at learned vf af tf ulf w cursor)
       = Some \<lparr>sf_pitch = Some 0, sf_pause_duration = Some 0, sf_speaking_rate = Some 0,
               sf_prosody_score = Some 0\<rparr>"
proof -
  obtain g where g: "dominant_gaze (video_slice_of vf cursor (float_add cursor w)) = Inr g"
    using dominant_gaze_Inr by blast
  show ?thesis by (simp add: window_at_def fuse_window_def Let_def assms g mean_speech_def)
qed

lemma window_at_text_default:
  assumes "text_slice_of tf cursor (float_add cursor w) = []"
  shows "textScores (window_at learned vf af tf ulf w cursor)
       = Some \<lparr>ts_semantic_relevance = Some 0, ts_sentiment_score = Some 0,
               ts_answer_coherence = Some 0\<rparr>"
proof -
  obtain g where g: "dominant_gaze (video_slice_of vf cursor (float_add cursor w)) = Inr g"
    using dominant_gaze_Inr by blast
  show ?thesis by (simp add: window_at_def fuse_window_def Let_def assms g mean_text_scores_def)
qed

lemma window_at_empty_streams:
  "window_at learned [] [] [] ulf w cursor =
     \<lparr>startTime = Some (py_round cursor 3), endTime = Some (py_round (float_add cursor w) 3),
      facialEmotionScores = Some [(''neutral'', 1)],
      headPose = Some \<lparr>hp_yaw = Some 0, hp_pitch = Some 0, hp_roll = Some 0\<rparr>,
      gazeDirection = Some ''unknown'',
      speechFeatures = Some \<lparr>sf_pitch = Some 0, sf_pause_duration = Some 0,
                              sf_speaking_rate = Some 0, sf_prosody_score = Some 0\<rparr>,
      textScores = Some \<lparr>ts_semantic_relevance = Some 0, ts_sentiment_score = Some 0,
                         ts_answer_coherence = Some 0\<rparr>,
      fusedVector = Some (apply_fusion learned [0, 1, 0, 0, 0, 0, 0, 0, 0, 0] ulf)\<rparr>"
  by (simp add: window_at_def fuse_window_def Let_def dominant_gaze_empty video_slice_of_def
      audio_slice_of_def text_slice_of_def mean_emotions_def mean_head_pose_def mean_speech_def
      mean_text_scores_def dict_get_def get_or_def)

lemma fuse_multimodal_features_eval:
  assumes "fuse_loop learned vf af tf ulf (max 0.5 wss) (max_time_of vf af tf) 0 [] = Some (Inr ws)"
  shows "\<exists>res. fuse_multimodal_features learned vf af tf wss ulf = Some (Inr res)
           \<and> fused_feature_vectors res = ws"
proof -
  obtain tr where t: "py_mapM (\<lambda>item.
             py_bind (dominant_emotion (get_or (vf_facial_emotion_scores item) []))
               (\<lambda>dom. Inr \<lparr>ep_timestamp = Some (get_or (vf_timestamp item) 0),
                           dominantEmotion = Some dom,
                           emotionScores = Some (get_or (vf_facial_emotion_scores item) [])\<rparr>))
           vf = Inr tr"
    using trajectory_Inr by blast
  show ?thesis
    unfolding fuse_multimodal_features_def Let_def assms option.case py_bind_Inr t by simp
qed

lemma cursor_at_double_0_7:
  "cursor_at double_0_7 0 = 0"
  "cursor_at double_0_7 1 = 3152519739159347 / 4503599627370496"
  "cursor_at double_0_7 2 = 3152519739159347 / 2251799813685248"
  "cursor_at double_0_7 3 = 1182194902184755 / 562949953421312"
  "cursor_at double_0_7 4 = 3152519739159347 / 1125899906842624"
  "cursor_at double_0_7 5 = 7 / 2"
  "cursor_at double_0_7 6 = 4728779608739021 / 1125899906842624"
  "cursor_at double_0_7 7 = 2758454771764429 / 562949953421312"
  "cursor_at double_0_7 8 = 6305039478318695 / 1125899906842624"
  "cursor_at double_0_7 9 = 1773292353277133 / 281474976710656"
  "cursor_at double_0_7 10 = 7881299347898369 / 1125899906842624"
proof -
  have s: "\<And>i. cursor_at double_0_7 (Suc i) = float_add (cursor_at double_0_7 i) double_0_7"
    by (simp add: cursor_at_def)
  have e: "\<And>x. float_add x double_0_7
             = (let ulp = pow2 (float_exponent (x + double_0_7) - 52)
                in of_int (round_half_even ((x + double_0_7) / ulp)) * ulp)"
    by (simp add: float_add_def float_round_def)
  show c0: "cursor_at double_0_7 0 = 0" by (simp add: cursor_at_def)
  have "cursor_at double_0_7 1 = float_add (cursor_at double_0_7 0) double_0_7"
    using s[of 0] by simp
  then show c1: "cursor_at double_0_7 1 = 3152519739159347 / 4503599627370496"
    unfolding c0 e
    by (simp add: double_0_7_def float_exponent.simps pow2_def round_half_even_def Let_def)
  have "cursor_at double_0_7 2 = float_add (cursor_at double_0_7 1) double_0_7"
    using s[of 1] by (simp add: numeral_2_eq_2)
  then show c2: "cursor_at double_0_7 2 = 3152519739159347 / 2251799813685248"
    unfolding c1 e
    by (simp add: double_0_7_def float_exponent.simps pow2_def round_half_even_def Let_def)
  have "cursor_at double_0_7 3 = float_add (cursor_at double_0_7 2) double_0_7"
    using s[of 2] by simp
  then show c3: "cursor_at double_0_7 3 = 1182194902184755 / 562949953421312"
    unfolding c2 e
    by (simp add: double_0_7_def float_exponent.simps pow2_def round_half_even_def Let_def)
  have "cursor_at double_0_7 4 = float_add (cursor_at double_0_7 3) double_0_7"
    using s[of 3] by simp
  then show c4: "cursor_at double_0_7 4 = 3152519739159347 / 1125899906842624"
    unfolding c3 e
    by (simp add: double_0_7_def float_exponent.simps pow2_def round_half_even_def Let_def)
  have "cursor_at double_0_7 5 = float_add (cursor_at double_0_7 4) double_0_7"
    using s[of 4] by simp
  then show c5: "cursor_at double_0_7 5 = 7 / 2"
    unfolding c4 e
    by (simp add: double_0_7_def float_exponent.simps pow2_def round_half_even_def Let_def)
  have "cursor_at double_0_7 6 = float_add (cursor_at double_0_7 5) double_0_7"
    using s[of 5] by simp
  then show c6: "cursor_at double_0_7 6 = 4728779608739021 / 1125899906842624"
    unfolding c5 e
    by (simp add: double_0_7_def float_exponent.simps pow2_def round_half_even_def Let_def)
  have "cursor_at double_0_7 7 = float_add (cursor_at double_0_7 6) double_0_7"
    using s[of 6] by simp
  then show c7: "cursor_at double_0_7 7 = 2758454771764429 / 562949953421312"
    unfolding c6 e
    by (simp add: double_0_7_def float_exponent.simps pow2_def round_half_even_def Let_def)
  have "cursor_at double_0_7 8 = float_add (cursor_at double_0_7 7) double_0_7"
    using s[of 7] by simp
  then show c8: "cursor_at double_0_7 8 = 6305039478318695 / 1125899906842624"
    unfolding c7 e
    by (simp add: double_0_7_def float_exponent.simps pow2_def round_half_even_def Let_def)
  have "cursor_at double_0_7 9 = float_add (cursor_at double_0_7 8) double_0_7"
    using s[of 8] by simp
  then show c9: "cursor_at double_0_7 9 = 1773292353277133 / 281474976710656"
    unfolding c8 e
    by (simp add: double_0_7_def float_exponent.simps pow2_def round_half_even_def Let_def)
  have "cursor_at double_0_7 10 = float_add (cursor_at double_0_7 9) double_0_7"
    using s[of 9] by simp
  then show c10: "cursor_at double_0_7 10 = 7881299347898369 / 1125899906842624"
    unfolding c9 e
    by (simp add: double_0_7_def float_exponent.simps pow2_def round_half_even_def Let_def)
qed

lemma fuse_loop_unroll:
  "(\<forall>i<n. cursor_after w c i \<le> mt) \<Longrightarrow> \<not> cursor_after w c n \<le> mt \<Longrightarrow>
   fuse_loop learned vf af tf ulf w mt c acc
     = Some (Inr (acc @ map (\<lambda>i. window_at learned vf af tf ulf w (cursor_after w c i)) [0..<n]))"
proof (induction n arbitrary: c acc)
  case 0
  then show ?case by (simp add: fuse_loop_stop)
next
  case (Suc n)
  have le: "c \<le> mt" using Suc.prems(1) by auto
  have a: "\<forall>i<n. cursor_after w (float_add c w) i \<le> mt"
  proof (intro allI impI)
    fix i assume "i < n"
    then have "cursor_after w c (Suc i) \<le> mt" using Suc.prems(1) by blast
    then show "cursor_after w (float_add c w) i \<le> mt" unfolding cursor_after_shift .
  qed
  have b: "\<not> cursor_after w (float_add c w) n \<le> mt"
    using Suc.prems(2) unfolding cursor_after_shift .
  show ?case
    unfolding fuse_loop_step[OF le] Suc.IH[OF a b]
      windows_from_Suc[of "window_at learned vf af tf ulf w"] by simp
qed

lemma fuse_multimodal_features_windows:
  assumes "\<forall>i<n. cursor_at (max 0.5 wss) i \<le> max_time_of vf af tf"
    and "max_time_of vf af tf < cursor_at (max 0.5 wss) n"
  shows "\<exists>res. fuse_multimodal_features learned vf af tf wss ulf = Some (Inr res)
     \<and> fused_feature_vectors res =
         map (\<lambda>i. window_at learned vf af tf ulf (max 0.5 wss) (cursor_at (max 0.5 wss) i)) [0..<n]"
proof -
  have "fuse_loop learned vf af tf ulf (max 0.5 wss) (max_time_of vf af tf) 0 []
        = Some (Inr ([] @ map (\<lambda>i. window_at learned vf af tf ulf (max 0.5 wss)
                                    (cursor_after (max 0.5 wss) 0 i)) [0..<n]))"
    using assms unfolding cursor_at_def by (intro fuse_loop_unroll) simp_all
  then have "fuse_loop learned vf af tf ulf (max 0.5 wss) (max_time_of vf af tf) 0 []
        = Some (Inr (map (\<lambda>i. window_at learned vf af tf ulf (max 0.5 wss)
                                    (cursor_at (max 0.5 wss) i)) [0..<n]))"
    unfolding cursor_at_def by simp
  then show ?thesis by (rule fuse_multimodal_features_eval)
qed

lemma cursor_at_Suc: "cursor_at w (Suc i) = float_add (cursor_at w i) w"
  by (simp add: cursor_at_def)

lemma cursor_at_0: "cursor_at w 0 = 0"
  by (simp add: cursor_at_def)

lemma window_times_at:
  "map (\<lambda>x. (startTime x, endTime x))
       (map (\<lambda>i. window_at learned vf af tf ulf w (cursor_at w i)) [0..<n])
   = map (\<lambda>i. (Some (py_round (cursor_at w i) 3), Some (py_round (cursor_at w (Suc i)) 3))) [0..<n]"
  by (simp add: window_at_times cursor_at_Suc)

text \<open>The cursor is a sum of doubles.  With a window of 0.7 s (the double nearest to it) and
  a transcript that ends at 7.0 s, the tenth sum is \<open>7.000000000000001\<close>, beyond the largest
  timestamp: the loop builds ten windows, the last reported as \<open>[6.3, 7.0]\<close>, although the
  exact quotient \<open>7 / 0.7\<close> is not below 10.\<close>

lemma fuse_double_0_7:
  "max_time_of [] [] text_until_7 = 7
   \<and> nat \<lfloor>7 / double_0_7\<rfloor> + 1 = 11
   \<and> (\<exists>res. fuse_multimodal_features None [] [] text_until_7 double_0_7 False = Some (Inr res)
         \<and> map (\<lambda>x. (startTime x, endTime x)) (fused_feature_vectors res)
             = [(Some 0, Some 0.7), (Some 0.7, Some 1.4), (Some 1.4, Some 2.1), (Some 2.1, Some 2.8),
                (Some 2.8, Some 3.5), (Some 3.5, Some 4.2), (Some 4.2, Some 4.9), (Some 4.9, Some 5.6),
                (Some 5.6, Some 6.3), (Some 6.3, Some 7)])"
proof -
  have m: "max_time_of [] [] text_until_7 = 7"
    by (simp add: max_time_of_def text_until_7_def get_or_def)
  have q: "nat \<lfloor>7 / double_0_7\<rfloor> + 1 = 11" by (simp add: double_0_7_def)
  have w: "max 0.5 double_0_7 = double_0_7" by (simp add: double_0_7_def)
  note c = cursor_at_double_0_7
  have u: "[0..<10] = [0, 1, 2, 3, 4, 5, 6, 7, 8, 9::nat]"
    by (simp add: eval_nat_numeral upt_rec)
  have "\<forall>i\<in>set [0..<10]. cursor_at double_0_7 i \<le> 7"
    unfolding u using c by simp
  then have le: "\<forall>i<10. cursor_at double_0_7 i \<le> 7" by simp
  have gt: "7 < cursor_at double_0_7 10" by (simp add: c)
  have r: "py_round (cursor_at double_0_7 0) 3 = 0" "py_round (cursor_at double_0_7 1) 3 = 0.7"
    "py_round (cursor_at double_0_7 2) 3 = 1.4" "py_round (cursor_at double_0_7 3) 3 = 2.1"
    "py_round (cursor_at double_0_7 4) 3 = 2.8" "py_round (cursor_at double_0_7 5) 3 = 3.5"
    "py_round (cursor_at double_0_7 6) 3 = 4.2" "py_round (cursor_at double_0_7 7) 3 = 4.9"
    "py_round (cursor_at double_0_7 8) 3 = 5.6" "py_round (cursor_at double_0_7 9) 3 = 6.3"
    "py_round (cursor_at double_0_7 10) 3 = 7"
    unfolding c by (simp_all add: py_round_def round_half_even_def)
  have s: "Suc 0 = 1" "Suc 1 = 2" "Suc 2 = 3" "Suc 3 = 4" "Suc 4 = 5" "Suc 5 = 6" "Suc 6 = 7"
    "Suc 7 = 8" "Suc 8 = 9" "Suc 9 = 10" by simp_all
  from fuse_multimodal_features_windows[of 10 double_0_7 "[]" "[]" text_until_7 None False]
  obtain res where res: "fuse_multimodal_features None [] [] text_until_7 double_0_7 False = Some (Inr res)"
    "fused_feature_vectors res =
         map (\<lambda>i. window_at None [] [] text_until_7 False double_0_7 (cursor_at double_0_7 i)) [0..<10]"
    unfolding w m using le gt by blast
  have t: "map (\<lambda>x. (startTime x, endTime x)) (fused_feature_vectors res)
      = map (\<lambda>i. (Some (py_round (cursor_at double_0_7 i) 3),
                   Some (py_round (cursor_at double_0_7 (Suc i)) 3))) [0..<10]"
    unfolding res(2) by (rule window_times_at)
  have "map (\<lambda>x. (startTime x, endTime x)) (fused_feature_vectors res)
             = [(Some 0, Some 0.7), (Some 0.7, Some 1.4), (Some 1.4, Some 2.1), (Some 2.1, Some 2.8),
                (Some 2.8, Some 3.5), (Some 3.5, Some 4.2), (Some 4.2, Some 4.9), (Some 4.9, Some 5.6),
                (Some 5.6, Some 6.3), (Some 6.3, Some 7)]"
    unfolding t u list.map s r by (rule refl)
  with res(1) have "\<exists>res. fuse_multimodal_features None [] [] text_until_7 double_0_7 False = Some (Inr res)
         \<and> map (\<lambda>x. (startTime x, endTime x)) (fused_feature_vectors res)
             = [(Some 0, Some 0.7), (Some 0.7, Some 1.4), (Some 1.4, Some 2.1), (Some 2.1, Some 2.8),
                (Some 2.8, Some 3.5), (Some 3.5, Some 4.2), (Some 4.2, Some 4.9), (Some 4.9, Some 5.6),
                (Some 5.6, Some 6.3), (Some 6.3, Some 7)]"
    by (intro exI[of _ res] conjI)
  with m q show ?thesis by (intro conjI)
qed

lemma cursor_at_half_bounded: "\<exists>k::int. 0 \<le> k \<and> k \<le> 2 ^ 53 \<and> cursor_at (1 / 2) n = of_int k / 2"
proof (induction n)
  case 0
  have "0 \<le> (0::int) \<and> (0::int) \<le> 2 ^ 53 \<and> cursor_at (1 / 2) 0 = of_int 0 / 2"
    by (simp add: cursor_at_0)
  then show ?case by (rule exI[of _ 0])
next
  case (Suc n)
  then obtain k :: int where k: "0 \<le> k" "k \<le> 2 ^ 53" "cursor_at (1 / 2) n = of_int k / 2"
    by blast
  show ?case
  proof (cases "k = 2 ^ 53")
    case True
    have "cursor_at (1 / 2) (Suc n) = of_int k / 2"
      unfolding cursor_at_Suc k(3) True using float_add_stall by simp
    with k(1,2) show ?thesis by blast
  next
    case False
    then have lt: "k + 1 \<le> 2 ^ 53" using k(2) by linarith
    have s: "of_int k / 2 + 1 / 2 = (of_int (k + 1) / 2 :: real)" by simp
    have "float_add (of_int k / 2) (1 / 2) = of_int k / 2 + 1 / 2"
    proof (cases "k + 1 = 2 ^ 53")
      case True
      have "of_int k / 2 + 1 / 2 = of_int 1 * pow2 52"
        unfolding s True by (simp add: pow2_def)
      then show ?thesis by (rule float_add_exact) simp
    next
      case False
      then have "\<bar>k + 1\<bar> < 2 ^ 53" using lt k(1) by linarith
      moreover have "of_int k / 2 + 1 / 2 = of_int (k + 1) * pow2 (- 1)"
        unfolding s by (simp add: pow2_def)
      ultimately show ?thesis by (intro float_add_exact)
    qed
    then have "cursor_at (1 / 2) (Suc n) = of_int (k + 1) / 2"
      unfolding cursor_at_Suc k(3) s .
    with k(1) lt show ?thesis by (intro exI[of _ "k + 1"] conjI) simp_all
  qed
qed

text \<open>Beyond \<open>2^52\<close> seconds the loop does not end for a window of half a second: the cursor
  stops at \<open>2^52\<close>, where adding 0.5 rounds back to \<open>2^52\<close>.\<close>

lemma fuse_stalls:
  assumes "2 ^ 52 \<le> max_time_of vf af tf"
  shows "fuse_multimodal_features learned vf af tf (1 / 2) ulf = None"
proof (rule ccontr)
  assume "fuse_multimodal_features learned vf af tf (1 / 2) ulf \<noteq> None"
  then obtain r where "fuse_multimodal_features learned vf af tf (1 / 2) ulf = Some r" by blast
  from fuse_multimodal_features_result[OF this]
  obtain n where "max_time_of vf af tf < cursor_at (max 0.5 (1 / 2)) n" by blast
  then have gt: "max_time_of vf af tf < cursor_at (1 / 2) n" by simp
  obtain k :: int where k: "k \<le> 2 ^ 53" "cursor_at (1 / 2) n = of_int k / 2"
    using cursor_at_half_bounded[of n] by blast
  have "(of_int k :: real) \<le> of_int (2 ^ 53)" using k(1) by (simp only: of_int_le_iff)
  then have "cursor_at (1 / 2) n \<le> 2 ^ 52" unfolding k(2) by simp
  with gt assms show False by linarith
qed

lemma max_time_of_Max:
  "max_time_of vf af tf
     = Max ({0} \<union> (\<lambda>item. get_or (vf_timestamp item) 0) ` set vf
                \<union> (\<lambda>item. get_or (af_end item) 0) ` set af
                \<union> (\<lambda>item. get_or (tf_end item) 0) ` set tf)"
  unfolding max_time_of_def fold_max_eq_Max by (simp add: Un_assoc)

lemma cursor_cover:
  assumes "cursor_at w 0 \<le> t" "t < cursor_at w n"
  shows "\<exists>i<n. cursor_at w i \<le> t \<and> t < cursor_at w (Suc i)"
  using assms(2)
proof (induction n)
  case 0
  then show ?case using assms(1) by simp
next
  case (Suc n)
  show ?case
  proof (cases "t < cursor_at w n")
    case True
    from Suc.IH[OF this] obtain i where "i < n" "cursor_at w i \<le> t \<and> t < cursor_at w (Suc i)"
      by blast
    then have "i < Suc n \<and> cursor_at w i \<le> t \<and> t < cursor_at w (Suc i)" by simp
    then show ?thesis by blast
  next
    case False
    then have "n < Suc n \<and> cursor_at w n \<le> t \<and> t < cursor_at w (Suc n)"
      using Suc.prems by simp
    then show ?thesis by blast
  qed
qed

text \<open>
  C2, as stated, fails: the reported \<open>startTime\<close> and \<open>endTime\<close> are rounded to three
  decimals.  With no input and a requested size of \<open>1025/2048 = 0.50048828125\<close> s the single
  window is reported as \<open>[0, 0.5]\<close>, whose length is not the window size; with a transcript
  segment that ends at \<open>2049/4096 = 0.500244140625\<close> s the reported windows end at 0.5, before
  the largest timestamp.  (The size and the end are doubles, and the one sum, \<open>0 + size\<close>, is
  exact.)
\<close>

theorem fuse_window_size_counterexample:
  "(\<exists>res. fuse_multimodal_features None [] [] [] window_size_1025 False = Some (Inr res)
          \<and> map (\<lambda>w. (startTime w, endTime w)) (fused_feature_vectors res) = [(Some 0, Some 0.5)])
   \<and> (0.5::real) - 0 \<noteq> max 0.5 window_size_1025
   \<and> (\<exists>res. fuse_multimodal_features None [] [] text_until_2049 window_size_1025 False = Some (Inr res)
          \<and> map (\<lambda>w. (startTime w, endTime w)) (fused_feature_vectors res) = [(Some 0, Some 0.5)])
   \<and> max_time_of [] [] text_until_2049 = 2049 / 4096
   \<and> (0.5::real) < 2049 / 4096"
proof -
  have w: "max 0.5 window_size_1025 = window_size_1025" by (simp add: window_size_1025_def)
  have "float_round (of_int 1025 * pow2 (- 11)) = of_int 1025 * pow2 (- 11)"
    by (rule float_round_exact) simp
  then have fr: "float_add 0 window_size_1025 = window_size_1025"
    by (simp add: float_add_def window_size_1025_def pow2_def)
  have c: "cursor_at window_size_1025 0 = 0" "cursor_at window_size_1025 (Suc 0) = window_size_1025"
    by (simp_all add: cursor_at_def fr)
  have r: "py_round 0 3 = 0" "py_round window_size_1025 3 = 0.5"
    by (simp_all add: py_round_def round_half_even_def window_size_1025_def)
  have m0: "max_time_of [] [] [] = 0" by (simp add: max_time_of_def)
  have m1: "max_time_of [] [] text_until_2049 = 2049 / 4096"
    by (simp add: max_time_of_def text_until_2049_def get_or_def)
  have g: "(0::real) < window_size_1025" "(2049 / 4096 :: real) < window_size_1025"
    by (simp_all add: window_size_1025_def)
  have u: "[0..<Suc 0] = [0]" by simp
  have a: "\<exists>res. fuse_multimodal_features None [] [] [] window_size_1025 False = Some (Inr res)
          \<and> map (\<lambda>w. (startTime w, endTime w)) (fused_feature_vectors res) = [(Some 0, Some 0.5)]"
  proof -
    have "\<forall>i<Suc 0. cursor_at (max 0.5 window_size_1025) i \<le> max_time_of [] [] []"
      unfolding w m0 by (simp add: c)
    moreover have "max_time_of [] [] [] < cursor_at (max 0.5 window_size_1025) (Suc 0)"
      unfolding w m0 c by (rule g(1))
    ultimately obtain res where
      res: "fuse_multimodal_features None [] [] [] window_size_1025 False = Some (Inr res)"
      "fused_feature_vectors res
         = map (\<lambda>i. window_at None [] [] [] False window_size_1025 (cursor_at window_size_1025 i))
               [0..<Suc 0]"
      using fuse_multimodal_features_windows[of "Suc 0" window_size_1025 "[]" "[]" "[]" None False]
      unfolding w by blast
    have "map (\<lambda>w. (startTime w, endTime w)) (fused_feature_vectors res) = [(Some 0, Some 0.5)]"
      unfolding res(2) window_times_at unfolding u list.map c r by (rule refl)
    with res(1) show ?thesis by (intro exI[of _ res] conjI)
  qed
  have b: "\<exists>res. fuse_multimodal_features None [] [] text_until_2049 window_size_1025 False = Some (Inr res)
          \<and> map (\<lambda>w. (startTime w, endTime w)) (fused_feature_vectors res) = [(Some 0, Some 0.5)]"
  proof -
    have "\<forall>i<Suc 0. cursor_at (max 0.5 window_size_1025) i \<le> max_time_of [] [] text_until_2049"
      unfolding w m1 by (simp add: c)
    moreover have "max_time_of [] [] text_until_2049 < cursor_at (max 0.5 window_size_1025) (Suc 0)"
      unfolding w m1 c by (rule g(2))
    ultimately obtain res where
      res: "fuse_multimodal_features None [] [] text_until_2049 window_size_1025 False = Some (Inr res)"
      "fused_feature_vectors res
         = map (\<lambda>i. window_at None [] [] text_until_2049 False window_size_1025
                        (cursor_at window_size_1025 i)) [0..<Suc 0]"
      using fuse_multimodal_features_windows[of "Suc 0" window_size_1025 "[]" "[]" text_until_2049
          None False]
      unfolding w by blast
    have "map (\<lambda>w. (startTime w, endTime w)) (fused_feature_vectors res) = [(Some 0, Some 0.5)]"
      unfolding res(2) window_times_at unfolding u list.map c r by (rule refl)
    with res(1) show ?thesis by (intro exI[of _ res] conjI)
  qed
  have d: "(0.5::real) - 0 \<noteq> max 0.5 window_size_1025" by (simp add: window_size_1025_def)
  have e: "(0.5::real) < 2049 / 4096" by simp
  from a d b m1 e show ?thesis by (intro conjI)
qed

text \<open>
  C2, amended: for every three feature streams and every requested window size, with
  \<open>w\<close> the size clamped to at least 0.5 s and \<open>maxTimestamp\<close> the largest of 0, the video
  timestamps and the audio and text end values, if \<open>maxTimestamp\<close> is at most \<open>2^50\<close> seconds
  then \<open>fuse_multimodal_features\<close> returns a non-empty sequence of windows.  The windows are
  cut at the cursors \<open>c(0) = 0\<close>, \<open>c(i+1) = c(i) + w\<close> (a sum of doubles): window \<open>i\<close> reports
  \<open>startTime = round(c(i), 3)\<close> and \<open>endTime = round(c(i+1), 3)\<close>, so the first \<open>startTime\<close> is 0
  and each \<open>startTime\<close> equals the previous \<open>endTime\<close> (no gaps, no overlaps).  Every window
  starts at a cursor that is at most \<open>maxTimestamp\<close> and the cursor after the last window is
  beyond \<open>maxTimestamp\<close>, so every time in \<open>[0, maxTimestamp]\<close> lies in a window
  \<open>[c(i), c(i+1))\<close>, and the last reported \<open>endTime\<close> is at least \<open>round(maxTimestamp, 3)\<close>.
  The width \<open>c(i+1) - c(i)\<close> of a window is at least a quarter of a second and is \<open>w\<close> up to
  the rounding of one sum of doubles, \<open>(c(i) + w) / 2^53\<close>.
\<close>

theorem fuse_windows_contiguous:
  assumes "max_time_of vf af tf \<le> 2 ^ 50"
  shows "\<exists>res. fuse_multimodal_features learned vf af tf wss ulf = Some (Inr res)
     \<and> fused_feature_vectors res \<noteq> []
     \<and> startTime (fused_feature_vectors res ! 0) = Some 0
     \<and> (\<forall>i. Suc i < length (fused_feature_vectors res) \<longrightarrow>
            startTime (fused_feature_vectors res ! Suc i) = endTime (fused_feature_vectors res ! i))
     \<and> (\<forall>i. i < length (fused_feature_vectors res) \<longrightarrow>
            startTime (fused_feature_vectors res ! i) = Some (py_round (cursor_at (max 0.5 wss) i) 3)
          \<and> endTime (fused_feature_vectors res ! i)
              = Some (py_round (cursor_at (max 0.5 wss) (Suc i)) 3)
          \<and> cursor_at (max 0.5 wss) i \<le> max_time_of vf af tf
          \<and> cursor_at (max 0.5 wss) i + 1 / 4 \<le> cursor_at (max 0.5 wss) (Suc i)
          \<and> \<bar>cursor_at (max 0.5 wss) (Suc i) - (cursor_at (max 0.5 wss) i + max 0.5 wss)\<bar>
              \<le> (cursor_at (max 0.5 wss) i + max 0.5 wss) / 2 ^ 53)
     \<and> max_time_of vf af tf < cursor_at (max 0.5 wss) (length (fused_feature_vectors res))
     \<and> (\<forall>t. 0 \<le> t \<and> t \<le> max_time_of vf af tf \<longrightarrow>
            (\<exists>i<length (fused_feature_vectors res).
                cursor_at (max 0.5 wss) i \<le> t \<and> t < cursor_at (max 0.5 wss) (Suc i)))
     \<and> (\<exists>e. endTime (last (fused_feature_vectors res)) = Some e
            \<and> py_round (max_time_of vf af tf) 3 \<le> e)
     \<and> max_time_of vf af tf
           = Max ({0} \<union> (\<lambda>item. get_or (vf_timestamp item) 0) ` set vf
                      \<union> (\<lambda>item. get_or (af_end item) 0) ` set af
                      \<union> (\<lambda>item. get_or (tf_end item) 0) ` set tf)"
proof -
  define w where "w = max 0.5 wss"
  define mt where "mt = max_time_of vf af tf"
  have wge: "1 / 2 \<le> w" by (simp add: w_def)
  have wpos: "0 < w" using wge by linarith
  obtain r where "fuse_multimodal_features learned vf af tf wss ulf = Some r"
    using fuse_multimodal_features_returns[OF assms] by blast
  from this fuse_multimodal_features_result[OF this]
  obtain res n where res: "fuse_multimodal_features learned vf af tf wss ulf = Some (Inr res)"
    and f: "fused_feature_vectors res = map (\<lambda>i. window_at learned vf af tf ulf w (cursor_at w i)) [0..<n]"
    and n: "0 < n" and le: "\<forall>i<n. cursor_at w i \<le> mt" and gt: "mt < cursor_at w n"
    unfolding w_def mt_def by auto
  define ws where "ws = fused_feature_vectors res"
  have len: "length ws = n" by (simp add: ws_def f)
  have nth: "\<And>i. i < n \<Longrightarrow> ws ! i = window_at learned vf af tf ulf w (cursor_at w i)"
    by (simp add: ws_def f)
  have ne: "ws \<noteq> []" using len n by auto
  have bound: "\<forall>j<n. cursor_at w j \<le> 2 ^ 50" using le assms unfolding mt_def by fastforce
  have per: "\<forall>i. i < length ws \<longrightarrow>
            startTime (ws ! i) = Some (py_round (cursor_at w i) 3)
          \<and> endTime (ws ! i) = Some (py_round (cursor_at w (Suc i)) 3)
          \<and> cursor_at w i \<le> mt
          \<and> cursor_at w i + 1 / 4 \<le> cursor_at w (Suc i)
          \<and> \<bar>cursor_at w (Suc i) - (cursor_at w i + w)\<bar> \<le> (cursor_at w i + w) / 2 ^ 53"
  proof (intro allI impI)
    fix i assume "i < length ws"
    then have i: "i < n" using len by simp
    have c0: "0 \<le> cursor_at w i" using cursor_at_nonneg[OF bound wge, of i] i by simp
    have c1: "cursor_at w i \<le> 2 ^ 50" using bound i by blast
    have a: "startTime (ws ! i) = Some (py_round (cursor_at w i) 3)"
      unfolding nth[OF i] by (rule window_at_times(1))
    have b: "endTime (ws ! i) = Some (py_round (cursor_at w (Suc i)) 3)"
      unfolding nth[OF i] cursor_at_Suc by (rule window_at_times(2))
    have c: "cursor_at w i \<le> mt" using le i by blast
    have d: "cursor_at w i + 1 / 4 \<le> cursor_at w (Suc i)"
      unfolding cursor_at_Suc by (rule float_add_progress[OF c0 c1 wge])
    have e: "\<bar>cursor_at w (Suc i) - (cursor_at w i + w)\<bar> \<le> (cursor_at w i + w) / 2 ^ 53"
      unfolding cursor_at_Suc by (rule float_add_error[OF c0 wpos])
    from a b c d e
    show "startTime (ws ! i) = Some (py_round (cursor_at w i) 3)
          \<and> endTime (ws ! i) = Some (py_round (cursor_at w (Suc i)) 3)
          \<and> cursor_at w i \<le> mt
          \<and> cursor_at w i + 1 / 4 \<le> cursor_at w (Suc i)
          \<and> \<bar>cursor_at w (Suc i) - (cursor_at w i + w)\<bar> \<le> (cursor_at w i + w) / 2 ^ 53"
      by (intro conjI)
  qed
  have first: "startTime (ws ! 0) = Some 0"
    using per n len by (simp add: cursor_at_0 py_round_zero)
  have contig: "\<forall>i. Suc i < length ws \<longrightarrow> startTime (ws ! Suc i) = endTime (ws ! i)"
    using per by simp
  have cover: "mt < cursor_at w (length ws)" using gt len by simp
  have point: "\<forall>t. 0 \<le> t \<and> t \<le> mt \<longrightarrow>
            (\<exists>i<length ws. cursor_at w i \<le> t \<and> t < cursor_at w (Suc i))"
  proof (intro allI impI)
    fix t assume t: "0 \<le> t \<and> t \<le> mt"
    then have "cursor_at w 0 \<le> t" "t < cursor_at w n" using gt by (simp_all add: cursor_at_0)
    then show "\<exists>i<length ws. cursor_at w i \<le> t \<and> t < cursor_at w (Suc i)"
      unfolding len by (rule cursor_cover)
  qed
  have mx: "mt = Max ({0} \<union> (\<lambda>item. get_or (vf_timestamp item) 0) ` set vf
                      \<union> (\<lambda>item. get_or (af_end item) 0) ` set af
                      \<union> (\<lambda>item. get_or (tf_end item) 0) ` set tf)"
    unfolding mt_def by (rule max_time_of_Max)
  have l: "last ws = ws ! (n - 1)" using ne len by (simp add: last_conv_nth)
  have "endTime (ws ! (n - 1)) = Some (py_round (cursor_at w (Suc (n - 1))) 3)"
    using per n len by simp
  then have "endTime (last ws) = Some (py_round (cursor_at w n) 3)" using l n by simp
  moreover have "py_round mt 3 \<le> py_round (cursor_at w n) 3"
    using gt by (intro py_round_mono) simp
  ultimately have lastw: "\<exists>e. endTime (last ws) = Some e \<and> py_round mt 3 \<le> e" by simp
  from res ne first contig per cover point lastw mx show ?thesis
    unfolding ws_def w_def mt_def by (intro exI[of _ res] conjI)
qed

theorem fuse_windows_contiguous_witness:
  "max_time_of [] [] text_until_4_5 = 4.5
   \<and> max_time_of [] [] text_until_4_5 \<le> 2 ^ 50
   \<and> (\<exists>res. fuse_multimodal_features None [] [] text_until_4_5 2 False = Some (Inr res)
          \<and> map (\<lambda>w. (startTime w, endTime w)) (fused_feature_vectors res)
              = [(Some 0, Some 2), (Some 2, Some 4), (Some 4, Some 6)])"
proof -
  have m: "max_time_of [] [] text_until_4_5 = 4.5"
    by (simp add: max_time_of_def text_until_4_5_def get_or_def)
  have b: "max_time_of [] [] text_until_4_5 \<le> 2 ^ 50" unfolding m by simp
  have w: "max 0.5 (2::real) = 2" by simp
  have c0: "cursor_at 2 0 = 0" by (simp add: cursor_at_def)
  have c1: "cursor_at 2 1 = 2"
    using float_add_exact[of 0 2 1 1] by (simp add: cursor_at_def pow2_def)
  have c2: "cursor_at 2 2 = 4"
    using float_add_exact[of 2 2 1 2] c1 by (simp add: cursor_at_def pow2_def numeral_2_eq_2)
  have c3: "cursor_at 2 3 = 6"
    using float_add_exact[of 4 2 3 1] c2 by (simp add: cursor_at_def pow2_def numeral_3_eq_3 numeral_2_eq_2)
  have r: "py_round 0 3 = 0" "py_round 2 3 = 2" "py_round 4 3 = 4" "py_round 6 3 = 6"
    using py_round_exact[of 0 3 0] py_round_exact[of 2 3 2000] py_round_exact[of 4 3 4000]
      py_round_exact[of 6 3 6000] by simp_all
  from fuse_windows_contiguous[OF b, of None 2 False]
  obtain res where res: "fuse_multimodal_features None [] [] text_until_4_5 2 False = Some (Inr res)"
    and ne: "fused_feature_vectors res \<noteq> []"
    and per: "\<And>i. i < length (fused_feature_vectors res) \<Longrightarrow>
            startTime (fused_feature_vectors res ! i) = Some (py_round (cursor_at 2 i) 3)
          \<and> endTime (fused_feature_vectors res ! i) = Some (py_round (cursor_at 2 (Suc i)) 3)
          \<and> cursor_at 2 i \<le> 4.5"
    and gt: "4.5 < cursor_at 2 (length (fused_feature_vectors res))"
    unfolding w m by blast
  define n where "n = length (fused_feature_vectors res)"
  have "\<not> 3 < n"
  proof
    assume "3 < n"
    then have "cursor_at 2 3 \<le> 4.5" using per[of 3] unfolding n_def by simp
    then show False unfolding c3 by simp
  qed
  moreover have "n \<noteq> 0" using ne by (simp add: n_def)
  moreover have "n \<noteq> 1" using gt c1 unfolding n_def[symmetric] by auto
  moreover have "n \<noteq> 2" using gt c2 unfolding n_def[symmetric] by auto
  ultimately have len: "n = 3" by linarith
  have s: "Suc 0 = 1" "Suc 1 = 2" "Suc 2 = 3" by simp_all
  have "map (\<lambda>w. (startTime w, endTime w)) (fused_feature_vectors res)
              = [(Some 0, Some 2), (Some 2, Some 4), (Some 4, Some 6)]"
  proof (rule nth_equalityI)
    show "length (map (\<lambda>w. (startTime w, endTime w)) (fused_feature_vectors res))
          = length [(Some (0::real), Some (2::real)), (Some 2, Some 4), (Some 4, Some 6)]"
      using len by (simp add: n_def)
  next
    fix i assume "i < length (map (\<lambda>w. (startTime w, endTime w)) (fused_feature_vectors res))"
    then have i: "i < length (fused_feature_vectors res)" by simp
    then consider "i = 0" | "i = 1" | "i = 2" using len unfolding n_def by linarith
    then show "map (\<lambda>w. (startTime w, endTime w)) (fused_feature_vectors res) ! i
               = [(Some 0, Some 2), (Some 2, Some 4), (Some 4, Some 6)] ! i"
    proof cases
      case 1
      then show ?thesis using per[OF i] i unfolding 1 s c0 c1 r by simp
    next
      case 2
      then show ?thesis using per[OF i] i unfolding 2 s c1 c2 r by simp
    next
      case 3
      then show ?thesis using per[OF i] i unfolding 3 s c2 c3 r by simp
    qed
  qed
  with res have "\<exists>res. fuse_multimodal_features None [] [] text_until_4_5 2 False = Some (Inr res)
          \<and> map (\<lambda>w. (startTime w, endTime w)) (fused_feature_vectors res)
              = [(Some 0, Some 2), (Some 2, Some 4), (Some 4, Some 6)]"
    by (intro exI[of _ res] conjI)
  with m b show ?thesis by (intro conjI)
qed

text \<open>
  C3: for three empty streams and a window size of 2.0 the aligner returns exactly one
  window, from 0.0 to 2.0, with facial emotion \<open>{neutral: 1.0}\<close>, gaze \<open>unknown\<close>, an all-zero
  head pose and all-zero speech and text aggregates (and, without learned fusion, the fused
  vector of these defaults).  In general the aligner returns when the largest timestamp is at
  most \<open>2^50\<close> seconds, and whatever it returns is a window sequence, never an exception: a
  window in which no video frame is selected has the default emotion, head pose and gaze, one
  in which no audio segment is selected has the all-zero speech features, and one in which no
  text segment is selected has the all-zero text scores.  (Window \<open>i\<close> selects from the cursor
  \<open>c(i)\<close> to the cursor \<open>c(i+1)\<close>.)
\<close>

theorem fuse_defaults:
  "(\<exists>res. fuse_multimodal_features learned [] [] [] 2 ulf = Some (Inr res)
      \<and> fused_feature_vectors res =
          [\<lparr>startTime = Some 0, endTime = Some 2,
            facialEmotionScores = Some [(''neutral'', 1)],
            headPose = Some \<lparr>hp_yaw = Some 0, hp_pitch = Some 0, hp_roll = Some 0\<rparr>,
            gazeDirection = Some ''unknown'',
            speechFeatures = Some \<lparr>sf_pitch = Some 0, sf_pause_duration = Some 0,
                                    sf_speaking_rate = Some 0, sf_prosody_score = Some 0\<rparr>,
            textScores = Some \<lparr>ts_semantic_relevance = Some 0, ts_sentiment_score = Some 0,
                               ts_answer_coherence = Some 0\<rparr>,
            fusedVector = Some (apply_fusion learned [0, 1, 0, 0, 0, 0, 0, 0, 0, 0] ulf)\<rparr>])
   \<and> apply_fusion learned [0, 1, 0, 0, 0, 0, 0, 0, 0, 0] False = [0, 1, 0, 0, 0, 0, 0, 0, 0, 0]
   \<and> (max_time_of vf af tf \<le> 2 ^ 50 \<longrightarrow>
        (\<exists>r. fuse_multimodal_features learned vf af tf wss ulf = Some r))
   \<and> (\<forall>r. fuse_multimodal_features learned vf af tf wss ulf = Some r \<longrightarrow>
        (\<exists>res. r = Inr res
          \<and> (\<forall>i. i < length (fused_feature_vectors res) \<longrightarrow>
           (video_slice_of vf (cursor_at (max 0.5 wss) i) (cursor_at (max 0.5 wss) (Suc i)) = [] \<longrightarrow>
              facialEmotionScores (fused_feature_vectors res ! i) = Some [(''neutral'', 1)]
              \<and> headPose (fused_feature_vectors res ! i)
                  = Some \<lparr>hp_yaw = Some 0, hp_pitch = Some 0, hp_roll = Some 0\<rparr>
              \<and> gazeDirection (fused_feature_vectors res ! i) = Some ''unknown'')
         \<and> (audio_slice_of af (cursor_at (max 0.5 wss) i) (cursor_at (max 0.5 wss) (Suc i)) = [] \<longrightarrow>
              speechFeatures (fused_feature_vectors res ! i)
                = Some \<lparr>sf_pitch = Some 0, sf_pause_duration = Some 0,
                        sf_speaking_rate = Some 0, sf_prosody_score = Some 0\<rparr>)
         \<and> (text_slice_of tf (cursor_at (max 0.5 wss) i) (cursor_at (max 0.5 wss) (Suc i)) = [] \<longrightarrow>
              textScores (fused_feature_vectors res ! i)
                = Some \<lparr>ts_semantic_relevance = Some 0, ts_sentiment_score = Some 0,
                        ts_answer_coherence = Some 0\<rparr>))))"
proof -
  have m0: "max_time_of [] [] [] = 0" by (simp add: max_time_of_def)
  have w2: "max 0.5 (2::real) = 2" by simp
  have "float_round (of_int 1 * pow2 1) = of_int 1 * pow2 1"
    by (rule float_round_exact) simp
  then have fr: "float_add 0 2 = 2" by (simp add: float_add_def pow2_def)
  have c: "cursor_at 2 0 = 0" "cursor_at 2 (Suc 0) = 2"
    by (simp_all add: cursor_at_def fr)
  have r: "py_round 0 3 = 0" "py_round 2 3 = 2"
    using py_round_exact[of 0 3 0] py_round_exact[of 2 3 2000] by simp_all
  have u: "[0..<Suc 0] = [0]" by simp
  have a: "\<exists>res. fuse_multimodal_features learned [] [] [] 2 ulf = Some (Inr res)
      \<and> fused_feature_vectors res =
          [\<lparr>startTime = Some 0, endTime = Some 2,
            facialEmotionScores = Some [(''neutral'', 1)],
            headPose = Some \<lparr>hp_yaw = Some 0, hp_pitch = Some 0, hp_roll = Some 0\<rparr>,
            gazeDirection = Some ''unknown'',
            speechFeatures = Some \<lparr>sf_pitch = Some 0, sf_pause_duration = Some 0,
                                    sf_speaking_rate = Some 0, sf_prosody_score = Some 0\<rparr>,
            textScores = Some \<lparr>ts_semantic_relevance = Some 0, ts_sentiment_score = Some 0,
                               ts_answer_coherence = Some 0\<rparr>,
            fusedVector = Some (apply_fusion learned [0, 1, 0, 0, 0, 0, 0, 0, 0, 0] ulf)\<rparr>]"
  proof -
    have "\<forall>i<Suc 0. cursor_at (max 0.5 2) i \<le> max_time_of [] [] []"
      unfolding w2 m0 by (simp add: c)
    moreover have "max_time_of [] [] [] < cursor_at (max 0.5 2) (Suc 0)"
      unfolding w2 m0 c by simp
    ultimately obtain res where
      res: "fuse_multimodal_features learned [] [] [] 2 ulf = Some (Inr res)"
      "fused_feature_vectors res
         = map (\<lambda>i. window_at learned [] [] [] ulf 2 (cursor_at 2 i)) [0..<Suc 0]"
      using fuse_multimodal_features_windows[of "Suc 0" 2 "[]" "[]" "[]" learned ulf]
      unfolding w2 by blast
    have "fused_feature_vectors res =
          [\<lparr>startTime = Some 0, endTime = Some 2,
            facialEmotionScores = Some [(''neutral'', 1)],
            headPose = Some \<lparr>hp_yaw = Some 0, hp_pitch = Some 0, hp_roll = Some 0\<rparr>,
            gazeDirection = Some ''unknown'',
            speechFeatures = Some \<lparr>sf_pitch = Some 0, sf_pause_duration = Some 0,
                                    sf_speaking_rate = Some 0, sf_prosody_score = Some 0\<rparr>,
            textScores = Some \<lparr>ts_semantic_relevance = Some 0, ts_sentiment_score = Some 0,
                               ts_answer_coherence = Some 0\<rparr>,
            fusedVector = Some (apply_fusion learned [0, 1, 0, 0, 0, 0, 0, 0, 0, 0] ulf)\<rparr>]"
      unfolding res(2) u list.map c window_at_empty_streams fr r by (rule refl)
    with res(1) show ?thesis by (intro exI[of _ res] conjI)
  qed
  have b: "apply_fusion learned [0, 1, 0, 0, 0, 0, 0, 0, 0, 0] False = [0, 1, 0, 0, 0, 0, 0, 0, 0, 0]"
    using py_round_exact[of 0 6 0] py_round_exact[of 1 6 1000000]
    by (simp add: apply_fusion_def)
  define w where "w = max 0.5 wss"
  have t: "max_time_of vf af tf \<le> 2 ^ 50 \<longrightarrow>
        (\<exists>r. fuse_multimodal_features learned vf af tf wss ulf = Some r)"
    using fuse_multimodal_features_returns by blast
  have d: "\<forall>r. fuse_multimodal_features learned vf af tf wss ulf = Some r \<longrightarrow>
        (\<exists>res. r = Inr res
          \<and> (\<forall>i. i < length (fused_feature_vectors res) \<longrightarrow>
           (video_slice_of vf (cursor_at w i) (cursor_at w (Suc i)) = [] \<longrightarrow>
              facialEmotionScores (fused_feature_vectors res ! i) = Some [(''neutral'', 1)]
              \<and> headPose (fused_feature_vectors res ! i)
                  = Some \<lparr>hp_yaw = Some 0, hp_pitch = Some 0, hp_roll = Some 0\<rparr>
              \<and> gazeDirection (fused_feature_vectors res ! i) = Some ''unknown'')
         \<and> (audio_slice_of af (cursor_at w i) (cursor_at w (Suc i)) = [] \<longrightarrow>
              speechFeatures (fused_feature_vectors res ! i)
                = Some \<lparr>sf_pitch = Some 0, sf_pause_duration = Some 0,
                        sf_speaking_rate = Some 0, sf_prosody_score = Some 0\<rparr>)
         \<and> (text_slice_of tf (cursor_at w i) (cursor_at w (Suc i)) = [] \<longrightarrow>
              textScores (fused_feature_vectors res ! i)
                = Some \<lparr>ts_semantic_relevance = Some 0, ts_sentiment_score = Some 0,
                        ts_answer_coherence = Some 0\<rparr>)))"
  proof (intro allI impI)
    fix r assume "fuse_multimodal_features learned vf af tf wss ulf = Some r"
    from fuse_multimodal_features_result[OF this]
    obtain res n where res: "r = Inr res"
      "fused_feature_vectors res = map (\<lambda>i. window_at learned vf af tf ulf w (cursor_at w i)) [0..<n]"
      unfolding w_def by blast
    have nth: "\<And>i. i < length (fused_feature_vectors res) \<Longrightarrow>
               fused_feature_vectors res ! i = window_at learned vf af tf ulf w (cursor_at w i)"
      unfolding res(2) by simp
    have c: "\<forall>i. i < length (fused_feature_vectors res) \<longrightarrow>
           (video_slice_of vf (cursor_at w i) (cursor_at w (Suc i)) = [] \<longrightarrow>
              facialEmotionScores (fused_feature_vectors res ! i) = Some [(''neutral'', 1)]
              \<and> headPose (fused_feature_vectors res ! i)
                  = Some \<lparr>hp_yaw = Some 0, hp_pitch = Some 0, hp_roll = Some 0\<rparr>
              \<and> gazeDirection (fused_feature_vectors res ! i) = Some ''unknown'')
         \<and> (audio_slice_of af (cursor_at w i) (cursor_at w (Suc i)) = [] \<longrightarrow>
              speechFeatures (fused_feature_vectors res ! i)
                = Some \<lparr>sf_pitch = Some 0, sf_pause_duration = Some 0,
                        sf_speaking_rate = Some 0, sf_prosody_score = Some 0\<rparr>)
         \<and> (text_slice_of tf (cursor_at w i) (cursor_at w (Suc i)) = [] \<longrightarrow>
              textScores (fused_feature_vectors res ! i)
                = Some \<lparr>ts_semantic_relevance = Some 0, ts_sentiment_score = Some 0,
                        ts_answer_coherence = Some 0\<rparr>)"
    proof (intro allI impI conjI)
      fix i assume i: "i < length (fused_feature_vectors res)"
        and v: "video_slice_of vf (cursor_at w i) (cursor_at w (Suc i)) = []"
      have v': "video_slice_of vf (cursor_at w i) (float_add (cursor_at w i) w) = []"
        using v unfolding cursor_at_Suc .
      show "facialEmotionScores (fused_feature_vectors res ! i) = Some [(''neutral'', 1)]"
        unfolding nth[OF i] using v' by (rule window_at_video_default(1))
      show "headPose (fused_feature_vectors res ! i)
            = Some \<lparr>hp_yaw = Some 0, hp_pitch = Some 0, hp_roll = Some 0\<rparr>"
        unfolding nth[OF i] using v' by (rule window_at_video_default(2))
      show "gazeDirection (fused_feature_vectors res ! i) = Some ''unknown''"
        unfolding nth[OF i] using v' by (rule window_at_video_default(3))
    next
      fix i assume i: "i < length (fused_feature_vectors res)"
        and v: "audio_slice_of af (cursor_at w i) (cursor_at w (Suc i)) = []"
      have v': "audio_slice_of af (cursor_at w i) (float_add (cursor_at w i) w) = []"
        using v unfolding cursor_at_Suc .
      show "speechFeatures (fused_feature_vectors res ! i)
                = Some \<lparr>sf_pitch = Some 0, sf_pause_duration = Some 0,
                        sf_speaking_rate = Some 0, sf_prosody_score = Some 0\<rparr>"
        unfolding nth[OF i] using v' by (rule window_at_audio_default)
    next
      fix i assume i: "i < length (fused_feature_vectors res)"
        and v: "text_slice_of tf (cursor_at w i) (cursor_at w (Suc i)) = []"
      have v': "text_slice_of tf (cursor_at w i) (float_add (cursor_at w i) w) = []"
        using v unfolding cursor_at_Suc .
      show "textScores (fused_feature_vectors res ! i)
                = Some \<lparr>ts_semantic_relevance = Some 0, ts_sentiment_score = Some 0,
                        ts_answer_coherence = Some 0\<rparr>"
        unfolding nth[OF i] using v' by (rule window_at_text_default)
    qed
    from res(1) c show "\<exists>res. r = Inr res
          \<and> (\<forall>i. i < length (fused_feature_vectors res) \<longrightarrow>
           (video_slice_of vf (cursor_at w i) (cursor_at w (Suc i)) = [] \<longrightarrow>
              facialEmotionScores (fused_feature_vectors res ! i) = Some [(''neutral'', 1)]
              \<and> headPose (fused_feature_vectors res ! i)
                  = Some \<lparr>hp_yaw = Some 0, hp_pitch = Some 0, hp_roll = Some 0\<rparr>
              \<and> gazeDirection (fused_feature_vectors res ! i) = Some ''unknown'')
         \<and> (audio_slice_of af (cursor_at w i) (cursor_at w (Suc i)) = [] \<longrightarrow>
              speechFeatures (fused_feature_vectors res ! i)
                = Some \<lparr>sf_pitch = Some 0, sf_pause_duration = Some 0,
                        sf_speaking_rate = Some 0, sf_prosody_score = Some 0\<rparr>)
         \<and> (text_slice_of tf (cursor_at w i) (cursor_at w (Suc i)) = [] \<longrightarrow>
              textScores (fused_feature_vectors res ! i)
                = Some \<lparr>ts_semantic_relevance = Some 0, ts_sentiment_score = Some 0,
                        ts_answer_coherence = Some 0\<rparr>))"
      by (intro exI[of _ res] conjI)
  qed
  from a b t d show ?thesis unfolding w_def by (intro conjI)
qed

theorem fuse_defaults_witness:
  "max_time_of frame_at_1 [] [] \<le> 2 ^ 50
   \<and> cursor_at (max 0.5 2) 0 = 0 \<and> cursor_at (max 0.5 2) (Suc 0) = 2
   \<and> video_slice_of frame_at_1 0 2 = frame_at_1
   \<and> audio_slice_of [] 0 2 = [] \<and> text_slice_of [] 0 2 = []
   \<and> (\<exists>res. fuse_multimodal_features None frame_at_1 [] [] 2 False = Some (Inr res)
         \<and> length (fused_feature_vectors res) = 1
         \<and> speechFeatures (fused_feature_vectors res ! 0)
              = Some \<lparr>sf_pitch = Some 0, sf_pause_duration = Some 0,
                      sf_speaking_rate = Some 0, sf_prosody_score = Some 0\<rparr>
         \<and> textScores (fused_feature_vectors res ! 0)
              = Some \<lparr>ts_semantic_relevance = Some 0, ts_sentiment_score = Some 0,
                      ts_answer_coherence = Some 0\<rparr>
         \<and> gazeDirection (fused_feature_vectors res ! 0) = Some ''center'')"
proof -
  have v: "video_slice_of frame_at_1 0 2 = frame_at_1"
    by (simp add: video_slice_of_def frame_at_1_def get_or_def)
  have s: "audio_slice_of [] 0 2 = []" "text_slice_of [] 0 2 = []"
    by (simp_all add: audio_slice_of_def text_slice_of_def)
  have m: "max_time_of frame_at_1 [] [] = 1"
    by (simp add: max_time_of_def frame_at_1_def get_or_def)
  have b: "max_time_of frame_at_1 [] [] \<le> 2 ^ 50" unfolding m by simp
  have w2: "max 0.5 (2::real) = 2" by simp
  have "float_round (of_int 1 * pow2 1) = of_int 1 * pow2 1"
    by (rule float_round_exact) simp
  then have fr: "float_add 0 2 = 2" by (simp add: float_add_def pow2_def)
  have c: "cursor_at 2 0 = 0" "cursor_at 2 (Suc 0) = 2"
    by (simp_all add: cursor_at_def fr)
  have g: "dominant_gaze frame_at_1 = Inr ''center''"
    by (simp add: dominant_gaze_def frame_at_1_def get_or_def dict_get_def Let_def)
  have wa: "gazeDirection (window_at None frame_at_1 [] [] False 2 0) = Some ''center''"
    by (simp add: window_at_def fuse_window_def Let_def fr v g)
  have u: "[0..<Suc 0] = [0]" by simp
  have "\<forall>i<Suc 0. cursor_at (max 0.5 2) i \<le> max_time_of frame_at_1 [] []"
    unfolding w2 m by (simp add: c)
  moreover have "max_time_of frame_at_1 [] [] < cursor_at (max 0.5 2) (Suc 0)"
    unfolding w2 m c by simp
  ultimately obtain res0 where
    r0: "fuse_multimodal_features None frame_at_1 [] [] 2 False = Some (Inr res0)"
    "fused_feature_vectors res0 = [window_at None frame_at_1 [] [] False 2 0]"
    using fuse_multimodal_features_windows[of "Suc 0" 2 frame_at_1 "[]" "[]" None False]
    unfolding w2 u list.map c by blast
  note th = fuse_defaults[of None False frame_at_1 "[]" "[]" 2]
  from th b obtain r where r: "fuse_multimodal_features None frame_at_1 [] [] 2 False = Some r"
    by blast
  from th r obtain res where res: "r = Inr res"
    "\<And>i. i < length (fused_feature_vectors res) \<Longrightarrow>
        (audio_slice_of [] (cursor_at (max 0.5 2) i) (cursor_at (max 0.5 2) (Suc i)) = [] \<longrightarrow>
              speechFeatures (fused_feature_vectors res ! i)
                = Some \<lparr>sf_pitch = Some 0, sf_pause_duration = Some 0,
                        sf_speaking_rate = Some 0, sf_prosody_score = Some 0\<rparr>)
         \<and> (text_slice_of [] (cursor_at (max 0.5 2) i) (cursor_at (max 0.5 2) (Suc i)) = [] \<longrightarrow>
              textScores (fused_feature_vectors res ! i)
                = Some \<lparr>ts_semantic_relevance = Some 0, ts_sentiment_score = Some 0,
                        ts_answer_coherence = Some 0\<rparr>)"
    by blast
  have e: "res = res0" using r res(1) r0(1) by simp
  have l: "length (fused_feature_vectors res) = 1" unfolding e r0(2) by simp
  have f: "fuse_multimodal_features None frame_at_1 [] [] 2 False = Some (Inr res)"
    using r res(1) by simp
  have x: "speechFeatures (fused_feature_vectors res ! 0)
              = Some \<lparr>sf_pitch = Some 0, sf_pause_duration = Some 0,
                      sf_speaking_rate = Some 0, sf_prosody_score = Some 0\<rparr>"
    "textScores (fused_feature_vectors res ! 0)
              = Some \<lparr>ts_semantic_relevance = Some 0, ts_sentiment_score = Some 0,
                      ts_answer_coherence = Some 0\<rparr>"
    using res(2)[of 0] l by (simp_all add: audio_slice_of_def text_slice_of_def)
  have y: "gazeDirection (fused_feature_vectors res ! 0) = Some ''center''"
    unfolding e r0(2) using wa by simp
  have z: "\<exists>res. fuse_multimodal_features None frame_at_1 [] [] 2 False = Some (Inr res)
         \<and> length (fused_feature_vectors res) = 1
         \<and> speechFeatures (fused_feature_vectors res ! 0)
              = Some \<lparr>sf_pitch = Some 0, sf_pause_duration = Some 0,
                      sf_speaking_rate = Some 0, sf_prosody_score = Some 0\<rparr>
         \<and> textScores (fused_feature_vectors res ! 0)
              = Some \<lparr>ts_semantic_relevance = Some 0, ts_sentiment_score = Some 0,
                      ts_answer_coherence = Some 0\<rparr>
         \<and> gazeDirection (fused_feature_vectors res ! 0) = Some ''center''"
    using f l x y by (intro exI[of _ res] conjI)
  have c': "cursor_at (max 0.5 2) 0 = 0" "cursor_at (max 0.5 2) (Suc 0) = 2"
    unfolding w2 by (rule c)+
  from b c' v s z show ?thesis by (intro conjI)
qed

subsection \<open>Score ranges and exceptions\<close>

lemma pool_long_pause:
  "pool_fused_vectors [long_pause_window] = [0, 1, 0, 0, 0, 3000, 0, 0, 0, 0]"
  by (simp add: pool_fused_vectors_def long_pause_window_def get_or_def Let_def upt_rec[of 0]
      upt_rec[of 1] upt_rec[of 2] upt_rec[of 3] upt_rec[of 4] upt_rec[of 5] upt_rec[of 6]
      upt_rec[of 7] upt_rec[of 8] upt_rec[of 9] upt_rec[of 10])

lemma head_long_pause:
  "head_predict confidence_head [0, 1, 0, 0, 0, 3000, 0, 0, 0, 0] = Inl OverflowError"
  by (simp add: head_predict_def confidence_head_def Let_def sigmoid_to_100_def math_exp_def
      exp_overflow_bound_def upt_rec[of 0]
      upt_rec[of 1] upt_rec[of 2] upt_rec[of 3] upt_rec[of 4] upt_rec[of 5] upt_rec[of 6]
      upt_rec[of 7] upt_rec[of 8] upt_rec[of 9] upt_rec[of 10])

lemma readiness_long_pause: "readiness_predict [long_pause_window] = Inl OverflowError"
  by (simp add: readiness_predict_def Let_def pool_long_pause head_long_pause)

lemma fuse_long_pause:
  "\<exists>res. fuse_multimodal_features None [] long_pause_audio [] 2 False = Some (Inr res)
         \<and> fused_feature_vectors res = [long_pause_window]"
proof -
  have m: "max_time_of [] long_pause_audio [] = 1"
    by (simp add: max_time_of_def long_pause_audio_def get_or_def)
  have w2: "max 0.5 (2::real) = 2" by simp
  have "float_round (of_int 1 * pow2 1) = of_int 1 * pow2 1"
    by (rule float_round_exact) simp
  then have fr: "float_add 0 2 = 2" by (simp add: float_add_def pow2_def)
  have c: "cursor_at 2 0 = 0" "cursor_at 2 (Suc 0) = 2"
    by (simp_all add: cursor_at_def fr)
  have u: "[0..<Suc 0] = [0]" by simp
  have r: "py_round 0 3 = 0" "py_round 2 3 = 2" "py_round 0 6 = 0" "py_round 1 6 = 1"
    "py_round 3000 6 = 3000"
    using py_round_exact[of 0 3 0] py_round_exact[of 2 3 2000] py_round_exact[of 0 6 0]
      py_round_exact[of 1 6 1000000] py_round_exact[of 3000 6 3000000000]
    by simp_all
  have a: "audio_slice_of long_pause_audio 0 2 = long_pause_audio"
    by (simp add: audio_slice_of_def long_pause_audio_def overlap_def get_or_def)
  have w: "window_at None [] long_pause_audio [] False 2 0 = long_pause_window"
    unfolding window_at_def fuse_window_def Let_def fr
    using a r
    by (simp add: dominant_gaze_empty video_slice_of_def text_slice_of_def mean_emotions_def
        mean_head_pose_def mean_text_scores_def dict_get_def get_or_def apply_fusion_def
        long_pause_window_def)
       (simp add: long_pause_audio_def mean_speech_def mean_or_zero_def get_or_def)
  have "\<forall>i<Suc 0. cursor_at (max 0.5 2) i \<le> max_time_of [] long_pause_audio []"
    unfolding w2 m by (simp add: c)
  moreover have "max_time_of [] long_pause_audio [] < cursor_at (max 0.5 2) (Suc 0)"
    unfolding w2 m c by simp
  ultimately show ?thesis
    using fuse_multimodal_features_windows[of "Suc 0" 2 "[]" long_pause_audio "[]" None False]
    unfolding w2 u list.map c w by blast
qed

lemma round_half_even_bounds: "\<lfloor>y\<rfloor> \<le> round_half_even y \<and> round_half_even y \<le> \<lceil>y\<rceil>"
proof -
  have "y - of_int \<lfloor>y\<rfloor> \<noteq> 0 \<Longrightarrow> \<lfloor>y\<rfloor> + 1 \<le> \<lceil>y\<rceil>"
    by linarith
  then show ?thesis
    by (auto simp: round_half_even_def Let_def intro: floor_le_ceiling)
qed

lemma py_round_range:
  assumes "0 \<le> x" "x \<le> 100"
  shows "0 \<le> py_round x 2 \<and> py_round x 2 \<le> 100"
proof -
  have lo: "0 \<le> \<lfloor>x * 10 ^ 2\<rfloor>" using assms(1) by simp
  have "x * 10 ^ 2 \<le> of_int 10000" using assms(2) by simp
  then have hi: "\<lceil>x * 10 ^ 2\<rceil> \<le> 10000" by (simp only: ceiling_le_iff)
  from lo hi round_half_even_bounds[of "x * 10 ^ 2"]
  have "0 \<le> round_half_even (x * 10 ^ 2)" "round_half_even (x * 10 ^ 2) \<le> 10000" by linarith+
  then have "0 \<le> (of_int (round_half_even (x * 10 ^ 2)) :: real)"
    "(of_int (round_half_even (x * 10 ^ 2)) :: real) \<le> 10000"
    by simp_all
  then show ?thesis by (simp add: py_round_def field_simps)
qed

lemma sigmoid_to_100_cases:
  "sigmoid_to_100 v = Inl OverflowError \<or> (\<exists>s. sigmoid_to_100 v = Inr s \<and> 0 \<le> s \<and> s \<le> 100)"
  by (simp add: sigmoid_to_100_def math_exp_def Let_def)

lemma sigmoid_to_100_overflow:
  "(sigmoid_to_100 v = Inl OverflowError) = (v < - exp_overflow_bound)"
  by (auto simp: sigmoid_to_100_def math_exp_def Let_def)

lemma head_predict_cases:
  "head_predict head features = Inl OverflowError
   \<or> (\<exists>s. head_predict head features = Inr s \<and> 0 \<le> s \<and> s \<le> 100)"
  using sigmoid_to_100_cases by (simp add: head_predict_def Let_def)

lemma readiness_predict_cases:
  "readiness_predict fvs = Inl OverflowError
   \<or> (\<exists>mp. readiness_predict fvs = Inr mp
        \<and> 0 \<le> mp_confidence mp \<and> mp_confidence mp \<le> 100
        \<and> 0 \<le> mp_communicationEffectiveness mp \<and> mp_communicationEffectiveness mp \<le> 100
        \<and> 0 \<le> mp_interviewReadiness mp \<and> mp_interviewReadiness mp \<le> 100)"
proof -
  let ?p = "pool_fused_vectors fvs"
  consider (a) "head_predict confidence_head ?p = Inl OverflowError"
    | (b) "head_predict communication_head ?p = Inl OverflowError"
    | (c) "head_predict readiness_head ?p = Inl OverflowError"
    | (d) s1 s2 s3 where "head_predict confidence_head ?p = Inr s1" "0 \<le> s1" "s1 \<le> 100"
        "head_predict communication_head ?p = Inr s2" "0 \<le> s2" "s2 \<le> 100"
        "head_predict readiness_head ?p = Inr s3" "0 \<le> s3" "s3 \<le> 100"
    using head_predict_cases[of confidence_head ?p] head_predict_cases[of communication_head ?p]
      head_predict_cases[of readiness_head ?p] by blast
  then show ?thesis
  proof cases
    case a
    then show ?thesis by (simp add: readiness_predict_def Let_def)
  next
    case b
    then show ?thesis
      using head_predict_cases[of confidence_head ?p]
      by (cases "head_predict confidence_head ?p") (auto simp: readiness_predict_def Let_def)
  next
    case c
    then show ?thesis
      using head_predict_cases[of confidence_head ?p] head_predict_cases[of communication_head ?p]
      by (cases "head_predict confidence_head ?p"; cases "head_predict communication_head ?p")
         (auto simp: readiness_predict_def Let_def)
  next
    case d
    then show ?thesis
      using py_round_range[of s1] py_round_range[of s2] py_round_range[of s3]
      by (simp add: readiness_predict_def Let_def)
  qed
qed

lemma compute_engagement_score_range:
  "\<exists>s d. compute_engagement_score em fvs = Inr (s, d) \<and> 0 \<le> s \<and> s \<le> 100"
  using compute_engagement_score_eye_contact[of em fvs] clamp_bounds[of 0 100] by fastforce

lemma compute_emotional_regulation_score_range:
  "\<exists>s d. compute_emotional_regulation_score traj = Inr (s, d) \<and> 0 \<le> s \<and> s \<le> 100"
proof (cases "traj = []")
  case True
  then show ?thesis by (simp add: compute_emotional_regulation_score_def)
next
  case False
  from compute_emotional_regulation_score_nonempty[OF False]
  show ?thesis using clamp_bounds[of 0 100] by (fastforce simp: regulation_formula_def)
qed

lemma compute_speech_clarity_score_range:
  "\<exists>s d. compute_speech_clarity_score sqm stl = Inr (s, d) \<and> 0 \<le> s \<and> s \<le> 100"
proof -
  let ?pv = "map (\<lambda>item. get_or (st_pitch item) 0) (filter (\<lambda>item. st_pitch item \<noteq> None) stl)"
  have "\<exists>v. (if 1 < length ?pv then statistics_pvariance ?pv else Inr 0) = Inr v"
    by (auto simp: statistics_pvariance_def)
  then obtain v where v: "(if 1 < length ?pv then statistics_pvariance ?pv else Inr 0) = Inr v"
    by blast
  show ?thesis
    unfolding compute_speech_clarity_score_def Let_def v py_bind_Inr
    using clamp_bounds[of 0 100] by simp
qed

lemma compute_content_relevance_score_range:
  "\<exists>s d. compute_content_relevance_score sl fvs = Inr (s, d) \<and> 0 \<le> s \<and> s \<le> 100"
  using clamp_bounds[of 0 100]
  by (simp add: compute_content_relevance_score_def Let_def statistics_mean_def)

lemma rubric_entry_for_Inr:
  assumes "name \<in> {''communication'', ''technical_clarity'', ''behavioral_response'', ''engagement''}"
  shows "\<exists>e. rubric_entry_for (name, score) = Inr e"
proof -
  obtain defn where d: "map_of RUBRIC_DIMENSIONS name = Some defn"
    using assms by (auto simp: RUBRIC_DIMENSIONS_def)
  then have "(name, defn) \<in> set RUBRIC_DIMENSIONS" by (rule map_of_SomeD)
  from score_to_level_dimension[OF this, of score] d
  show ?thesis by (simp add: rubric_entry_for_def)
qed

lemma map_scores_to_rubric_Inr: "\<exists>r. map_scores_to_rubric ss adv = Inr r"
proof -
  obtain e1 e2 e3 e4 where
    "\<And>s. rubric_entry_for (''communication'', s) = Inr (e1 s)"
    "\<And>s. rubric_entry_for (''technical_clarity'', s) = Inr (e2 s)"
    "\<And>s. rubric_entry_for (''behavioral_response'', s) = Inr (e3 s)"
    "\<And>s. rubric_entry_for (''engagement'', s) = Inr (e4 s)"
    using rubric_entry_for_Inr[of "''communication''"] rubric_entry_for_Inr[of "''technical_clarity''"]
      rubric_entry_for_Inr[of "''behavioral_response''"] rubric_entry_for_Inr[of "''engagement''"]
    by (simp only: insert_iff simp_thms) metis
  then show ?thesis by (simp add: map_scores_to_rubric_def Let_def)
qed

lemma compute_session_scores_cases:
  "(readiness_predict fvs = Inl OverflowError
      \<and> compute_session_scores em traj sqm sl fvs ta = Inl OverflowError)
   \<or> (\<exists>r. compute_session_scores em traj sqm sl fvs ta = Inr r
        \<and> map fst (summaryScores r) =
            [''engagementScore'', ''confidenceScore'', ''speechFluency'', ''emotionalStability'',
             ''contentRelevanceScore'', ''overallPerformanceScore'',
             ''communicationEffectiveness'', ''interviewReadiness'']
        \<and> list_all (\<lambda>kv. 0 \<le> snd kv \<and> snd kv \<le> 100) (summaryScores r))"
proof -
  let ?tl = "case ta of None \<Rightarrow> [] | Some t \<Rightarrow> get_or (speechTimeline t) []"
  obtain s1 d1 where e1: "compute_engagement_score em fvs = Inr (s1, d1)" "0 \<le> s1" "s1 \<le> 100"
    using compute_engagement_score_range by blast
  obtain s2 d2 where e2: "compute_emotional_regulation_score traj = Inr (s2, d2)" "0 \<le> s2" "s2 \<le> 100"
    using compute_emotional_regulation_score_range by blast
  obtain s3 d3 where e3: "compute_speech_clarity_score sqm ?tl = Inr (s3, d3)" "0 \<le> s3" "s3 \<le> 100"
    using compute_speech_clarity_score_range by blast
  obtain s4 d4 where e4: "compute_content_relevance_score sl fvs = Inr (s4, d4)" "0 \<le> s4" "s4 \<le> 100"
    using compute_content_relevance_score_range by blast
  define ov where "ov = compute_overall_performance_score s1 s2 s3 s4"
  have ov: "0 \<le> ov" "ov \<le> 100"
    using clamp_bounds[of 0 100] by (simp_all add: ov_def compute_overall_performance_score_def Let_def)
  have cs: "compute_session_scores em traj sqm sl fvs ta =
     py_bind (readiness_predict fvs) (\<lambda>model_predictions.
            let summary_scores =
                  [(''engagementScore'', py_round s1 2),
                   (''confidenceScore'', py_round (mp_confidence model_predictions) 2),
                   (''speechFluency'', py_round s3 2),
                   (''emotionalStability'', py_round s2 2),
                   (''contentRelevanceScore'', py_round s4 2),
                   (''overallPerformanceScore'', py_round ov 2),
                   (''communicationEffectiveness'',
                      py_round (mp_communicationEffectiveness model_predictions) 2),
                   (''interviewReadiness'',
                      py_round (mp_interviewReadiness model_predictions) 2)];
                detailed =
                  \<lparr>ds_engagement = (py_round s1 2, d1),
                   ds_emotionalRegulation = (py_round s2 2, d2),
                   ds_speechClarity = (py_round s3 2, d3),
                   ds_contentRelevance = (py_round s4 2, d4),
                   ds_modelPredictions = model_predictions,
                   ds_weights = [(''engagement'', 0.3), (''emotionalRegulation'', 0.2),
                                 (''speechClarity'', 0.25), (''contentRelevance'', 0.25)]\<rparr>
            in py_bind (map_scores_to_rubric summary_scores None) (\<lambda>rubric_evaluation.
                 Inr \<lparr>summaryScores = summary_scores,
                      detailedScores = detailed,
                      rubricEvaluation = rubric_evaluation\<rparr>))"
    unfolding compute_session_scores_def Let_def e1(1) e2(1) e3(1) e4(1) py_bind_Inr prod.case ov_def
    by (rule refl)
  from readiness_predict_cases[of fvs] show ?thesis
  proof
    assume "readiness_predict fvs = Inl OverflowError"
    then show ?thesis by (simp add: cs)
  next
    assume "\<exists>mp. readiness_predict fvs = Inr mp
        \<and> 0 \<le> mp_confidence mp \<and> mp_confidence mp \<le> 100
        \<and> 0 \<le> mp_communicationEffectiveness mp \<and> mp_communicationEffectiveness mp \<le> 100
        \<and> 0 \<le> mp_interviewReadiness mp \<and> mp_interviewReadiness mp \<le> 100"
    then obtain mp where mp: "readiness_predict fvs = Inr mp"
        "0 \<le> mp_confidence mp" "mp_confidence mp \<le> 100"
        "0 \<le> mp_communicationEffectiveness mp" "mp_communicationEffectiveness mp \<le> 100"
        "0 \<le> mp_interviewReadiness mp" "mp_interviewReadiness mp \<le> 100"
      by blast
    let ?ss = "[(''engagementScore'', py_round s1 2),
                   (''confidenceScore'', py_round (mp_confidence mp) 2),
                   (''speechFluency'', py_round s3 2),
                   (''emotionalStability'', py_round s2 2),
                   (''contentRelevanceScore'', py_round s4 2),
                   (''overallPerformanceScore'', py_round ov 2),
                   (''communicationEffectiveness'', py_round (mp_communicationEffectiveness mp) 2),
                   (''interviewReadiness'', py_round (mp_interviewReadiness mp) 2)]"
    obtain rub where rub: "map_scores_to_rubric ?ss None = Inr rub"
      using map_scores_to_rubric_Inr by blast
    have "list_all (\<lambda>kv. 0 \<le> snd kv \<and> snd kv \<le> 100) ?ss"
      using py_round_range[OF e1(2,3)] py_round_range[OF e2(2,3)] py_round_range[OF e3(2,3)]
        py_round_range[OF e4(2,3)] py_round_range[OF ov] py_round_range[OF mp(2,3)]
        py_round_range[OF mp(4,5)] py_round_range[OF mp(6,7)]
      by simp
    then show ?thesis unfolding cs mp(1) py_bind_Inr Let_def rub by simp
  qed
qed

lemma compute_session_scores_raises:
  assumes "readiness_predict fvs = Inl e"
  shows "compute_session_scores em traj sqm sl fvs ta = Inl e"
proof -
  let ?tl = "case ta of None \<Rightarrow> [] | Some t \<Rightarrow> get_or (speechTimeline t) []"
  obtain s1 d1 where e1: "compute_engagement_score em fvs = Inr (s1, d1)"
    using compute_engagement_score_range by blast
  obtain s2 d2 where e2: "compute_emotional_regulation_score traj = Inr (s2, d2)"
    using compute_emotional_regulation_score_range by blast
  obtain s3 d3 where e3: "compute_speech_clarity_score sqm ?tl = Inr (s3, d3)"
    using compute_speech_clarity_score_range by blast
  obtain s4 d4 where e4: "compute_content_relevance_score sl fvs = Inr (s4, d4)"
    using compute_content_relevance_score_range by blast
  show ?thesis
    unfolding compute_session_scores_def Let_def e1 e2 e3 e4 py_bind_Inr prod.case assms py_bind_Inl
    by (rule refl)
qed

text \<open>
  C1: \<open>compute_session_scores\<close> raises for a well-formed input.  The sigmoid of the readiness
  heads calls \<open>math.exp(-raw)\<close>, and the pause entry of the pooled fused vector has a negative
  weight: a single window whose mean pause is 3000 s (what the aligner returns for one audio
  segment with that pause) gives \<open>raw = -749.83\<close> for the confidence head, and
  \<open>math.exp(749.83)\<close> is an \<open>OverflowError\<close>.
\<close>

theorem compute_session_scores_overflow:
  "(\<exists>res. fuse_multimodal_features None [] long_pause_audio [] 2 False = Some (Inr res)
          \<and> fused_feature_vectors res = [long_pause_window])
   \<and> compute_session_scores no_engagement_metrics [] no_speech_metrics [] [long_pause_window] None
       = Inl OverflowError"
  using fuse_long_pause compute_session_scores_raises[OF readiness_long_pause]
  by simp

lemma sum_list_bounds:
  assumes "\<And>x. x \<in> set xs \<Longrightarrow> a \<le> x \<and> x \<le> (b::real)"
  shows "real (length xs) * a \<le> sum_list xs \<and> sum_list xs \<le> real (length xs) * b"
  using assms by (induction xs) (auto simp: algebra_simps, fastforce+)

lemma mean_of_bounds:
  assumes "xs \<noteq> []" "\<And>x. x \<in> set xs \<Longrightarrow> a \<le> x \<and> x \<le> b"
  shows "a \<le> mean_of xs \<and> mean_of xs \<le> b"
proof -
  have n: "0 < real (length xs)" using assms(1) by simp
  from sum_list_bounds[OF assms(2)]
  have "real (length xs) * a \<le> sum_list xs" "sum_list xs \<le> real (length xs) * b" by simp_all
  then show ?thesis using n by (simp add: mean_of_def field_simps)
qed

lemma normalize_percent_unit:
  "0 \<le> adv_normalize_percent v / 100 \<and> adv_normalize_percent v / 100 \<le> 1"
  by (simp add: adv_normalize_percent_def clamp_def)

lemma build_vision_embedding_unit:
  "\<exists>v0 v1 v2 v3. build_vision_embedding em fvs = Inr [v0, v1, v2, v3]
      \<and> 0 \<le> v0 \<and> v0 \<le> 1 \<and> 0 \<le> v1 \<and> v1 \<le> 1 \<and> 0 \<le> v2 \<and> v2 \<le> 1 \<and> 0 \<le> v3 \<and> v3 \<le> 1"
proof -
  let ?hm = "map head_motion fvs"
  let ?g = "window_gazes fvs"
  define v0 where "v0 = adv_normalize_percent (get_or (eyeContactRatio em) 0) / 100"
  define v1 where "v1 = adv_normalize_percent (get_or (overallEngagement em) 0) / 100"
  define v2 where "v2 = (if ?g \<noteq> []
                          then real (length (filter (\<lambda>gaze. gaze = ''center'') ?g)) / real (length ?g)
                          else 0.5)"
  have "\<exists>m. (if ?hm \<noteq> [] then statistics_mean ?hm else Inr 10) = Inr m"
    by (simp add: statistics_mean_def)
  then obtain m where m: "(if ?hm \<noteq> [] then statistics_mean ?hm else Inr 10) = Inr m"
    by blast
  have r: "build_vision_embedding em fvs = Inr [v0, v1, v2, clamp (1 - (m / 30)) 0 1]"
    unfolding build_vision_embedding_def Let_def m py_bind_Inr v0_def v1_def v2_def by (rule refl)
  have "length (filter (\<lambda>gaze. gaze = ''center'') ?g) \<le> length ?g" by (rule length_filter_le)
  then have b2: "0 \<le> v2" "v2 \<le> 1" by (simp_all add: v2_def)
  have b0: "0 \<le> v0" "v0 \<le> 1" using normalize_percent_unit[of "get_or (eyeContactRatio em) 0"]
    by (simp_all add: v0_def)
  have b1: "0 \<le> v1" "v1 \<le> 1" using normalize_percent_unit[of "get_or (overallEngagement em) 0"]
    by (simp_all add: v1_def)
  have b3: "0 \<le> clamp (1 - (m / 30)) 0 1" "clamp (1 - (m / 30)) 0 1 \<le> 1"
    using clamp_bounds[of 0 1 "1 - (m / 30)"] by simp_all
  show ?thesis
  proof (rule exI[of _ v0], rule exI[of _ v1], rule exI[of _ v2],
         rule exI[of _ "clamp (1 - (m / 30)) 0 1"])
    from r b0 b1 b2 b3
    show "build_vision_embedding em fvs = Inr [v0, v1, v2, clamp (1 - (m / 30)) 0 1]
      \<and> 0 \<le> v0 \<and> v0 \<le> 1 \<and> 0 \<le> v1 \<and> v1 \<le> 1 \<and> 0 \<le> v2 \<and> v2 \<le> 1
      \<and> 0 \<le> clamp (1 - (m / 30)) 0 1 \<and> clamp (1 - (m / 30)) 0 1 \<le> 1"
      by (intro conjI)
  qed
qed

lemma build_audio_embedding_unit:
  "\<exists>v0 v1 v2 v3. build_audio_embedding sqm fvs = Inr [v0, v1, v2, v3]
      \<and> 0 \<le> v0 \<and> v0 \<le> 1 \<and> 0 \<le> v1 \<and> v1 \<le> 1 \<and> 0 \<le> v2 \<and> v2 \<le> 1 \<and> 0 \<le> v3 \<and> v3 \<le> 1"
proof -
  let ?pv = "map (\<lambda>item. get_or (sf_pitch (get_or (speechFeatures item) no_speech_features)) 0)
                (filter (\<lambda>item. sf_pitch (get_or (speechFeatures item) no_speech_features) \<noteq> None)
                        fvs)"
  have "\<exists>v. (if 1 < length ?pv then statistics_pvariance ?pv else Inr 0) = Inr v"
    by (auto simp: statistics_pvariance_def)
  then obtain v where v: "(if 1 < length ?pv then statistics_pvariance ?pv else Inr 0) = Inr v"
    by blast
  have r: "build_audio_embedding sqm fvs =
           Inr [clamp (1 - (\<bar>get_or (speakingRateWpm sqm) 0 - 135\<bar> / 135)) 0 1,
                clamp (1 - (get_or (averagePauseDuration sqm) 0 / 1.4)) 0 1,
                clamp (get_or (prosodyScore sqm) 0) 0 1,
                clamp (1 - (v / 220)) 0 1]"
    unfolding build_audio_embedding_def Let_def v py_bind_Inr by (rule refl)
  have cb: "\<And>x. 0 \<le> clamp x 0 1" "\<And>x. clamp x 0 1 \<le> 1"
    using clamp_bounds[of 0 1] by simp_all
  show ?thesis unfolding r using cb by blast
qed

lemma build_text_embedding_Inr:
  "\<exists>v0 v1 v2 v3. build_text_embedding sl fvs = Inr [v0, v1, v2, v3] \<and> 0 \<le> v3 \<and> v3 \<le> 1
      \<and> ((\<forall>item\<in>set sl. 0 \<le> get_or (textRelevanceScore item) 0
                            \<and> get_or (textRelevanceScore item) 0 \<le> 100)
           \<longrightarrow> 0 \<le> v0 \<and> v0 \<le> 1)
      \<and> ((\<forall>item\<in>set fvs.
              - 1 \<le> get_or (ts_semantic_relevance (get_or (textScores item) no_text_scores)) 0
              \<and> get_or (ts_semantic_relevance (get_or (textScores item) no_text_scores)) 0 \<le> 1)
           \<longrightarrow> - 1 \<le> v1 \<and> v1 \<le> 1)
      \<and> ((\<forall>item\<in>set fvs.
              - 1 \<le> get_or (ts_answer_coherence (get_or (textScores item) no_text_scores)) 0
              \<and> get_or (ts_answer_coherence (get_or (textScores item) no_text_scores)) 0 \<le> 1)
           \<longrightarrow> - 1 \<le> v2 \<and> v2 \<le> 1)"
proof -
  let ?rel = "map (\<lambda>item. get_or (textRelevanceScore item) 0) sl"
  let ?sem = "map (\<lambda>item. get_or (ts_semantic_relevance (get_or (textScores item) no_text_scores)) 0) fvs"
  let ?coh = "map (\<lambda>item. get_or (ts_answer_coherence (get_or (textScores item) no_text_scores)) 0) fvs"
  let ?sen = "map (\<lambda>item. get_or (ts_sentiment_score (get_or (textScores item) no_text_scores)) 0) fvs"
  define v0 where "v0 = (if ?rel \<noteq> [] then mean_of ?rel / 100 else 0)"
  define v1 where "v1 = (if ?sem \<noteq> [] then mean_of ?sem else 0)"
  define v2 where "v2 = (if ?coh \<noteq> [] then mean_of ?coh else 0)"
  define sm where "sm = (if ?sen \<noteq> [] then mean_of ?sen else 0)"
  have e0: "(if ?rel \<noteq> [] then py_bind (statistics_mean ?rel) (\<lambda>m. Inr (m / 100)) else Inr 0) = Inr v0"
    by (simp add: v0_def statistics_mean_def)
  have e1: "(if ?sem \<noteq> [] then statistics_mean ?sem else Inr 0) = Inr v1"
    by (simp add: v1_def statistics_mean_def)
  have e2: "(if ?coh \<noteq> [] then statistics_mean ?coh else Inr 0) = Inr v2"
    by (simp add: v2_def statistics_mean_def)
  have e3: "(if ?sen \<noteq> [] then statistics_mean ?sen else Inr 0) = Inr sm"
    by (simp add: sm_def statistics_mean_def)
  have r: "build_text_embedding sl fvs = Inr [v0, v1, v2, clamp ((sm + 1) / 2) 0 1]"
    unfolding build_text_embedding_def Let_def e0 e1 e2 e3 py_bind_Inr by (rule refl)
  have b0: "(\<forall>item\<in>set sl. 0 \<le> get_or (textRelevanceScore item) 0
                            \<and> get_or (textRelevanceScore item) 0 \<le> 100)
           \<longrightarrow> 0 \<le> v0 \<and> v0 \<le> 1"
  proof
    assume a: "\<forall>item\<in>set sl. 0 \<le> get_or (textRelevanceScore item) 0
                            \<and> get_or (textRelevanceScore item) 0 \<le> 100"
    show "0 \<le> v0 \<and> v0 \<le> 1"
    proof (cases "?rel = []")
      case True
      then show ?thesis by (simp add: v0_def)
    next
      case False
      have "0 \<le> mean_of ?rel \<and> mean_of ?rel \<le> 100"
        by (rule mean_of_bounds[OF False]) (use a in auto)
      then show ?thesis using False by (simp add: v0_def)
    qed
  qed
  have b1: "(\<forall>item\<in>set fvs.
              - 1 \<le> get_or (ts_semantic_relevance (get_or (textScores item) no_text_scores)) 0
              \<and> get_or (ts_semantic_relevance (get_or (textScores item) no_text_scores)) 0 \<le> 1)
           \<longrightarrow> - 1 \<le> v1 \<and> v1 \<le> 1"
  proof
    assume a: "\<forall>item\<in>set fvs.
              - 1 \<le> get_or (ts_semantic_relevance (get_or (textScores item) no_text_scores)) 0
              \<and> get_or (ts_semantic_relevance (get_or (textScores item) no_text_scores)) 0 \<le> 1"
    show "- 1 \<le> v1 \<and> v1 \<le> 1"
    proof (cases "?sem = []")
      case True
      then show ?thesis by (simp add: v1_def)
    next
      case False
      have "- 1 \<le> mean_of ?sem \<and> mean_of ?sem \<le> 1"
        by (rule mean_of_bounds[OF False]) (use a in auto)
      then show ?thesis using False by (simp add: v1_def)
    qed
  qed
  have b2: "(\<forall>item\<in>set fvs.
              - 1 \<le> get_or (ts_answer_coherence (get_or (textScores item) no_text_scores)) 0
              \<and> get_or (ts_answer_coherence (get_or (textScores item) no_text_scores)) 0 \<le> 1)
           \<longrightarrow> - 1 \<le> v2 \<and> v2 \<le> 1"
  proof
    assume a: "\<forall>item\<in>set fvs.
              - 1 \<le> get_or (ts_answer_coherence (get_or (textScores item) no_text_scores)) 0
              \<and> get_or (ts_answer_coherence (get_or (textScores item) no_text_scores)) 0 \<le> 1"
    show "- 1 \<le> v2 \<and> v2 \<le> 1"
    proof (cases "?coh = []")
      case True
      then show ?thesis by (simp add: v2_def)
    next
      case False
      have "- 1 \<le> mean_of ?coh \<and> mean_of ?coh \<le> 1"
        by (rule mean_of_bounds[OF False]) (use a in auto)
      then show ?thesis using False by (simp add: v2_def)
    qed
  qed
  have cb: "0 \<le> clamp ((sm + 1) / 2) 0 1" "clamp ((sm + 1) / 2) 0 1 \<le> 1"
    using clamp_bounds[of 0 1 "(sm + 1) / 2"] by simp_all
  show ?thesis
  proof (rule exI[of _ v0], rule exI[of _ v1], rule exI[of _ v2],
         rule exI[of _ "clamp ((sm + 1) / 2) 0 1"])
    from r cb b0 b1 b2
    show "build_text_embedding sl fvs = Inr [v0, v1, v2, clamp ((sm + 1) / 2) 0 1]
      \<and> 0 \<le> clamp ((sm + 1) / 2) 0 1 \<and> clamp ((sm + 1) / 2) 0 1 \<le> 1
      \<and> ((\<forall>item\<in>set sl. 0 \<le> get_or (textRelevanceScore item) 0
                            \<and> get_or (textRelevanceScore item) 0 \<le> 100)
           \<longrightarrow> 0 \<le> v0 \<and> v0 \<le> 1)
      \<and> ((\<forall>item\<in>set fvs.
              - 1 \<le> get_or (ts_semantic_relevance (get_or (textScores item) no_text_scores)) 0
              \<and> get_or (ts_semantic_relevance (get_or (textScores item) no_text_scores)) 0 \<le> 1)
           \<longrightarrow> - 1 \<le> v1 \<and> v1 \<le> 1)
      \<and> ((\<forall>item\<in>set fvs.
              - 1 \<le> get_or (ts_answer_coherence (get_or (textScores item) no_text_scores)) 0
              \<and> get_or (ts_answer_coherence (get_or (textScores item) no_text_scores)) 0 \<le> 1)
           \<longrightarrow> - 1 \<le> v2 \<and> v2 \<le> 1)"
      by (intro conjI)
  qed
qed

lemma predict_cases:
  "predict scorer em sqm sl fvs = Inl OverflowError
   \<or> (\<exists>r. predict scorer em sqm sl fvs = Inr r
        \<and> map fst (adv_scores r) =
            [''engagement'', ''communicationClarity'', ''interviewComprehension'',
             ''overallPerformance'']
        \<and> list_all (\<lambda>kv. 0 \<le> snd kv \<and> snd kv \<le> 100) (adv_scores r))"
proof -
  obtain ve where ve: "build_vision_embedding em fvs = Inr ve"
    using build_vision_embedding_unit[of em fvs] by blast
  obtain ae where ae: "build_audio_embedding sqm fvs = Inr ae"
    using build_audio_embedding_unit[of sqm fvs] by blast
  obtain te where te: "build_text_embedding sl fvs = Inr te"
    using build_text_embedding_Inr[of sl fvs] by blast
  let ?cf = "ve @ ae @ te"
  have rng: "\<And>x. 0 \<le> py_round (clamp x 0 100) 2 \<and> py_round (clamp x 0 100) 2 \<le> 100"
    using clamp_bounds[of 0 100] py_round_range by simp
  consider (a) "head_predict (adv_engagement_head scorer) ?cf = Inl OverflowError"
    | (b) r1 where "head_predict (adv_engagement_head scorer) ?cf = Inr r1"
        "head_predict (adv_communication_head scorer) ?cf = Inl OverflowError"
    | (c) r1 r2 where "head_predict (adv_engagement_head scorer) ?cf = Inr r1"
        "head_predict (adv_communication_head scorer) ?cf = Inr r2"
        "head_predict (adv_comprehension_head scorer) ?cf = Inl OverflowError"
    | (d) r1 r2 r3 where "head_predict (adv_engagement_head scorer) ?cf = Inr r1"
        "head_predict (adv_communication_head scorer) ?cf = Inr r2"
        "head_predict (adv_comprehension_head scorer) ?cf = Inr r3"
        "head_predict (adv_overall_head scorer) ?cf = Inl OverflowError"
    | (e) r1 r2 r3 r4 where "head_predict (adv_engagement_head scorer) ?cf = Inr r1"
        "head_predict (adv_communication_head scorer) ?cf = Inr r2"
        "head_predict (adv_comprehension_head scorer) ?cf = Inr r3"
        "head_predict (adv_overall_head scorer) ?cf = Inr r4"
    using head_predict_cases[of "adv_engagement_head scorer" ?cf]
      head_predict_cases[of "adv_communication_head scorer" ?cf]
      head_predict_cases[of "adv_comprehension_head scorer" ?cf]
      head_predict_cases[of "adv_overall_head scorer" ?cf]
    by blast
  then show ?thesis
  proof cases
    case a
    then show ?thesis by (simp add: predict_def ve ae te Let_def)
  next
    case b
    then show ?thesis by (simp add: predict_def ve ae te Let_def)
  next
    case c
    then show ?thesis by (simp add: predict_def ve ae te Let_def)
  next
    case d
    then show ?thesis by (simp add: predict_def ve ae te Let_def)
  next
    case e
    then show ?thesis using rng by (simp add: predict_def ve ae te Let_def)
  qed
qed

lemma head_predict_twelve:
  "head_predict \<lparr>weights = [w0, w1, w2, w3, w4, w5, w6, w7, w8, w9, w10, w11], bias = b\<rparr>
                [f0, f1, f2, f3, f4, f5, f6, f7, f8, f9, f10, f11]
   = sigmoid_to_100 (b + w0 * f0 + w1 * f1 + w2 * f2 + w3 * f3 + w4 * f4 + w5 * f5 + w6 * f6
                      + w7 * f7 + w8 * f8 + w9 * f9 + w10 * f10 + w11 * f11)"
  by (simp add: head_predict_def Let_def upt_rec[of 0]
      upt_rec[of 1] upt_rec[of 2] upt_rec[of 3] upt_rec[of 4] upt_rec[of 5] upt_rec[of 6]
      upt_rec[of 7] upt_rec[of 8] upt_rec[of 9] upt_rec[of 10] upt_rec[of 11] upt_rec[of 12])

lemma sigmoid_to_100_Inr:
  assumes "- 709 \<le> v"
  shows "\<exists>s. sigmoid_to_100 v = Inr s"
  using assms by (simp add: sigmoid_to_100_def math_exp_def exp_overflow_bound_def Let_def)

lemma predict_valid_inputs:
  assumes rel: "\<forall>item\<in>set sl. 0 \<le> get_or (textRelevanceScore item) 0
                              \<and> get_or (textRelevanceScore item) 0 \<le> 100"
    and sem: "\<forall>item\<in>set fvs.
              - 1 \<le> get_or (ts_semantic_relevance (get_or (textScores item) no_text_scores)) 0
              \<and> get_or (ts_semantic_relevance (get_or (textScores item) no_text_scores)) 0 \<le> 1"
    and coh: "\<forall>item\<in>set fvs.
              - 1 \<le> get_or (ts_answer_coherence (get_or (textScores item) no_text_scores)) 0
              \<and> get_or (ts_answer_coherence (get_or (textScores item) no_text_scores)) 0 \<le> 1"
  shows "\<exists>r. predict (ADVANCED_SCORER net) em sqm sl fvs = Inr r
        \<and> list_all (\<lambda>kv. 0 \<le> snd kv \<and> snd kv \<le> 100) (adv_scores r)"
proof -
  obtain v0 v1 v2 v3 where ve: "build_vision_embedding em fvs = Inr [v0, v1, v2, v3]"
    and vb: "0 \<le> v0" "v0 \<le> 1" "0 \<le> v1" "v1 \<le> 1" "0 \<le> v2" "v2 \<le> 1" "0 \<le> v3" "v3 \<le> 1"
    using build_vision_embedding_unit[of em fvs] by blast
  obtain a0 a1 a2 a3 where ae: "build_audio_embedding sqm fvs = Inr [a0, a1, a2, a3]"
    and ab: "0 \<le> a0" "a0 \<le> 1" "0 \<le> a1" "a1 \<le> 1" "0 \<le> a2" "a2 \<le> 1" "0 \<le> a3" "a3 \<le> 1"
    using build_audio_embedding_unit[of sqm fvs] by blast
  obtain t0 t1 t2 t3 where te: "build_text_embedding sl fvs = Inr [t0, t1, t2, t3]"
    and tb: "0 \<le> t3" "t3 \<le> 1" "0 \<le> t0" "t0 \<le> 1" "- 1 \<le> t1" "t1 \<le> 1" "- 1 \<le> t2" "t2 \<le> 1"
    using build_text_embedding_Inr[of sl fvs] rel sem coh by blast
  let ?cf = "[v0, v1, v2, v3] @ [a0, a1, a2, a3] @ [t0, t1, t2, t3]"
  have cf: "?cf = [v0, v1, v2, v3, a0, a1, a2, a3, t0, t1, t2, t3]" by simp
  have h1: "\<exists>s. head_predict (adv_engagement_head (ADVANCED_SCORER net)) ?cf = Inr s"
    unfolding cf ADVANCED_SCORER_def advanced_scorer.simps head_predict_twelve
    by (rule sigmoid_to_100_Inr) (use vb ab tb in \<open>simp; linarith\<close>)
  have h2: "\<exists>s. head_predict (adv_communication_head (ADVANCED_SCORER net)) ?cf = Inr s"
    unfolding cf ADVANCED_SCORER_def advanced_scorer.simps head_predict_twelve
    by (rule sigmoid_to_100_Inr) (use vb ab tb in \<open>simp; linarith\<close>)
  have h3: "\<exists>s. head_predict (adv_comprehension_head (ADVANCED_SCORER net)) ?cf = Inr s"
    unfolding cf ADVANCED_SCORER_def advanced_scorer.simps head_predict_twelve
    by (rule sigmoid_to_100_Inr) (use vb ab tb in \<open>simp; linarith\<close>)
  have h4: "\<exists>s. head_predict (adv_overall_head (ADVANCED_SCORER net)) ?cf = Inr s"
    unfolding cf ADVANCED_SCORER_def advanced_scorer.simps head_predict_twelve
    by (rule sigmoid_to_100_Inr) (use vb ab tb in \<open>simp; linarith\<close>)
  have "predict (ADVANCED_SCORER net) em sqm sl fvs \<noteq> Inl OverflowError"
    using h1 h2 h3 h4 by (auto simp: predict_def ve ae te Let_def)
  with predict_cases[of "ADVANCED_SCORER net" em sqm sl fvs] show ?thesis by blast
qed

end
